theory Spec2Isabelle
  imports Complex_Main
begin

section \<open>JavaScript numbers\<close>

text \<open>
  Every number of the strategy is a JavaScript \<^verbatim>\<open>number\<close>: an IEEE 754 binary64 value.
  A finite double is the real number it denotes, so that HOL equality on \<open>Fin\<close> is numeric
  equality; the three non-finite values are constructors of their own. The two zeros are
  identified: the code modelled here never divides by a computed zero and never prints,
  which are the only places where the sign of zero could be observed.
\<close>

datatype jsnum = NaN | NegInf | Fin real | PosInf

subsection \<open>Rounding to the nearest double\<close>

function halvings :: "real \<Rightarrow> nat" where
  "halvings a = (if 2 \<le> a then Suc (halvings (a / 2)) else 0)"
  by pat_completeness auto
termination
proof (relation "measure (\<lambda>a. nat \<lfloor>a\<rfloor>)")
  show "wf (measure (\<lambda>a::real. nat \<lfloor>a\<rfloor>))" by simp
next
  fix a :: real
  assume a: "2 \<le> a"
  have "a - 1 < of_int \<lfloor>a\<rfloor>" by linarith
  then have "a / 2 < of_int \<lfloor>a\<rfloor>" using a by linarith
  then have "\<lfloor>a / 2\<rfloor> < \<lfloor>a\<rfloor>" by (simp add: floor_less_iff)
  moreover have "0 < \<lfloor>a\<rfloor>" using a by simp
  ultimately show "(a / 2, a) \<in> measure (\<lambda>a. nat \<lfloor>a\<rfloor>)" by simp
qed

function doublings :: "real \<Rightarrow> nat" where
  "doublings a = (if 0 < a \<and> a < 1 then Suc (doublings (a * 2)) else 0)"
  by pat_completeness auto
termination
proof (relation "measure (\<lambda>a. nat \<lfloor>1 / a\<rfloor>)")
  show "wf (measure (\<lambda>a::real. nat \<lfloor>1 / a\<rfloor>))" by simp
next
  fix a :: real
  assume a: "0 < a \<and> a < 1"
  then have x: "1 \<le> 1 / a" by simp
  have e: "1 / (a * 2) = (1 / a) / 2" by simp
  have "\<lfloor>t / 2\<rfloor> < \<lfloor>t\<rfloor>" if t: "1 \<le> t" for t :: real
  proof -
    have "t - 1 < of_int \<lfloor>t\<rfloor>" by linarith
    moreover have "(1::real) \<le> of_int \<lfloor>t\<rfloor>" using t by simp
    ultimately have "t / 2 < of_int \<lfloor>t\<rfloor>" by linarith
    then show ?thesis by (simp add: floor_less_iff)
  qed
  from this [OF x] have "\<lfloor>1 / (a * 2)\<rfloor> < \<lfloor>1 / a\<rfloor>"
    unfolding e .
  moreover have "0 < \<lfloor>1 / a\<rfloor>" using x by simp
  ultimately have "nat \<lfloor>1 / (a * 2)\<rfloor> < nat \<lfloor>1 / a\<rfloor>" by linarith
  then show "(a * 2, a) \<in> measure (\<lambda>a. nat \<lfloor>1 / a\<rfloor>)"
    unfolding measure_def inv_image_def by blast
qed

declare halvings.simps [simp del] doublings.simps [simp del]

text \<open>The binary exponent of a positive real: \<open>2 ^ flog2 a \<le> a < 2 ^ (flog2 a + 1)\<close>.\<close>

definition flog2 :: "real \<Rightarrow> int" where
  "flog2 a = (if 1 \<le> a then int (halvings a) else - int (doublings a))"

definition pow2 :: "int \<Rightarrow> real" where
  "pow2 e = (if 0 \<le> e then 2 ^ nat e else 1 / 2 ^ nat (- e))"

definition rhe :: "real \<Rightarrow> int \<Rightarrow> int" where
  "rhe x f = (if x - of_int f < 1/2 then f else if 1/2 < x - of_int f then f + 1
              else if even f then f else f + 1)"

text \<open>Round to the nearest integer, ties to even.\<close>

definition roundHalfEven :: "real \<Rightarrow> int" where
  "roundHalfEven x = rhe x \<lfloor>x\<rfloor>"

definition packFin :: "real \<Rightarrow> jsnum" where
  "packFin r = (if 2 ^ 1024 \<le> r then PosInf else Fin r)"

definition rndAt :: "real \<Rightarrow> int \<Rightarrow> jsnum" where
  "rndAt a p = packFin (of_int (roundHalfEven (a / pow2 p)) * pow2 p)"

text \<open>
  A positive real is rounded to a multiple of its unit in the last place: 53 significant
  bits, and never finer than \<open>2 ^ -1074\<close> (the subnormal range); a result of \<open>2 ^ 1024\<close> or
  more overflows to infinity.
\<close>

definition rndPos :: "real \<Rightarrow> jsnum" where
  "rndPos a = rndAt a (max (flog2 a - 52) (- 1074))"

fun jneg :: "jsnum \<Rightarrow> jsnum" where
  "jneg NaN = NaN"
| "jneg NegInf = PosInf"
| "jneg (Fin x) = Fin (- x)"
| "jneg PosInf = NegInf"

definition rnd :: "real \<Rightarrow> jsnum" where
  "rnd q = (if q = 0 then Fin 0 else if 0 < q then rndPos q else jneg (rndPos (- q)))"

subsection \<open>Arithmetic and comparison\<close>

fun isFinite :: "jsnum \<Rightarrow> bool" where
  "isFinite (Fin x) = True"
| "isFinite _ = False"

fun jlt :: "jsnum \<Rightarrow> jsnum \<Rightarrow> bool" where
  "jlt (Fin x) (Fin y) = (x < y)"
| "jlt NegInf (Fin y) = True"
| "jlt NegInf PosInf = True"
| "jlt (Fin x) PosInf = True"
| "jlt _ _ = False"

fun jle :: "jsnum \<Rightarrow> jsnum \<Rightarrow> bool" where
  "jle (Fin x) (Fin y) = (x \<le> y)"
| "jle NaN _ = False"
| "jle _ NaN = False"
| "jle NegInf _ = True"
| "jle _ PosInf = True"
| "jle _ _ = False"

definition jgt :: "jsnum \<Rightarrow> jsnum \<Rightarrow> bool" where
  "jgt a b = jlt b a"

definition jge :: "jsnum \<Rightarrow> jsnum \<Rightarrow> bool" where
  "jge a b = jle b a"

text \<open>\<^verbatim>\<open>a === b\<close> on numbers: \<^verbatim>\<open>NaN\<close> is not equal to itself.\<close>

definition jeq :: "jsnum \<Rightarrow> jsnum \<Rightarrow> bool" where
  "jeq a b = (a = b \<and> a \<noteq> NaN)"

fun jsign :: "jsnum \<Rightarrow> int" where
  "jsign NaN = 0"
| "jsign NegInf = - 1"
| "jsign (Fin x) = (if 0 < x then 1 else if x < 0 then - 1 else 0)"
| "jsign PosInf = 1"

definition infOfSign :: "int \<Rightarrow> jsnum" where
  "infOfSign s = (if 0 < s then PosInf else if s < 0 then NegInf else NaN)"

fun jadd :: "jsnum \<Rightarrow> jsnum \<Rightarrow> jsnum" where
  "jadd (Fin x) (Fin y) = rnd (x + y)"
| "jadd NaN _ = NaN"
| "jadd _ NaN = NaN"
| "jadd PosInf NegInf = NaN"
| "jadd NegInf PosInf = NaN"
| "jadd PosInf _ = PosInf"
| "jadd _ PosInf = PosInf"
| "jadd NegInf _ = NegInf"
| "jadd _ NegInf = NegInf"

definition jsub :: "jsnum \<Rightarrow> jsnum \<Rightarrow> jsnum" where
  "jsub a b = jadd a (jneg b)"

fun jmul :: "jsnum \<Rightarrow> jsnum \<Rightarrow> jsnum" where
  "jmul (Fin x) (Fin y) = rnd (x * y)"
| "jmul NaN _ = NaN"
| "jmul _ NaN = NaN"
| "jmul a b = infOfSign (jsign a * jsign b)"

text \<open>Division; a zero divisor is taken as \<open>+0\<close>.\<close>

fun jdiv :: "jsnum \<Rightarrow> jsnum \<Rightarrow> jsnum" where
  "jdiv (Fin x) (Fin y) = (if y = 0 then infOfSign (jsign (Fin x)) else rnd (x / y))"
| "jdiv NaN _ = NaN"
| "jdiv _ NaN = NaN"
| "jdiv (Fin x) _ = Fin 0"
| "jdiv a (Fin y) = infOfSign (jsign a * (if y < 0 then - 1 else 1))"
| "jdiv _ _ = NaN"

fun jabs :: "jsnum \<Rightarrow> jsnum" where
  "jabs NaN = NaN"
| "jabs (Fin x) = Fin \<bar>x\<bar>"
| "jabs _ = PosInf"

text \<open>\<^verbatim>\<open>Math.max\<close> and \<^verbatim>\<open>Math.min\<close> of two arguments: \<^verbatim>\<open>NaN\<close> if either is.\<close>

definition jmax :: "jsnum \<Rightarrow> jsnum \<Rightarrow> jsnum" where
  "jmax a b = (if a = NaN \<or> b = NaN then NaN else if jlt a b then b else a)"

definition jmin :: "jsnum \<Rightarrow> jsnum \<Rightarrow> jsnum" where
  "jmin a b = (if a = NaN \<or> b = NaN then NaN else if jlt b a then b else a)"

fun jfloor :: "jsnum \<Rightarrow> jsnum" where
  "jfloor (Fin x) = Fin (of_int \<lfloor>x\<rfloor>)"
| "jfloor a = a"

fun jtrunc :: "jsnum \<Rightarrow> jsnum" where
  "jtrunc (Fin x) = Fin (of_int (if 0 \<le> x then \<lfloor>x\<rfloor> else \<lceil>x\<rceil>))"
| "jtrunc a = a"

text \<open>\<^verbatim>\<open>x ?? d\<close> on an optional field.\<close>

definition dflt :: "'a option \<Rightarrow> 'a \<Rightarrow> 'a" where
  "dflt x d = (case x of None \<Rightarrow> d | Some v \<Rightarrow> v)"

text \<open>The doubles denoted by the decimal literals of the source that are not dyadic.\<close>

definition d0_7 :: real where "d0_7 = 3152519739159347 / 4503599627370496"
definition d1_8 :: real where "d1_8 = 8106479329266893 / 4503599627370496"
definition d0_995 :: real where "d0_995 = 8962163258467287 / 9007199254740992"
definition d1_005 :: real where "d1_005 = 1131529406376837 / 1125899906842624"
definition d0_01 :: real where "d0_01 = 5764607523034235 / 576460752303423488"
definition d0_9 :: real where "d0_9 = 8106479329266893 / 9007199254740992"
definition d0_85 :: real where "d0_85 = 7656119366529843 / 9007199254740992"

section \<open>Data model\<close>

text \<open>
  \<^verbatim>\<open>StrategyConfig\<close> (its declaration, \<^verbatim>\<open>types.ts\<close>, is not part of the sources; the fields
  are those the calculator and the trader read). The configuration is a static object
  literal, so a numeric field is a finite double, a length is an integer, and a session
  time is the hour and minute its \<^verbatim>\<open>'HH:MM'\<close> string parses to. \<open>None\<close> is a field left
  undefined, for which the code supplies a default with \<^verbatim>\<open>??\<close>.
\<close>

record StrategyConfig =
  tradingStartTime :: "(int \<times> int) option"
  tradingEndTime :: "(int \<times> int) option"
  higherTimeframe :: "real option"
  useEmaFilter :: bool
  emaLength :: "int option"
  htfEMALength :: "int option"
  htfUseForming :: bool
  breakoutLookbackBars :: "int option"
  minBarsBeforeExit :: "real option"
  minAtrToTrade :: "real option"
  deltaSpikeThreshold :: "real option"
  deltaSMALength :: "int option"
  deltaFadeRatio :: "real option"
  deltaSurgeMultiplier :: "real option"
  useAtrCap :: bool
  atrCap :: "real option"
  atrStopLossMultiplier :: "real option"
  tickExitGraceMs :: "real option"
  trailActivationATR :: "real option"
  trailOffsetATR :: "real option"
  contractQuantity :: "real option"
  useIntraBarDetection :: bool
  intraBarCheckIntervalMs :: "real option"
  intraBarMinAccumulationMs :: "real option"
  intraBarConfirmationChecks :: "real option"
  intraBarConfirmationWindowMs :: "real option"
  sendWebhook :: bool

record BarData =
  timestamp :: string
  bopen :: jsnum
  high :: jsnum
  low :: jsnum
  close :: jsnum
  volume :: "jsnum option"
  delta :: "jsnum option"

datatype trend = Bullish | Bearish | Neutral

record MarketState =
  atr :: jsnum
  higherTimeframeTrend :: trend
  deltaCumulative :: jsnum

datatype direction = Long | Short

record position =
  entryPrice :: jsnum
  entryTime :: jsnum
  direction :: direction
  stopLoss :: jsnum
  atrSeedForStop :: jsnum
  atrSeedForTrail :: jsnum

text \<open>The fields of \<^verbatim>\<open>MNQDeltaTrendCalculator\<close>.\<close>

record calc =
  config :: StrategyConfig
  bars3min :: "BarData list"
  bars15min :: "BarData list"
  isWarmUpProcessed :: bool
  currentPosition :: "position option"
  trailingStopLevel :: jsnum
  trailArmed :: bool
  noTrailBeforeMs :: jsnum
  lastHTFBucketStartMs :: "jsnum option"
  intraBarDeltaHistory :: "(jsnum \<times> jsnum) list"
  lastIntraBarSignalTime :: jsnum
  lastEntryBarTimestamp :: "string option"
  atrAtSignal :: jsnum

section \<open>Position and protective stops\<close>

definition clearPosition :: "calc \<Rightarrow> calc" where
  "clearPosition c = c\<lparr>currentPosition := None, trailingStopLevel := Fin 0, trailArmed := False\<rparr>"

definition hasPosition :: "calc \<Rightarrow> bool" where
  "hasPosition c = (currentPosition c \<noteq> None)"

definition getPositionDirection :: "calc \<Rightarrow> direction option" where
  "getPositionDirection c = map_option direction (currentPosition c)"

definition captureAtrAtSignal :: "calc \<Rightarrow> jsnum \<Rightarrow> calc" where
  "captureAtrAtSignal c a = c\<lparr>atrAtSignal := a\<rparr>"

text \<open>
  \<^verbatim>\<open>setPosition(entryPrice, direction, atrForTrail?)\<close>; \<open>now\<close> is the reading of
  \<^verbatim>\<open>Date.now()\<close>.
\<close>

definition setPosition :: "calc \<Rightarrow> jsnum \<Rightarrow> direction \<Rightarrow> jsnum option \<Rightarrow> real \<Rightarrow> calc" where
  "setPosition c entry dir atrForTrail now =
    (let liveAtr = (case atrForTrail of
                      Some a \<Rightarrow> if jgt a (Fin 0) then a else atrAtSignal c
                    | None \<Rightarrow> atrAtSignal c);
         seedForStop = (if useAtrCap (config c)
                        then jmin liveAtr (Fin (dflt (atrCap (config c)) 16))
                        else liveAtr);
         seedForTrail = liveAtr;
         slDist = jmul seedForStop (Fin (dflt (atrStopLossMultiplier (config c)) (3/4)));
         sl = (if dir = Long then jsub entry slDist else jadd entry slDist)
     in c\<lparr>currentPosition := Some \<lparr>entryPrice = entry, entryTime = Fin now, direction = dir,
                                     stopLoss = sl, atrSeedForStop = seedForStop,
                                     atrSeedForTrail = seedForTrail\<rparr>,
          trailingStopLevel := sl,
          trailArmed := False,
          noTrailBeforeMs := jadd (Fin now) (Fin (dflt (tickExitGraceMs (config c)) 0))\<rparr>)"

datatype stopHit = NoHit | HitStop | HitTrail

definition trailLong :: "calc \<Rightarrow> position \<Rightarrow> jsnum \<Rightarrow> jsnum \<Rightarrow> jsnum \<Rightarrow> stopHit \<times> calc" where
  "trailLong c p lastPrice act off =
    (let c1 = (if \<not> trailArmed c \<and> jge (jsub lastPrice (entryPrice p)) act
               then c\<lparr>trailArmed := True,
                      trailingStopLevel := jmax (stopLoss p) (jsub lastPrice off)\<rparr>
               else c)
     in if trailArmed c1 then
          (let candidate = jmax (stopLoss p) (jsub lastPrice off);
               c2 = (if jgt candidate (trailingStopLevel c1)
                     then c1\<lparr>trailingStopLevel := candidate\<rparr> else c1)
           in if jle lastPrice (trailingStopLevel c2) then (HitTrail, c2) else (NoHit, c2))
        else (NoHit, c1))"

definition trailShort :: "calc \<Rightarrow> position \<Rightarrow> jsnum \<Rightarrow> jsnum \<Rightarrow> jsnum \<Rightarrow> stopHit \<times> calc" where
  "trailShort c p lastPrice act off =
    (let c1 = (if \<not> trailArmed c \<and> jge (jsub (entryPrice p) lastPrice) act
               then c\<lparr>trailArmed := True,
                      trailingStopLevel := jmin (stopLoss p) (jadd lastPrice off)\<rparr>
               else c)
     in if trailArmed c1 then
          (let candidate = jmin (stopLoss p) (jadd lastPrice off);
               c2 = (if jlt candidate (trailingStopLevel c1)
                     then c1\<lparr>trailingStopLevel := candidate\<rparr> else c1)
           in if jge lastPrice (trailingStopLevel c2) then (HitTrail, c2) else (NoHit, c2))
        else (NoHit, c1))"

text \<open>
  \<^verbatim>\<open>onTickForProtectiveStops(lastPrice, _atrNow)\<close>, with the reading \<open>now\<close> of
  \<^verbatim>\<open>Date.now()\<close>. The result is the verdict and the calculator after the call.
\<close>

definition onTickForProtectiveStops :: "calc \<Rightarrow> jsnum \<Rightarrow> jsnum \<Rightarrow> real \<Rightarrow> stopHit \<times> calc" where
  "onTickForProtectiveStops c lastPrice atrNow now =
    (case currentPosition c of
       None \<Rightarrow> (NoHit, c)
     | Some p \<Rightarrow>
        if \<not> isFinite lastPrice then (NoHit, c)
        else if direction p = Long \<and> jle lastPrice (stopLoss p) then (HitStop, c)
        else if direction p = Short \<and> jge lastPrice (stopLoss p) then (HitStop, c)
        else if jlt (Fin now) (noTrailBeforeMs c) then (NoHit, c)
        else if \<not> isFinite (atrSeedForTrail p) \<or> jle (atrSeedForTrail p) (Fin 0) then (NoHit, c)
        else
          (let act = jmul (atrSeedForTrail p) (Fin (dflt (trailActivationATR (config c)) (1/8)));
               off = jmul (atrSeedForTrail p) (Fin (dflt (trailOffsetATR (config c)) (1/8)))
           in if direction p = Long then trailLong c p lastPrice act off
              else trailShort c p lastPrice act off))"

text \<open>
  A run of protective-stop evaluations: each tick is the last price, the ATR argument and
  the clock reading of one call.
\<close>

fun stopTicks :: "calc \<Rightarrow> (jsnum \<times> jsnum \<times> real) list \<Rightarrow> calc" where
  "stopTicks c [] = c"
| "stopTicks c ((px, a, now) # ts) = stopTicks (snd (onTickForProtectiveStops c px a now)) ts"

text \<open>
  The relation between the trailing level and the fixed stop of an open position: the
  level is on the profit side of the stop, or on it.
\<close>

definition stopInv :: "calc \<Rightarrow> bool" where
  "stopInv c = (case currentPosition c of
      None \<Rightarrow> True
    | Some p \<Rightarrow> (case direction p of
          Long \<Rightarrow> jge (trailingStopLevel c) (stopLoss p)
        | Short \<Rightarrow> jle (trailingStopLevel c) (stopLoss p)))"

section \<open>The calculator\<close>

text \<open>
  What the calculator takes from its platform and from modules that are not part of the
  sources, as parameters: \<open>dateMs\<close> is \<^verbatim>\<open>new Date(s).getTime()\<close>; \<open>nyClock\<close> is the hour and
  minute that \<^verbatim>\<open>Intl.DateTimeFormat\<close> prints for a timestamp in the New York time zone, after
  \<^verbatim>\<open>parseInt\<close>, and \<open>None\<close> when formatting throws; \<open>calculateEMA\<close> is the method of
  \<^verbatim>\<open>TechnicalCalculator\<close> (\<^verbatim>\<open>utils/technical\<close>); \<open>toISOString\<close> is
  \<^verbatim>\<open>new Date(ms).toISOString()\<close>.
\<close>

record env =
  dateMs :: "string \<Rightarrow> jsnum"
  nyClock :: "string \<Rightarrow> (jsnum \<times> jsnum) option"
  calculateEMA :: "jsnum list \<Rightarrow> int \<Rightarrow> jsnum list"
  toISOString :: "jsnum \<Rightarrow> string"

datatype sig = Buy | Sell | Hold | Exit

text \<open>
  The reason of a signal is a diagnostic string; each constructor stands for one message
  of the source and carries the numbers the message prints.
\<close>

datatype reason =
    WarmUpInProgress | OutOfSession | HitStopAt jsnum | SameBarReEntry
  | AtrTooLow jsnum real | DeltaSmaNotReady | BarCloseFade jsnum jsnum
  | EmaLongFilter | EmaShortFilter | LongEntry jsnum | ShortEntry jsnum | NoSignal
  | WarmUpIncomplete | AlreadyInPosition | OutOfSessionIntra | AccumBelow real
  | NeedConfirms real | Cooldown | EmaNotReady | AtrGateFailed | IntraFade jsnum jsnum
  | EmaFilter | IntraEntry jsnum | NoIntraSignal

record TradeSignal =
  signal :: sig
  reason :: reason
  confidence :: real

definition hold :: "reason \<Rightarrow> TradeSignal" where
  "hold r = \<lparr>signal = Hold, reason = r, confidence = 0\<rparr>"

record gates =
  brokeUpCloseTol :: bool
  brokeDownCloseTol :: bool
  passLong :: bool
  passShort :: bool

datatype timeframe = TF3min | HTF

text \<open>The field initialisers and the constructor of the class.\<close>

definition newCalculator :: "StrategyConfig \<Rightarrow> calc" where
  "newCalculator cfg =
    \<lparr>config = cfg, bars3min = [], bars15min = [], isWarmUpProcessed = False,
     currentPosition = None, trailingStopLevel = Fin 0, trailArmed = False,
     noTrailBeforeMs = Fin 0, lastHTFBucketStartMs = None, intraBarDeltaHistory = [],
     lastIntraBarSignalTime = Fin 0, lastEntryBarTimestamp = None, atrAtSignal = Fin 0\<rparr>"

definition pushIntraBarDelta :: "calc \<Rightarrow> jsnum \<Rightarrow> jsnum \<Rightarrow> calc" where
  "pushIntraBarDelta c d t = c\<lparr>intraBarDeltaHistory := intraBarDeltaHistory c @ [(d, t)]\<rparr>"

definition resetState :: "calc \<Rightarrow> calc" where
  "resetState c = c\<lparr>lastHTFBucketStartMs := None, intraBarDeltaHistory := [],
     lastIntraBarSignalTime := Fin 0, lastEntryBarTimestamp := None, currentPosition := None,
     trailingStopLevel := Fin 0, trailArmed := False, atrAtSignal := Fin 0\<rparr>"

definition resetIntraBarTracking :: "calc \<Rightarrow> calc" where
  "resetIntraBarTracking c = c\<lparr>intraBarDeltaHistory := []\<rparr>"

definition clearCooldowns :: "calc \<Rightarrow> calc" where
  "clearCooldowns c = c\<lparr>lastIntraBarSignalTime := Fin 0, lastEntryBarTimestamp := None\<rparr>"

definition isInTradingSession :: "env \<Rightarrow> calc \<Rightarrow> string \<Rightarrow> bool" where
  "isInTradingSession e c ts =
    (case nyClock e ts of
       None \<Rightarrow> False
     | Some (h, m) \<Rightarrow>
        (let currentMinutes = jadd (jmul h (Fin 60)) m;
             (sh, sm) = dflt (tradingStartTime (config c)) (9, 30);
             (eh, em) = dflt (tradingEndTime (config c)) (15, 55);
             startMinutes = jadd (jmul (Fin (of_int sh)) (Fin 60)) (Fin (of_int sm));
             endMinutes = jadd (jmul (Fin (of_int eh)) (Fin 60)) (Fin (of_int em))
         in jge currentMinutes startMinutes \<and> jle currentMinutes endMinutes))"

text \<open>
  The bar that \<^verbatim>\<open>processWarmUpBar\<close> and \<^verbatim>\<open>processNewBar\<close> store: the incoming bar with its
  delta truncated, or, when it has no finite delta, the volume signed by the move of the
  close against \<open>prevClose\<close>.
\<close>

definition normalizeBar :: "jsnum \<Rightarrow> BarData \<Rightarrow> BarData" where
  "normalizeBar prevClose bar =
    (let vol = (case volume bar of Some v \<Rightarrow> if isFinite v then v else Fin 0 | None \<Rightarrow> Fin 0);
         signedVol = (if isFinite prevClose \<and> isFinite (close bar)
                      then (if jgt (close bar) prevClose then vol
                            else if jlt (close bar) prevClose then jneg vol else Fin 0)
                      else Fin 0)
     in bar\<lparr>delta := Some (case delta bar of
                               Some d \<Rightarrow> if isFinite d then jtrunc d else jtrunc signedVol
                             | None \<Rightarrow> jtrunc signedVol)\<rparr>)"

definition lastClose :: "BarData list \<Rightarrow> jsnum" where
  "lastClose bs = (if bs = [] then NaN else close (last bs))"

text \<open>\<^verbatim>\<open>arr.push(x); if (arr.length > cap) arr.shift()\<close>.\<close>

definition pushCapped :: "nat \<Rightarrow> 'a list \<Rightarrow> 'a \<Rightarrow> 'a list" where
  "pushCapped cap xs x = (if cap < length (xs @ [x]) then tl (xs @ [x]) else xs @ [x])"

definition processWarmUpBar :: "calc \<Rightarrow> BarData \<Rightarrow> timeframe \<Rightarrow> calc" where
  "processWarmUpBar c bar tf =
    (case tf of
       TF3min \<Rightarrow> c\<lparr>bars3min := pushCapped 2000 (bars3min c)
                                  (normalizeBar (lastClose (bars3min c)) bar)\<rparr>
     | HTF \<Rightarrow> c\<lparr>bars15min := pushCapped 1000 (bars15min c)
                                (normalizeBar (lastClose (bars15min c)) bar)\<rparr>)"

definition completeWarmUp :: "calc \<Rightarrow> calc" where
  "completeWarmUp c = c\<lparr>isWarmUpProcessed := True\<rparr>"

definition updateHigherTimeframeBars :: "env \<Rightarrow> calc \<Rightarrow> BarData \<Rightarrow> calc" where
  "updateHigherTimeframeBars e c bar =
    (let htfMin = jmax (Fin 1) (Fin (dflt (higherTimeframe (config c)) 15));
         stepMs = jmul (jmul htfMin (Fin 60)) (Fin 1000);
         tsMs = dateMs e (timestamp bar);
         bucketStartMs = jmul (jfloor (jdiv tsMs stepMs)) stepMs
     in if bars15min c = [] \<or> (case lastHTFBucketStartMs c of
                                   None \<Rightarrow> True | Some l \<Rightarrow> jgt bucketStartMs l)
        then c\<lparr>bars15min := pushCapped 1000 (bars15min c) bar,
               lastHTFBucketStartMs := Some bucketStartMs\<rparr>
        else
          (let l = last (bars15min c);
               l' = l\<lparr>high := jmax (high l) (high bar),
                      low := jmin (low l) (low bar),
                      close := close bar,
                      volume := Some (jadd (dflt (volume l) (Fin 0)) (dflt (volume bar) (Fin 0))),
                      delta := (case delta bar of
                                  Some d \<Rightarrow> Some (jadd (dflt (delta l) (Fin 0)) d)
                                | None \<Rightarrow> delta l)\<rparr>
           in c\<lparr>bars15min := butlast (bars15min c) @ [l']\<rparr>))"

definition validBar :: "BarData \<Rightarrow> bool" where
  "validBar b = (isFinite (bopen b) \<and> isFinite (high b) \<and> isFinite (low b) \<and> isFinite (close b))"

text \<open>
  The first loop of \<^verbatim>\<open>calculateATR\<close>: it walks the history from the newest bar down and
  collects valid bars until it holds \<open>period + 1 = 15\<close> of them. The first argument is the
  part of the history not yet visited, newest first.
\<close>

fun collectValidTail :: "BarData list \<Rightarrow> BarData list \<Rightarrow> BarData list" where
  "collectValidTail [] acc = acc"
| "collectValidTail (b # bs) acc =
    (if length acc < 15
     then collectValidTail bs (if validBar b then acc @ [b] else acc)
     else acc)"

definition trueRange :: "BarData \<Rightarrow> BarData \<Rightarrow> jsnum" where
  "trueRange prev cur =
    jmax (jmax (jsub (high cur) (low cur)) (jabs (jsub (high cur) (close prev))))
         (jabs (jsub (low cur) (close prev)))"

fun trueRanges :: "BarData list \<Rightarrow> jsnum list" where
  "trueRanges (a # b # bs) = trueRange a b # trueRanges (b # bs)"
| "trueRanges _ = []"

text \<open>The Wilder recurrence over the true ranges after the first fourteen.\<close>

fun wilder :: "jsnum \<Rightarrow> jsnum list \<Rightarrow> jsnum" where
  "wilder a [] = a"
| "wilder a (t # ts) = wilder (jdiv (jadd (jmul a (Fin 13)) t) (Fin 14)) ts"

definition calculateATR :: "calc \<Rightarrow> jsnum" where
  "calculateATR c =
    (if length (bars3min c) < 15 then NaN
     else
       (let validTail = rev (collectValidTail (rev (bars3min c)) [])
        in if length validTail < 15 then NaN
           else
             (let tr = trueRanges validTail
              in if length tr < 14 then NaN
                 else wilder (jdiv (foldl jadd (Fin 0) (take 14 tr)) (Fin 14)) (drop 14 tr))))"

text \<open>The last element of a series, \<^verbatim>\<open>xs[xs.length - 1]\<close>; \<^verbatim>\<open>undefined\<close> compares as \<^verbatim>\<open>NaN\<close>.\<close>

definition lastNum :: "jsnum list \<Rightarrow> jsnum" where
  "lastNum xs = (if xs = [] then NaN else last xs)"

definition checkLtfEmaFilter :: "env \<Rightarrow> calc \<Rightarrow> bool \<times> bool \<times> jsnum \<times> jsnum" where
  "checkLtfEmaFilter e c =
    (if \<not> useEmaFilter (config c) then (True, True, lastClose (bars3min c), NaN)
     else
       (let L = max 1 (dflt (emaLength (config c)) 21);
            closes = map close (bars3min c)
        in if int (length closes) < L then (False, False, NaN, NaN)
           else
             (let emaSeries = calculateEMA e closes L;
                  lc = lastNum closes;
                  lastEma = lastNum emaSeries
              in (jgt lc lastEma, jlt lc lastEma, lc, lastEma))))"

definition determineTrend :: "env \<Rightarrow> calc \<Rightarrow> trend" where
  "determineTrend e c =
    (if length (bars15min c) < 2 then Neutral
     else
       (let L = max 1 (dflt (htfEMALength (config c)) 9);
            lastIdx = (if htfUseForming (config c) then length (bars15min c) - 1
                       else length (bars15min c) - 2);
            closes = map close (take (lastIdx + 1) (bars15min c))
        in if int (length closes) < L then Neutral
           else
             (let emaSeries = calculateEMA e closes L;
                  px = lastNum closes;
                  ema = lastNum emaSeries
              in if jgt px ema then Bullish else if jlt px ema then Bearish else Neutral)))"

text \<open>\<^verbatim>\<open>Math.max(...xs)\<close> and \<^verbatim>\<open>Math.min(...xs)\<close>.\<close>

definition maxOf :: "jsnum list \<Rightarrow> jsnum" where
  "maxOf xs = foldl jmax NegInf xs"

definition minOf :: "jsnum list \<Rightarrow> jsnum" where
  "minOf xs = foldl jmin PosInf xs"

definition checkBreakoutCloseTol :: "calc \<Rightarrow> bool \<times> bool" where
  "checkBreakoutCloseTol c =
    (let n = max 1 (dflt (breakoutLookbackBars (config c)) 20)
     in if int (length (bars3min c)) < n + 1 then (False, False)
        else
          (let recent = take (nat n) (drop (length (bars3min c) - nat n - 1) (bars3min c));
               lc = close (last (bars3min c));
               hi = maxOf (map high recent);
               lo = minOf (map low recent)
           in (jgt lc (jmul hi (Fin d0_995)), jlt lc (jmul lo (Fin d1_005)))))"

definition checkBreakoutCloseTolForming :: "calc \<Rightarrow> BarData \<Rightarrow> bool \<times> bool" where
  "checkBreakoutCloseTolForming c forming =
    (let n = max 1 (dflt (breakoutLookbackBars (config c)) 20)
     in if int (length (bars3min c)) < n then (False, False)
        else
          (let window = drop (length (bars3min c) - nat n) (bars3min c);
               hi = maxOf (map high window);
               lo = minOf (map low window)
           in (jgt (close forming) (jmul hi (Fin d0_995)),
               jlt (close forming) (jmul lo (Fin d1_005)))))"

text \<open>The stored bars whose timestamp is later than the entry time.\<close>

definition barsSinceEntry :: "env \<Rightarrow> BarData list \<Rightarrow> jsnum \<Rightarrow> nat" where
  "barsSinceEntry e bs t = length (filter (\<lambda>b. jgt (dateMs e (timestamp b)) t) bs)"

definition exitSignal :: "sig \<Rightarrow> jsnum \<Rightarrow> TradeSignal" where
  "exitSignal s sl = \<lparr>signal = s, reason = HitStopAt sl, confidence = 1\<rparr>"

definition checkExitConditions :: "env \<Rightarrow> calc \<Rightarrow> BarData \<Rightarrow> MarketState \<Rightarrow> TradeSignal option" where
  "checkExitConditions e c bar ms =
    (case currentPosition c of
       None \<Rightarrow> None
     | Some p \<Rightarrow>
        (let minBars = jmax (Fin 0) (Fin (dflt (minBarsBeforeExit (config c)) 0))
         in if jlt (Fin (of_nat (barsSinceEntry e (bars3min c) (entryTime p)))) minBars then None
            else if direction p = Long \<and> jle (low bar) (stopLoss p)
              then Some (exitSignal Sell (stopLoss p))
            else if direction p = Short \<and> jge (high bar) (stopLoss p)
              then Some (exitSignal Buy (stopLoss p))
            else None))"

text \<open>\<^verbatim>\<open>Number(d) || 0\<close> on a number.\<close>

definition numOrZero :: "jsnum \<Rightarrow> jsnum" where
  "numOrZero d = (if d = NaN \<or> d = Fin 0 then Fin 0 else d)"

definition deltaAt :: "BarData list \<Rightarrow> nat \<Rightarrow> jsnum" where
  "deltaAt bs i =
    (case delta (bs ! i) of
       Some d \<Rightarrow> d
     | None \<Rightarrow> jsub (close (bs ! i)) (if i = 0 then bopen (bs ! i) else close (bs ! (i - 1))))"

text \<open>
  \<^verbatim>\<open>smaSignedDelta(n, endIndex)\<close>. Both callers pass the index of the last stored bar, so
  every index of the loop is in range.
\<close>

definition smaSignedDelta :: "calc \<Rightarrow> int \<Rightarrow> int \<Rightarrow> jsnum" where
  "smaSignedDelta c n endIndex =
    (if endIndex < 0 then NaN
     else
       (let start = max 0 (endIndex - n + 1)
        in if endIndex - start + 1 < n then NaN
           else jdiv (foldl (\<lambda>sum i. jadd sum (numOrZero (deltaAt (bars3min c) i)))
                            (Fin 0) [nat start ..< nat endIndex + 1])
                     (Fin (of_int n))))"

definition fadeOk :: "calc \<Rightarrow> jsnum \<Rightarrow> jsnum \<Rightarrow> bool" where
  "fadeOk c peakAbs currAbs =
    (jeq peakAbs (Fin 0)
     \<or> jge currAbs (jmul peakAbs (Fin (dflt (deltaFadeRatio (config c)) d0_7))))"

text \<open>
  The fade check of the bar-close path, made only when two bars are stored: \<open>Some\<close> is the
  hold it returns, \<open>None\<close> is falling through.
\<close>

definition barCloseFade :: "calc \<Rightarrow> jsnum \<Rightarrow> TradeSignal option" where
  "barCloseFade c dlt =
    (if 2 \<le> length (bars3min c) then
       (let prevDelta = dflt (delta (bars3min c ! (length (bars3min c) - 2))) (Fin 0);
            peakAbs = jmax (jabs prevDelta) (jabs dlt);
            currAbs = jabs dlt
        in if \<not> fadeOk c peakAbs currAbs then Some (hold (BarCloseFade currAbs peakAbs))
           else None)
     else None)"

definition generateSignal :: "calc \<Rightarrow> BarData \<Rightarrow> MarketState \<Rightarrow> gates \<Rightarrow> TradeSignal \<times> calc" where
  "generateSignal c bar ms g =
    (if lastEntryBarTimestamp c = Some (timestamp bar) then (hold SameBarReEntry, c)
     else
       (let atrThreshold = dflt (minAtrToTrade (config c)) 0
        in if \<not> (isFinite (atr ms) \<and> jgt (atr ms) (Fin atrThreshold))
           then (hold (AtrTooLow (atr ms) atrThreshold), c)
           else
             (let spike = Fin (dflt (deltaSpikeThreshold (config c)) 450);
                  dlt = dflt (delta bar) (Fin 0);
                  len = max 1 (dflt (deltaSMALength (config c)) 20);
                  deltaSMA = smaSignedDelta c len (int (length (bars3min c)) - 1)
              in if \<not> isFinite deltaSMA then (hold DeltaSmaNotReady, c)
                 else
                   (case barCloseFade c dlt of
                      Some h \<Rightarrow> (h, c)
                    | None \<Rightarrow>
                         (let surgeMult = Fin (dflt (deltaSurgeMultiplier (config c)) d1_8);
                              longThreshold = jmul (jabs deltaSMA) surgeMult;
                              shortThreshold = jmul (jneg (jabs deltaSMA)) surgeMult;
                              passDeltaLong = (jgt dlt spike \<and> jgt dlt longThreshold);
                              passDeltaShort = (jlt dlt (jneg spike) \<and> jlt dlt shortThreshold);
                              htf = higherTimeframeTrend ms
                          in if passDeltaLong \<and> htf = Bullish \<and> brokeUpCloseTol g then
                               (if useEmaFilter (config c) \<and> \<not> passLong g
                                then (hold EmaLongFilter, c)
                                else (\<lparr>signal = Buy, reason = LongEntry dlt, confidence = d0_9\<rparr>,
                                      c\<lparr>lastEntryBarTimestamp := Some (timestamp bar)\<rparr>))
                             else if passDeltaShort \<and> htf = Bearish \<and> brokeDownCloseTol g then
                               (if useEmaFilter (config c) \<and> \<not> passShort g
                                then (hold EmaShortFilter, c)
                                else (\<lparr>signal = Sell, reason = ShortEntry dlt, confidence = d0_9\<rparr>,
                                      c\<lparr>lastEntryBarTimestamp := Some (timestamp bar)\<rparr>))
                             else (hold NoSignal, c))))))"

definition generateSignalForFormingBar :: "calc \<Rightarrow> BarData \<Rightarrow> MarketState \<Rightarrow> gates \<Rightarrow> TradeSignal" where
  "generateSignalForFormingBar c formingBar ms g =
    (let atrThreshold = dflt (minAtrToTrade (config c)) 0
     in if \<not> (isFinite (atr ms) \<and> jgt (atr ms) (Fin atrThreshold)) then hold AtrGateFailed
        else
          (let spike = Fin (dflt (deltaSpikeThreshold (config c)) 450);
               dlt = dflt (delta formingBar) (Fin 0);
               len = max 1 (dflt (deltaSMALength (config c)) 20);
               deltaSMA = smaSignedDelta c len (int (length (bars3min c)) - 1)
           in if \<not> isFinite deltaSMA then hold DeltaSmaNotReady
              else
                (let surgeMult = Fin (dflt (deltaSurgeMultiplier (config c)) d1_8);
                     longThreshold = jmul (jabs deltaSMA) surgeMult;
                     shortThreshold = jmul (jneg (jabs deltaSMA)) surgeMult;
                     peakAbs = maxOf (map (\<lambda>(d, t). jabs d) (intraBarDeltaHistory c)
                                      @ [jabs dlt, Fin 0]);
                     currAbs = jabs dlt;
                     ok = fadeOk c peakAbs currAbs
                 in if \<not> ok then hold (IntraFade currAbs peakAbs)
                    else
                      (let passDeltaLong = (jgt dlt spike \<and> jgt dlt longThreshold \<and> ok);
                           passDeltaShort = (jlt dlt (jneg spike) \<and> jlt dlt shortThreshold \<and> ok);
                           htf = higherTimeframeTrend ms
                       in if passDeltaLong \<and> htf = Bullish \<and> brokeUpCloseTol g then
                            (if useEmaFilter (config c) \<and> \<not> passLong g then hold EmaFilter
                             else \<lparr>signal = Buy, reason = IntraEntry dlt, confidence = d0_85\<rparr>)
                          else if passDeltaShort \<and> htf = Bearish \<and> brokeDownCloseTol g then
                            (if useEmaFilter (config c) \<and> \<not> passShort g then hold EmaFilter
                             else \<lparr>signal = Sell, reason = IntraEntry dlt, confidence = d0_85\<rparr>)
                          else hold NoIntraSignal))))"

text \<open>
  \<^verbatim>\<open>processNewBar(incoming, marketState)\<close>: the signal, the calculator and the market state
  after the call (the caller's \<^verbatim>\<open>marketState\<close> object is updated in place).
\<close>

definition processNewBar :: "env \<Rightarrow> calc \<Rightarrow> BarData \<Rightarrow> MarketState \<Rightarrow> TradeSignal \<times> calc \<times> MarketState" where
  "processNewBar e c incoming ms =
    (if \<not> isWarmUpProcessed c then (hold WarmUpInProgress, c, ms)
     else
       (let bar = normalizeBar (lastClose (bars3min c)) incoming;
            c1 = c\<lparr>bars3min := pushCapped 2000 (bars3min c) bar\<rparr>;
            c2 = updateHigherTimeframeBars e c1 bar;
            a = calculateATR c2;
            tr = determineTrend e c2;
            (brokeUp, brokeDown) = checkBreakoutCloseTol c2;
            (pl, ps, lc, lastEma) = checkLtfEmaFilter e c2;
            ms' = ms\<lparr>atr := (if isFinite a then a else Fin 0),
                     higherTimeframeTrend := tr,
                     deltaCumulative := jadd (deltaCumulative ms) (dflt (delta bar) (Fin 0))\<rparr>
        in if \<not> isInTradingSession e c2 (timestamp incoming) then (hold OutOfSession, c2, ms')
           else
             (case checkExitConditions e c2 bar ms' of
                Some ex \<Rightarrow> (ex, c2, ms')
              | None \<Rightarrow>
                 (let (sg, c3) = generateSignal c2 bar ms'
                        \<lparr>brokeUpCloseTol = brokeUp, brokeDownCloseTol = brokeDown,
                         passLong = pl, passShort = ps\<rparr>
                  in (sg, c3, ms')))))"

text \<open>
  \<^verbatim>\<open>evaluateFormingBar(formingBar, marketState, accumulationTimeMs)\<close>, with the reading
  \<open>now\<close> of \<^verbatim>\<open>Date.now()\<close>.
\<close>

definition evaluateFormingBar :: "env \<Rightarrow> calc \<Rightarrow> BarData \<Rightarrow> MarketState \<Rightarrow> jsnum \<Rightarrow> real \<Rightarrow> TradeSignal \<times> calc \<times> MarketState" where
  "evaluateFormingBar e c formingBar ms accumulationTimeMs now =
    (if \<not> isWarmUpProcessed c then (hold WarmUpIncomplete, c, ms)
     else if hasPosition c then (hold AlreadyInPosition, c, ms)
     else if \<not> isInTradingSession e c (timestamp formingBar) then (hold OutOfSessionIntra, c, ms)
     else
       (let minAccumMs = dflt (intraBarMinAccumulationMs (config c)) 3000
        in if jlt accumulationTimeMs (Fin minAccumMs) then (hold (AccumBelow minAccumMs), c, ms)
           else
             (let confirmWindowMs = dflt (intraBarConfirmationWindowMs (config c)) 500;
                  recentHistory = filter (\<lambda>(d, t). jle (jsub (Fin now) t) (Fin confirmWindowMs))
                                         (intraBarDeltaHistory c);
                  required = dflt (intraBarConfirmationChecks (config c)) 3
              in if real (length recentHistory) < required then (hold (NeedConfirms required), c, ms)
                 else if jlt (jsub (Fin now) (lastIntraBarSignalTime c)) (Fin 2000)
                   then (hold Cooldown, c, ms)
                 else
                   (let a = calculateATR c;
                        tr = determineTrend e c;
                        (brokeUp, brokeDown) = checkBreakoutCloseTolForming c formingBar;
                        (pl0, ps0, lc, lastEma) = checkLtfEmaFilter e c
                    in if useEmaFilter (config c) \<and> \<not> isFinite lastEma
                       then (hold EmaNotReady, c, ms)
                       else
                         (let pl = (\<not> useEmaFilter (config c) \<or> jgt (close formingBar) lastEma);
                              ps = (\<not> useEmaFilter (config c) \<or> jlt (close formingBar) lastEma);
                              ms' = ms\<lparr>atr := (if isFinite a then a else Fin 0),
                                       higherTimeframeTrend := tr\<rparr>;
                              sg = generateSignalForFormingBar c formingBar ms'
                                     \<lparr>brokeUpCloseTol = brokeUp, brokeDownCloseTol = brokeDown,
                                      passLong = pl, passShort = ps\<rparr>
                          in (sg, (if signal sg \<noteq> Hold
                                   then c\<lparr>lastIntraBarSignalTime := Fin now\<rparr> else c), ms'))))))"

definition calculatePositionSize :: "calc \<Rightarrow> jsnum \<Rightarrow> jsnum \<Rightarrow> jsnum \<Rightarrow> jsnum" where
  "calculatePositionSize c currentPrice a accountBalance =
    (let riskAmount = jmul accountBalance (Fin d0_01);
         riskPerContract = jmul a (Fin (dflt (atrStopLossMultiplier (config c)) (3/4)))
     in if \<not> isFinite riskPerContract \<or> jle riskPerContract (Fin 0) then Fin 1
        else jmin (jmax (Fin 1) (jfloor (jdiv riskAmount riskPerContract)))
                  (Fin (dflt (contractQuantity (config c)) 1)))"

section \<open>The trader\<close>

record GatewayQuote =
  qContractId :: string
  lastPrice :: jsnum
  qVolume :: "jsnum option"

datatype webhookAction = BUY | SELL | FLAT

text \<open>The calls the trader makes on the broker client and on the webhook.\<close>

datatype call =
    GetEquity
  | CreateOrder string nat jsnum
  | ClosePosition string
  | PostWebhook webhookAction "jsnum option"

text \<open>
  An activation of \<^verbatim>\<open>handleSignal\<close> suspended at one of its two \<^verbatim>\<open>await\<close>s, with the
  locals it has captured.
\<close>

datatype stage = AwaitEquity | AwaitOrder jsnum

record entry =
  eSignal :: TradeSignal
  eBar :: BarData
  eBarId :: "jsnum option"
  eDirection :: direction
  eAtrSnapshot :: jsnum
  eStage :: stage

text \<open>
  The fields of \<^verbatim>\<open>MNQDeltaTrendTrader\<close>. The last three are not fields of the class: they
  record what the JavaScript runtime holds, the suspended activations of \<^verbatim>\<open>handleSignal\<close>,
  the number of \<^verbatim>\<open>closePosition\<close> promises not yet settled, and the log of the calls made
  so far.
\<close>

record trader =
  calculator :: calc
  tconfig :: StrategyConfig
  contractId :: string
  lastPriceByContract :: "string \<rightharpoonup> jsnum"
  lastCumVolByContract :: "string \<rightharpoonup> jsnum"
  signedVolInBarByContract :: "string \<rightharpoonup> jsnum"
  volInBarByContract :: "string \<rightharpoonup> jsnum"
  prevClosedBarClose :: "jsnum option"
  barOpenPx :: "jsnum option"
  barHighPx :: "jsnum option"
  barLowPx :: "jsnum option"
  barStartMs :: "jsnum option"
  liveBarOpen :: "jsnum option"
  liveBarHigh :: "jsnum option"
  liveBarLow :: "jsnum option"
  liveBarStartMs :: "jsnum option"
  lastIntraBarCheckMs :: jsnum
  enteredBarStartMs :: "jsnum option"
  isEnteringPosition :: bool
  running :: bool
  isFlattening :: bool
  reconciling :: bool
  marketState :: MarketState
  inflight :: "entry list"
  flattens :: nat
  calls :: "call list"

definition barStepMs :: jsnum where
  "barStepMs = Fin 180000"

definition newMarketState :: MarketState where
  "newMarketState = \<lparr>atr = Fin 0, higherTimeframeTrend = Neutral, deltaCumulative = Fin 0\<rparr>"

definition newTrader :: "calc \<Rightarrow> StrategyConfig \<Rightarrow> string \<Rightarrow> trader" where
  "newTrader c cfg cid =
    \<lparr>calculator = c, tconfig = cfg, contractId = cid,
     lastPriceByContract = Map.empty, lastCumVolByContract = Map.empty,
     signedVolInBarByContract = Map.empty, volInBarByContract = Map.empty,
     prevClosedBarClose = None,
     barOpenPx = None, barHighPx = None, barLowPx = None, barStartMs = None,
     liveBarOpen = None, liveBarHigh = None, liveBarLow = None, liveBarStartMs = None,
     lastIntraBarCheckMs = Fin 0, enteredBarStartMs = None, isEnteringPosition = False,
     running = False, isFlattening = False, reconciling = False,
     marketState = newMarketState, inflight = [], flattens = 0, calls = []\<rparr>"

definition resetTraderState :: "trader \<Rightarrow> trader" where
  "resetTraderState t =
    t\<lparr>lastPriceByContract := Map.empty, lastCumVolByContract := Map.empty,
      signedVolInBarByContract := Map.empty, volInBarByContract := Map.empty,
      prevClosedBarClose := None,
      barOpenPx := None, barHighPx := None, barLowPx := None, barStartMs := None,
      liveBarOpen := None, liveBarHigh := None, liveBarLow := None, liveBarStartMs := None,
      lastIntraBarCheckMs := Fin 0, enteredBarStartMs := None, isEnteringPosition := False,
      isFlattening := False, reconciling := False, marketState := newMarketState\<rparr>"

text \<open>The part of \<^verbatim>\<open>start()\<close> that touches the state of the strategy.\<close>

definition start :: "trader \<Rightarrow> trader" where
  "start t = (let t1 = resetTraderState t
              in t1\<lparr>calculator := resetState (calculator t1), running := True\<rparr>)"

definition stop :: "trader \<Rightarrow> trader" where
  "stop t = t\<lparr>running := False\<rparr>"

text \<open>\<^verbatim>\<open>a === b\<close> on values that are a number or \<^verbatim>\<open>null\<close>.\<close>

definition strictEq :: "jsnum option \<Rightarrow> jsnum option \<Rightarrow> bool" where
  "strictEq a b = (case (a, b) of
      (None, None) \<Rightarrow> True
    | (Some x, Some y) \<Rightarrow> jeq x y
    | _ \<Rightarrow> False)"

text \<open>\<^verbatim>\<open>Math.floor(nowMs / this.barStepMs) * this.barStepMs\<close>.\<close>

definition bucketOf :: "real \<Rightarrow> jsnum" where
  "bucketOf nowMs = jmul (jfloor (jdiv (Fin nowMs) barStepMs)) barStepMs"

text \<open>
  \<^verbatim>\<open>handleSignal\<close> up to its first \<^verbatim>\<open>await\<close>: either it returns, or it records the bar,
  takes both locks, calls \<^verbatim>\<open>getEquity\<close> and is suspended.
\<close>

definition handleSignal :: "trader \<Rightarrow> TradeSignal \<Rightarrow> BarData \<Rightarrow> trader" where
  "handleSignal t sg bar =
    (if signal sg = Exit \<or> signal sg = Hold then t
     else if hasPosition (calculator t) then t
     else if isEnteringPosition t \<or> reconciling t then t
     else if strictEq (enteredBarStartMs t) (barStartMs t) then t
     else
       (let minAtr = jmax (Fin 0) (Fin (dflt (minAtrToTrade (tconfig t)) 0));
            atrNow = atr (marketState t)
        in if \<not> isFinite atrNow \<or> jlt atrNow minAtr then t
           else
             t\<lparr>enteredBarStartMs := barStartMs t,
               isEnteringPosition := True,
               reconciling := True,
               calculator := captureAtrAtSignal (calculator t) atrNow,
               calls := calls t @ [GetEquity],
               inflight := inflight t @
                 [\<lparr>eSignal = sg, eBar = bar, eBarId = barStartMs t,
                   eDirection = (if signal sg = Buy then Long else Short),
                   eAtrSnapshot = atrNow, eStage = AwaitEquity\<rparr>]\<rparr>))"

text \<open>The \<^verbatim>\<open>catch\<close> and \<^verbatim>\<open>finally\<close> blocks of \<^verbatim>\<open>handleSignal\<close>, for the activation \<open>en\<close>.\<close>

definition entryFailed :: "trader \<Rightarrow> entry \<Rightarrow> trader" where
  "entryFailed t en =
    t\<lparr>enteredBarStartMs := (if strictEq (barStartMs t) (eBarId en) then None
                             else enteredBarStartMs t),
      isEnteringPosition := False,
      reconciling := False\<rparr>"

definition removeAt :: "nat \<Rightarrow> 'a list \<Rightarrow> 'a list" where
  "removeAt i xs = take i xs @ drop (Suc i) xs"

text \<open>
  The promise of \<^verbatim>\<open>getEquity\<close> awaited by the \<open>i\<close>-th suspended activation settles: \<open>None\<close>
  is a rejection, \<open>Some bal\<close> the equity. On a value the activation sizes the order,
  calls \<^verbatim>\<open>createOrder\<close> and is suspended again.
\<close>

definition equitySettled :: "trader \<Rightarrow> nat \<Rightarrow> jsnum option \<Rightarrow> trader" where
  "equitySettled t i res =
    (if i < length (inflight t) \<and> eStage (inflight t ! i) = AwaitEquity then
       (let en = inflight t ! i
        in case res of
             None \<Rightarrow> (entryFailed t en)\<lparr>inflight := removeAt i (inflight t)\<rparr>
           | Some acctBal \<Rightarrow>
              (let qty = jmax (Fin 1) (calculatePositionSize (calculator t) (close (eBar en))
                                         (eAtrSnapshot en) acctBal)
               in t\<lparr>calls := calls t @
                       [CreateOrder (contractId t) (if signal (eSignal en) = Buy then 0 else 1) qty],
                     inflight := (inflight t)[i := en\<lparr>eStage := AwaitOrder qty\<rparr>]\<rparr>))
     else t)"

text \<open>
  The promise of \<^verbatim>\<open>createOrder\<close> awaited by the \<open>i\<close>-th suspended activation settles;
  \<open>ok\<close> tells whether it was fulfilled, \<open>now\<close> is the reading of \<^verbatim>\<open>Date.now()\<close> in
  \<^verbatim>\<open>setPosition\<close>.
\<close>

definition orderSettled :: "trader \<Rightarrow> nat \<Rightarrow> bool \<Rightarrow> real \<Rightarrow> trader" where
  "orderSettled t i ok now =
    (if i < length (inflight t) then
       (case eStage (inflight t ! i) of
          AwaitEquity \<Rightarrow> t
        | AwaitOrder qty \<Rightarrow>
           (let en = inflight t ! i
            in if ok then
                 t\<lparr>calculator := resetIntraBarTracking
                       (setPosition (calculator t) (close (eBar en)) (eDirection en)
                          (Some (eAtrSnapshot en)) now),
                   calls := calls t @
                     (if sendWebhook (tconfig t)
                      then [PostWebhook (if signal (eSignal en) = Buy then BUY else SELL) (Some qty)]
                      else []),
                   isEnteringPosition := False,
                   reconciling := False,
                   inflight := removeAt i (inflight t)\<rparr>
               else (entryFailed t en)\<lparr>inflight := removeAt i (inflight t)\<rparr>))
     else t)"

text \<open>The promise of \<^verbatim>\<open>closePosition\<close> settles: the \<^verbatim>\<open>then\<close> or the \<^verbatim>\<open>catch\<close> callback.\<close>

definition flattenSettled :: "trader \<Rightarrow> bool \<Rightarrow> trader" where
  "flattenSettled t ok =
    (if flattens t = 0 then t
     else if ok then
       t\<lparr>calculator := clearCooldowns (clearPosition (calculator t)),
         isFlattening := False,
         reconciling := False,
         calls := calls t @ (if sendWebhook (tconfig t) then [PostWebhook FLAT None] else []),
         flattens := flattens t - 1\<rparr>
     else t\<lparr>isFlattening := False, reconciling := False, flattens := flattens t - 1\<rparr>)"

text \<open>
  \<^verbatim>\<open>closeBarAndProcess\<close>: the trader after the call and the bar it has emitted to
  \<^verbatim>\<open>processNewBar\<close>, if any.
\<close>

definition closeBarAndProcess :: "env \<Rightarrow> trader \<Rightarrow> trader \<times> BarData option" where
  "closeBarAndProcess e t =
    (case (barStartMs t, barOpenPx t, barHighPx t, barLowPx t) of
       (Some startMs, Some openPx, Some highPx, Some lowPx) \<Rightarrow>
        (case lastPriceByContract t (contractId t) of
           None \<Rightarrow> (t, None)
         | Some closePx \<Rightarrow>
            if \<not> isFinite closePx then (t, None)
            else
              (let vol = jmax (Fin 0) (jfloor (dflt (volInBarByContract t (contractId t)) (Fin 0)));
                   signed = jtrunc (dflt (signedVolInBarByContract t (contractId t)) (Fin 0));
                   barEndIso = toISOString e (jsub (jadd startMs barStepMs) (Fin 1));
                   closedBar = \<lparr>timestamp = barEndIso, bopen = openPx, high = highPx, low = lowPx,
                                close = closePx, volume = Some vol, delta = Some signed\<rparr>;
                   t1 = t\<lparr>prevClosedBarClose := Some closePx,
                          volInBarByContract := (volInBarByContract t)(contractId t \<mapsto> Fin 0),
                          signedVolInBarByContract :=
                            (signedVolInBarByContract t)(contractId t \<mapsto> Fin 0)\<rparr>;
                   t2 = (if \<not> isWarmUpProcessed (calculator t1)
                            \<and> 20 \<le> length (bars3min (calculator t1))
                         then t1\<lparr>calculator := completeWarmUp (calculator t1)\<rparr> else t1);
                   (sg, c', ms') = processNewBar e (calculator t2) closedBar (marketState t2);
                   t3 = t2\<lparr>calculator := c', marketState := ms'\<rparr>;
                   t4 = (if \<not> useIntraBarDetection (tconfig t3) \<and> \<not> reconciling t3
                         then handleSignal t3 sg closedBar else t3)
               in (t4\<lparr>barOpenPx := Some closePx, barHighPx := Some closePx,
                       barLowPx := Some closePx\<rparr>, Some closedBar)))
     | _ \<Rightarrow> (t, None))"

text \<open>Opening a bucket at price \<open>px\<close>: the assignments both rollover paths share.\<close>

definition openBucket :: "trader \<Rightarrow> jsnum \<Rightarrow> real \<Rightarrow> jsnum \<Rightarrow> trader" where
  "openBucket t px nowMs bucketStart =
    t\<lparr>barStartMs := Some bucketStart,
      barOpenPx := Some px, barHighPx := Some px, barLowPx := Some px,
      liveBarOpen := Some px, liveBarHigh := Some px, liveBarLow := Some px,
      liveBarStartMs := Some (Fin nowMs)\<rparr>"

definition zeroAccumulators :: "trader \<Rightarrow> string \<Rightarrow> trader" where
  "zeroAccumulators t cid =
    t\<lparr>volInBarByContract := (volInBarByContract t)(cid \<mapsto> Fin 0),
      signedVolInBarByContract := (signedVolInBarByContract t)(cid \<mapsto> Fin 0)\<rparr>"

text \<open>The rest of a rollover, after the prior bar is closed.\<close>

definition rollOver :: "trader \<Rightarrow> jsnum \<Rightarrow> real \<Rightarrow> jsnum \<Rightarrow> string \<Rightarrow> trader" where
  "rollOver t px nowMs bucketStart cid =
    (let t1 = (openBucket t px nowMs bucketStart)
                \<lparr>lastIntraBarCheckMs := Fin 0, enteredBarStartMs := None\<rparr>;
         t2 = t1\<lparr>calculator := resetIntraBarTracking (calculator t1)\<rparr>
     in zeroAccumulators t2 cid)"

text \<open>The bucketing step of \<^verbatim>\<open>onQuote\<close>; \<^verbatim>\<open>null\<close> under \<^verbatim>\<open>Math.max\<close> counts as 0.\<close>

definition onQuoteBucket :: "env \<Rightarrow> trader \<Rightarrow> string \<Rightarrow> jsnum \<Rightarrow> real \<Rightarrow> trader \<times> BarData option" where
  "onQuoteBucket e t cid px nowMs =
    (let bucketStart = bucketOf nowMs
     in case barStartMs t of
          None \<Rightarrow> (zeroAccumulators (openBucket t px nowMs bucketStart) cid, None)
        | Some startMs \<Rightarrow>
           if jgt bucketStart startMs then
             (let (t1, emitted) = closeBarAndProcess e t
              in (rollOver t1 px nowMs bucketStart cid, emitted))
           else
             (t\<lparr>barHighPx := Some (jmax (dflt (barHighPx t) (Fin 0)) px),
                barLowPx := Some (jmin (dflt (barLowPx t) (Fin 0)) px),
                liveBarHigh := Some (jmax (dflt (liveBarHigh t) (Fin 0)) px),
                liveBarLow := Some (jmin (dflt (liveBarLow t) (Fin 0)) px)\<rparr>, None))"

text \<open>The volume of one tick, from the cumulative counter and its previous reading.\<close>

definition tickVolume :: "jsnum option \<Rightarrow> jsnum \<Rightarrow> jsnum" where
  "tickVolume prevCum cumVol =
    (case prevCum of
       Some pc \<Rightarrow> if jge cumVol pc then jsub cumVol pc else cumVol
     | None \<Rightarrow> cumVol)"

text \<open>The write of the reset branch: the stored baseline is set to 0.\<close>

definition noteCounterReset :: "trader \<Rightarrow> string \<Rightarrow> jsnum \<Rightarrow> trader" where
  "noteCounterReset t cid cumVol =
    (case lastCumVolByContract t cid of
       Some pc \<Rightarrow> if jge cumVol pc then t
                  else t\<lparr>lastCumVolByContract := (lastCumVolByContract t)(cid \<mapsto> Fin 0)\<rparr>
     | None \<Rightarrow> t)"

text \<open>The per-tick signed delta, against the previous tick's price.\<close>

definition tickSigned :: "jsnum option \<Rightarrow> jsnum \<Rightarrow> jsnum \<Rightarrow> jsnum" where
  "tickSigned prevPx px dVol =
    (case prevPx of
       Some pp \<Rightarrow> if jgt px pp then dVol else if jlt px pp then jneg dVol else Fin 0
     | None \<Rightarrow> Fin 0)"

text \<open>The whole-bar delta, against the close of the previous closed bar.\<close>

definition wholeBarDelta :: "jsnum option \<Rightarrow> jsnum \<Rightarrow> jsnum \<Rightarrow> jsnum" where
  "wholeBarDelta prevClose px barVol =
    (case prevClose of
       None \<Rightarrow> Fin 0
     | Some pc \<Rightarrow> if jgt px pc then barVol else if jlt px pc then jneg barVol else Fin 0)"

text \<open>The accumulation step of \<^verbatim>\<open>onQuote\<close>, with the clock reading \<open>nowMs\<close> of the tick.\<close>

definition onQuoteVolume :: "trader \<Rightarrow> string \<Rightarrow> jsnum \<Rightarrow> jsnum \<Rightarrow> real \<Rightarrow> trader" where
  "onQuoteVolume t cid px cumVol nowMs =
    (let prevPx = lastPriceByContract t cid;
         prevCum = lastCumVolByContract t cid;
         dVol = tickVolume prevCum cumVol;
         t1 = noteCounterReset t cid cumVol;
         t2 = t1\<lparr>volInBarByContract := (volInBarByContract t1)
                   (cid \<mapsto> jadd (dflt (volInBarByContract t1 cid) (Fin 0))
                                 (if isFinite dVol then dVol else Fin 0))\<rparr>;
         signed = tickSigned prevPx px dVol;
         barVol = dflt (volInBarByContract t2 cid) (Fin 0);
         barDelta = wholeBarDelta (prevClosedBarClose t2) px barVol;
         t3 = t2\<lparr>signedVolInBarByContract := (signedVolInBarByContract t2)(cid \<mapsto> barDelta)\<rparr>;
         t4 = t3\<lparr>calculator := pushIntraBarDelta (calculator t3) signed (Fin nowMs)\<rparr>
     in t4\<lparr>lastPriceByContract := (lastPriceByContract t4)(cid \<mapsto> px),
           lastCumVolByContract := (lastCumVolByContract t4)(cid \<mapsto> cumVol)\<rparr>)"

text \<open>
  The protective exits of \<^verbatim>\<open>onQuote\<close>; the flag tells that \<^verbatim>\<open>onQuote\<close> returns at once
  (\<^verbatim>\<open>if (this.reconciling) return\<close>).
\<close>

definition onQuoteExits :: "trader \<Rightarrow> jsnum \<Rightarrow> real \<Rightarrow> trader \<times> bool" where
  "onQuoteExits t px nowStops =
    (if hasPosition (calculator t) \<and> \<not> isFlattening t then
       (if reconciling t then (t, True)
        else
          (let (hit, c') = onTickForProtectiveStops (calculator t) px (atr (marketState t)) nowStops;
               t1 = t\<lparr>calculator := c'\<rparr>
           in if hit = HitStop \<or> hit = HitTrail then
                (t1\<lparr>reconciling := True, isFlattening := True,
                    calls := calls t1 @ [ClosePosition (contractId t1)],
                    flattens := Suc (flattens t1)\<rparr>, False)
              else (t1, False)))
     else (t, False))"

definition checkIntraBarSignal :: "env \<Rightarrow> trader \<Rightarrow> jsnum \<Rightarrow> real \<Rightarrow> real \<Rightarrow> trader" where
  "checkIntraBarSignal e t currentPrice nowMs nowEval =
    (case barStartMs t of
       None \<Rightarrow> t
     | Some startMs \<Rightarrow>
        (let formingBar =
               \<lparr>timestamp = toISOString e (jsub (jadd startMs barStepMs) (Fin 1)),
                bopen = dflt (liveBarOpen t) (Fin 0),
                high = dflt (liveBarHigh t) (Fin 0),
                low = dflt (liveBarLow t) (Fin 0),
                close = currentPrice,
                volume = Some (dflt (volInBarByContract t (contractId t)) (Fin 0)),
                delta = Some (dflt (signedVolInBarByContract t (contractId t)) (Fin 0))\<rparr>;
             accumulationMs =
               (case liveBarStartMs t of
                  None \<Rightarrow> Fin 0
                | Some l \<Rightarrow> if l = NaN \<or> l = Fin 0 then Fin 0 else jsub (Fin nowMs) l);
             (sg, c', ms') = evaluateFormingBar e (calculator t) formingBar (marketState t)
                               accumulationMs nowEval;
             t1 = t\<lparr>calculator := c', marketState := ms'\<rparr>
         in if signal sg \<noteq> Hold then handleSignal t1 sg formingBar else t1))"

definition onQuoteIntraBar :: "env \<Rightarrow> trader \<Rightarrow> jsnum \<Rightarrow> real \<Rightarrow> real \<Rightarrow> trader" where
  "onQuoteIntraBar e t px nowMs nowEval =
    (if useIntraBarDetection (tconfig t) \<and> \<not> hasPosition (calculator t) \<and> \<not> isFlattening t then
       (let checkIntervalMs = dflt (intraBarCheckIntervalMs (tconfig t)) 100
        in if jge (jsub (Fin nowMs) (lastIntraBarCheckMs t)) (Fin checkIntervalMs)
           then checkIntraBarSignal e (t\<lparr>lastIntraBarCheckMs := Fin nowMs\<rparr>) px nowMs nowEval
           else t)
     else t)"

text \<open>
  \<^verbatim>\<open>onQuote\<close>. The three readings of the clock are those of \<^verbatim>\<open>onQuote\<close> itself, of
  \<^verbatim>\<open>onTickForProtectiveStops\<close> and of \<^verbatim>\<open>evaluateFormingBar\<close>. The result is the trader after
  the callback and the bar it has closed, if any.
\<close>

definition onQuote :: "env \<Rightarrow> trader \<Rightarrow> GatewayQuote \<Rightarrow> real \<Rightarrow> real \<Rightarrow> real \<Rightarrow> trader \<times> BarData option" where
  "onQuote e t q nowMs nowStops nowEval =
    (if \<not> running t then (t, None)
     else if qContractId q \<noteq> contractId t then (t, None)
     else if \<not> isFinite (lastPrice q) then (t, None)
     else
       (let cid = qContractId q;
            px = lastPrice q;
            (t1, emitted) = onQuoteBucket e t cid px nowMs;
            t2 = onQuoteVolume t1 cid px (dflt (qVolume q) (Fin 0)) nowMs;
            (t3, returned) = onQuoteExits t2 px nowStops
        in if returned then (t3, emitted)
           else (onQuoteIntraBar e t3 px nowMs nowEval, emitted)))"

text \<open>\<^verbatim>\<open>maybeCloseBarByClock\<close>, the heartbeat, with its reading of the clock.\<close>

definition maybeCloseBarByClock :: "env \<Rightarrow> trader \<Rightarrow> real \<Rightarrow> trader \<times> BarData option" where
  "maybeCloseBarByClock e t nowMs =
    (if \<not> running t then (t, None)
     else case barStartMs t of
            None \<Rightarrow> (t, None)
          | Some startMs \<Rightarrow>
             (let bucketStart = bucketOf nowMs
              in if jgt bucketStart startMs then
                   (case lastPriceByContract t (contractId t) of
                      None \<Rightarrow> (t, None)
                    | Some lastPx \<Rightarrow>
                       if \<not> isFinite lastPx then (t, None)
                       else
                         (let (t1, emitted) = closeBarAndProcess e t
                          in (rollOver t1 lastPx nowMs bucketStart (contractId t1), emitted)))
                 else (t, None)))"

text \<open>What can happen to a trader: a callback of the runtime, each run to completion.\<close>

datatype event =
    Quote GatewayQuote real real real
  | Heartbeat real
  | EquitySettled nat "jsnum option"
  | OrderSettled nat bool real
  | FlattenSettled bool
  | Start
  | Stop

fun step :: "env \<Rightarrow> trader \<Rightarrow> event \<Rightarrow> trader" where
  "step e t (Quote q nowMs nowStops nowEval) = fst (onQuote e t q nowMs nowStops nowEval)"
| "step e t (Heartbeat nowMs) = fst (maybeCloseBarByClock e t nowMs)"
| "step e t (EquitySettled i res) = equitySettled t i res"
| "step e t (OrderSettled i ok now) = orderSettled t i ok now"
| "step e t (FlattenSettled ok) = flattenSettled t ok"
| "step e t Start = start t"
| "step e t Stop = stop t"

fun run :: "env \<Rightarrow> trader \<Rightarrow> event list \<Rightarrow> trader" where
  "run e t [] = t"
| "run e t (ev # evs) = run e (step e t ev) evs"

section \<open>Concrete states\<close>

text \<open>A calculator whose configuration leaves every optional field to its default.\<close>

definition exampleCalc :: calc where
  "exampleCalc = newCalculator
     \<lparr>tradingStartTime = None, tradingEndTime = None, higherTimeframe = None,
      useEmaFilter = False, emaLength = None, htfEMALength = None, htfUseForming = False,
      breakoutLookbackBars = None, minBarsBeforeExit = None, minAtrToTrade = None,
      deltaSpikeThreshold = None, deltaSMALength = None, deltaFadeRatio = None,
      deltaSurgeMultiplier = None, useAtrCap = False, atrCap = None,
      atrStopLossMultiplier = None, tickExitGraceMs = None, trailActivationATR = None,
      trailOffsetATR = None, contractQuantity = None, useIntraBarDetection = False,
      intraBarCheckIntervalMs = None, intraBarMinAccumulationMs = None,
      intraBarConfirmationChecks = None, intraBarConfirmationWindowMs = None,
      sendWebhook = False\<rparr>"

text \<open>A platform for closed examples: every timestamp is invalid and has no clock reading.\<close>

definition exampleEnv :: env where
  "exampleEnv = \<lparr>dateMs = (\<lambda>s. NaN), nyClock = (\<lambda>s. None),
     calculateEMA = (\<lambda>xs n. []), toISOString = (\<lambda>ms. [])\<rparr>"

text \<open>The running trader of the example after a first tick at price 100, counter at 10.\<close>

definition tickedTrader :: trader where
  "tickedTrader = fst (onQuote exampleEnv (start (newTrader exampleCalc (config exampleCalc) ''MNQ''))
     \<lparr>qContractId = ''MNQ'', lastPrice = Fin 100, qVolume = Some (Fin 10)\<rparr> 0 0 0)"

text \<open>
  Two platforms that read every timestamp as one millisecond after the epoch: on the
  first, the New York clock shows 03:00, on the second 10:00.
\<close>

definition nightEnv :: env where
  "nightEnv = \<lparr>dateMs = (\<lambda>s. Fin 1), nyClock = (\<lambda>s. Some (Fin 3, Fin 0)),
     calculateEMA = (\<lambda>xs n. []), toISOString = (\<lambda>ms. [])\<rparr>"

definition dayEnv :: env where
  "dayEnv = \<lparr>dateMs = (\<lambda>s. Fin 1), nyClock = (\<lambda>s. Some (Fin 10, Fin 0)),
     calculateEMA = (\<lambda>xs n. []), toISOString = (\<lambda>ms. [])\<rparr>"

text \<open>A warmed-up calculator holding a long position entered at 100 with its stop at 95.\<close>

definition longCalc :: calc where
  "longCalc = exampleCalc\<lparr>isWarmUpProcessed := True,
     currentPosition := Some \<lparr>entryPrice = Fin 100, entryTime = Fin 0, direction = Long,
       stopLoss = Fin 95, atrSeedForStop = Fin 10, atrSeedForTrail = Fin 10\<rparr>,
     trailingStopLevel := Fin 95\<rparr>"

text \<open>A bar whose low, 94, is under that stop.\<close>

definition lowBar :: BarData where
  "lowBar = \<lparr>timestamp = [], bopen = Fin 96, high = Fin 97, low = Fin 94, close = Fin 96,
     volume = Some (Fin 10), delta = Some (Fin 0)\<rparr>"

text \<open>
  Histories of fifteen equal bars with low and close 0: the true range of every adjacent
  pair is the high, the double 0.01 in the first history and 2.5 in the second.
\<close>

definition flatBar :: "real \<Rightarrow> BarData" where
  "flatBar h = \<lparr>timestamp = [], bopen = Fin 0, high = Fin h, low = Fin 0, close = Fin 0,
     volume = None, delta = None\<rparr>"

definition flatCalc :: "real \<Rightarrow> calc" where
  "flatCalc h = exampleCalc\<lparr>bars3min :=
     [flatBar h, flatBar h, flatBar h, flatBar h, flatBar h,
      flatBar h, flatBar h, flatBar h, flatBar h, flatBar h,
      flatBar h, flatBar h, flatBar h, flatBar h, flatBar h]\<rparr>"

text \<open>
  The scenario of a qualifying closed bar: spike threshold 450, surge multiplier 1.8,
  minimum ATR 9, EMA filter off, a delta average over three bars; ATR 10 with a bullish
  higher timeframe, and the breakout-up gate open.
\<close>

definition deltaBar :: "string \<Rightarrow> real \<Rightarrow> BarData" where
  "deltaBar ts d = \<lparr>timestamp = ts, bopen = Fin 100, high = Fin 101, low = Fin 99,
     close = Fin 100, volume = Some (Fin \<bar>d\<bar>), delta = Some (Fin d)\<rparr>"

definition scenarioCalc :: "real \<Rightarrow> real \<Rightarrow> calc" where
  "scenarioCalc d1 d2 = exampleCalc\<lparr>
     config := (config exampleCalc)\<lparr>minAtrToTrade := Some 9, deltaSpikeThreshold := Some 450,
       deltaSurgeMultiplier := Some d1_8, deltaSMALength := Some 3\<rparr>,
     bars3min := [deltaBar ''a'' d1, deltaBar ''b'' d2, deltaBar ''c'' 500],
     isWarmUpProcessed := True\<rparr>"

text \<open>
  A calculator for the fade boundary, with fade ratio 0.7, spike threshold 450, surge
  multiplier 1.8, minimal ATR 9 and a delta average over two bars: the previous bar's
  delta is \<open>p\<close>, the current bar's is \<open>d\<close>, and the intra-bar history holds one sample
  of \<open>p\<close>. The market state and the gates of the short side of the scenario.
\<close>

definition fadeCalc :: "real \<Rightarrow> real \<Rightarrow> calc" where
  "fadeCalc p d = exampleCalc\<lparr>
     config := (config exampleCalc)\<lparr>minAtrToTrade := Some 9, deltaSpikeThreshold := Some 450,
       deltaSMALength := Some 2, deltaFadeRatio := Some d0_7,
       deltaSurgeMultiplier := Some d1_8\<rparr>,
     bars3min := [deltaBar ''a'' p, deltaBar ''b'' d],
     intraBarDeltaHistory := [(Fin p, Fin 0)]\<rparr>"

definition bearishState :: MarketState where
  "bearishState = \<lparr>atr = Fin 10, higherTimeframeTrend = Bearish, deltaCumulative = Fin 0\<rparr>"

definition bearishGates :: gates where
  "bearishGates = \<lparr>brokeUpCloseTol = False, brokeDownCloseTol = True,
     passLong = True, passShort = True\<rparr>"

definition scenarioState :: MarketState where
  "scenarioState = \<lparr>atr = Fin 10, higherTimeframeTrend = Bullish, deltaCumulative = Fin 0\<rparr>"

definition scenarioGates :: gates where
  "scenarioGates = \<lparr>brokeUpCloseTol = True, brokeDownCloseTol = False,
     passLong = True, passShort = True\<rparr>"

section \<open>Properties of the entry coordination\<close>

definition isOrder :: "call \<Rightarrow> bool" where
  "isOrder k = (case k of CreateOrder cid side qty \<Rightarrow> True | _ \<Rightarrow> False)"

text \<open>The calls of \<^verbatim>\<open>createOrder\<close> made so far.\<close>

definition orders :: "trader \<Rightarrow> call list" where
  "orders t = filter isOrder (calls t)"

text \<open>A run of events none of which changes the bucket start.\<close>

fun sameBucket :: "env \<Rightarrow> trader \<Rightarrow> event list \<Rightarrow> bool" where
  "sameBucket e t [] = True"
| "sameBucket e t (ev # evs) =
    (barStartMs (step e t ev) = barStartMs t \<and> sameBucket e (step e t ev) evs)"

text \<open>The suspended activations of \<^verbatim>\<open>handleSignal\<close> that have not yet submitted their order.\<close>

definition awaiting :: "trader \<Rightarrow> nat" where
  "awaiting t = length (filter (\<lambda>en. eStage en = AwaitEquity) (inflight t))"

text \<open>The events in which an entry fails: a promise awaited by \<^verbatim>\<open>handleSignal\<close> is rejected.\<close>

fun failure :: "event \<Rightarrow> bool" where
  "failure (EquitySettled i None) = True"
| "failure (OrderSettled i False now) = True"
| "failure ev = False"

text \<open>
  The trader of the example once an ATR of 10 has been measured, and a buy signal for the
  forming bar.
\<close>

definition measuredTrader :: trader where
  "measuredTrader = tickedTrader\<lparr>marketState := scenarioState\<rparr>"

definition buySignal :: TradeSignal where
  "buySignal = \<lparr>signal = Buy, reason = IntraEntry (Fin 500), confidence = 1\<rparr>"

section \<open>Properties of the volume accounting\<close>

text \<open>No in-bar volume total is negative.\<close>

definition volNonNeg :: "trader \<Rightarrow> bool" where
  "volNonNeg t = (\<forall>cid v. volInBarByContract t cid = Some v \<longrightarrow> jle (Fin 0) v)"

text \<open>The cumulative counter carried by a tick is not a negative number.\<close>

definition counterOk :: "event \<Rightarrow> bool" where
  "counterOk ev = (case ev of
      Quote q n1 n2 n3 \<Rightarrow> (case qVolume q of None \<Rightarrow> True | Some v \<Rightarrow> \<not> jlt v (Fin 0))
    | _ \<Rightarrow> True)"

section \<open>Facts about numbers\<close>

lemmas rnd_eval = rnd_def rndPos_def rndAt_def packFin_def roundHalfEven_def rhe_def
  pow2_def flog2_def halvings.simps doublings.simps

lemma rndPos_not_NaN: "rndPos a \<noteq> NaN"
  by (simp add: rndPos_def rndAt_def packFin_def)

lemma rnd_not_NaN [simp]: "rnd q \<noteq> NaN"
proof -
  have "jneg (rndPos (- q)) \<noteq> NaN"
    using rndPos_not_NaN [of "- q"] by (cases "rndPos (- q)") auto
  then show ?thesis by (simp add: rnd_def rndPos_not_NaN)
qed

lemma jle_refl: "a \<noteq> NaN \<Longrightarrow> jle a a"
  by (cases a) auto

lemma jlt_imp_jle: "jlt a b \<Longrightarrow> jle a b"
  by (cases a; cases b) auto

lemma jlt_not_NaN: "jlt a b \<Longrightarrow> a \<noteq> NaN \<and> b \<noteq> NaN"
  by (cases a; cases b) auto

lemma jle_not_NaN: "jle a b \<Longrightarrow> a \<noteq> NaN \<and> b \<noteq> NaN"
  by (cases a; cases b) auto

lemma jle_trans: "jle a b \<Longrightarrow> jle b c \<Longrightarrow> jle a c"
  by (cases a; cases b; cases c) auto

lemma not_jlt_jle: "a \<noteq> NaN \<Longrightarrow> b \<noteq> NaN \<Longrightarrow> \<not> jlt a b \<Longrightarrow> jle b a"
  by (cases a; cases b) auto

lemma jle_jmax1: "a \<noteq> NaN \<Longrightarrow> b \<noteq> NaN \<Longrightarrow> jle a (jmax a b)"
  by (cases a; cases b) (auto simp: jmax_def)

lemma jle_jmin1: "a \<noteq> NaN \<Longrightarrow> b \<noteq> NaN \<Longrightarrow> jle (jmin a b) a"
  by (cases a; cases b) (auto simp: jmin_def)

lemma jneg_not_NaN [simp]: "(jneg a = NaN) = (a = NaN)"
  by (cases a) auto

lemma jadd_Fin_not_NaN: "b \<noteq> NaN \<Longrightarrow> jadd (Fin x) b \<noteq> NaN"
  by (cases b) auto

lemma jsub_Fin_not_NaN: "b \<noteq> NaN \<Longrightarrow> jsub (Fin x) b \<noteq> NaN"
  by (simp add: jsub_def jadd_Fin_not_NaN)

lemma jmul_Fin_Fin_not_NaN [simp]: "jmul (Fin x) (Fin y) \<noteq> NaN"
  by simp

lemma onTick_position [simp]:
  "currentPosition (snd (onTickForProtectiveStops c px a now)) = currentPosition c"
  by (simp add: onTickForProtectiveStops_def trailLong_def trailShort_def Let_def
      split: option.splits)

lemma onTick_config [simp]:
  "config (snd (onTickForProtectiveStops c px a now)) = config c"
  by (simp add: onTickForProtectiveStops_def trailLong_def trailShort_def Let_def
      split: option.splits)

lemma stopTicks_position [simp]: "currentPosition (stopTicks c ts) = currentPosition c"
  by (induction ts arbitrary: c) auto

lemma stopTicks_append: "stopTicks c (ts @ us) = stopTicks (stopTicks c ts) us"
  by (induction ts arbitrary: c) auto


lemma armed_step_long:
  assumes "currentPosition c = Some p" and "direction p = Long"
    and "trailArmed c" and "trailingStopLevel c \<noteq> NaN"
  shows "trailArmed (snd (onTickForProtectiveStops c px a now))
       \<and> trailingStopLevel (snd (onTickForProtectiveStops c px a now)) \<noteq> NaN
       \<and> jle (trailingStopLevel c) (trailingStopLevel (snd (onTickForProtectiveStops c px a now)))"
  using assms
  by (auto simp: onTickForProtectiveStops_def trailLong_def Let_def jgt_def jle_refl
      dest: jlt_not_NaN jlt_imp_jle)

lemma armed_step_short:
  assumes "currentPosition c = Some p" and "direction p = Short"
    and "trailArmed c" and "trailingStopLevel c \<noteq> NaN"
  shows "trailArmed (snd (onTickForProtectiveStops c px a now))
       \<and> trailingStopLevel (snd (onTickForProtectiveStops c px a now)) \<noteq> NaN
       \<and> jge (trailingStopLevel c) (trailingStopLevel (snd (onTickForProtectiveStops c px a now)))"
  using assms
  by (auto simp: onTickForProtectiveStops_def trailShort_def Let_def jge_def jle_refl
      dest: jlt_not_NaN jlt_imp_jle)

lemma armed_run_long:
  assumes "currentPosition c = Some p" and "direction p = Long"
    and "trailArmed c" and "trailingStopLevel c \<noteq> NaN"
  shows "jle (trailingStopLevel c) (trailingStopLevel (stopTicks c ts))"
  using assms
proof (induction ts arbitrary: c)
  case Nil
  then show ?case by (simp add: jle_refl)
next
  case (Cons t ts)
  obtain px a now where t: "t = (px, a, now)" by (cases t) auto
  let ?c = "snd (onTickForProtectiveStops c px a now)"
  from armed_step_long [OF Cons.prems, of px a now]
  have s: "trailArmed ?c" "trailingStopLevel ?c \<noteq> NaN"
    "jle (trailingStopLevel c) (trailingStopLevel ?c)" by auto
  have "currentPosition ?c = Some p" using Cons.prems(1) by simp
  from Cons.IH [OF this Cons.prems(2) s(1) s(2)]
  have "jle (trailingStopLevel ?c) (trailingStopLevel (stopTicks ?c ts))" .
  with s(3) show ?case unfolding t by (auto intro: jle_trans)
qed

lemma armed_run_short:
  assumes "currentPosition c = Some p" and "direction p = Short"
    and "trailArmed c" and "trailingStopLevel c \<noteq> NaN"
  shows "jge (trailingStopLevel c) (trailingStopLevel (stopTicks c ts))"
  using assms
proof (induction ts arbitrary: c)
  case Nil
  then show ?case by (simp add: jle_refl jge_def)
next
  case (Cons t ts)
  obtain px a now where t: "t = (px, a, now)" by (cases t) auto
  let ?c = "snd (onTickForProtectiveStops c px a now)"
  from armed_step_short [OF Cons.prems, of px a now]
  have s: "trailArmed ?c" "trailingStopLevel ?c \<noteq> NaN"
    "jge (trailingStopLevel c) (trailingStopLevel ?c)" by auto
  have "currentPosition ?c = Some p" using Cons.prems(1) by simp
  from Cons.IH [OF this Cons.prems(2) s(1) s(2)]
  have "jge (trailingStopLevel ?c) (trailingStopLevel (stopTicks ?c ts))" .
  with s(3) show ?case unfolding t jge_def by (auto intro: jle_trans)
qed


lemma trailLong_level:
  "trailingStopLevel (snd (trailLong c p px act off)) = trailingStopLevel c
   \<or> trailingStopLevel (snd (trailLong c p px act off)) = jmax (stopLoss p) (jsub px off)"
  by (simp add: trailLong_def Let_def)

lemma trailShort_level:
  "trailingStopLevel (snd (trailShort c p px act off)) = trailingStopLevel c
   \<or> trailingStopLevel (snd (trailShort c p px act off)) = jmin (stopLoss p) (jadd px off)"
  by (simp add: trailShort_def Let_def)

lemma trailLong_position [simp]: "currentPosition (snd (trailLong c p px act off)) = currentPosition c"
  by (simp add: trailLong_def Let_def)

lemma trailShort_position [simp]: "currentPosition (snd (trailShort c p px act off)) = currentPosition c"
  by (simp add: trailShort_def Let_def)

lemma candidate_long:
  assumes "sl \<noteq> NaN" and "isFinite px" and "isFinite seed"
  shows "jle sl (jmax sl (jsub px (jmul seed (Fin k))))"
proof -
  obtain x where x: "px = Fin x" using assms(2) by (cases px) auto
  obtain y where y: "seed = Fin y" using assms(3) by (cases seed) auto
  have "jsub px (jmul seed (Fin k)) \<noteq> NaN"
    unfolding x y by (intro jsub_Fin_not_NaN) simp
  with assms(1) show ?thesis by (rule jle_jmax1)
qed

lemma candidate_short:
  assumes "sl \<noteq> NaN" and "isFinite px" and "isFinite seed"
  shows "jle (jmin sl (jadd px (jmul seed (Fin k)))) sl"
proof -
  obtain x where x: "px = Fin x" using assms(2) by (cases px) auto
  obtain y where y: "seed = Fin y" using assms(3) by (cases seed) auto
  have "jadd px (jmul seed (Fin k)) \<noteq> NaN"
    unfolding x y by (intro jadd_Fin_not_NaN) simp
  with assms(1) show ?thesis by (rule jle_jmin1)
qed

lemma stopInv_step: "stopInv c \<Longrightarrow> stopInv (snd (onTickForProtectiveStops c px a now))"
proof (cases "currentPosition c")
  case None
  then show ?thesis by (simp add: stopInv_def)
next
  case (Some p)
  assume inv: "stopInv c"
  let ?c = "snd (onTickForProtectiveStops c px a now)"
  let ?off = "jmul (atrSeedForTrail p) (Fin (dflt (trailOffsetATR (config c)) (1/8)))"
  have pos: "currentPosition ?c = Some p" using Some by simp
  show ?thesis
  proof (cases "direction p")
    case Long
    from inv Some Long have i: "jle (stopLoss p) (trailingStopLevel c)"
      by (simp add: stopInv_def jge_def)
    then have n: "stopLoss p \<noteq> NaN" by (auto dest: jle_not_NaN)
    have "trailingStopLevel ?c = trailingStopLevel c
      \<or> (isFinite px \<and> isFinite (atrSeedForTrail p)
          \<and> trailingStopLevel ?c = jmax (stopLoss p) (jsub px ?off))"
      using Some Long trailLong_level [of c p px _ ?off]
      by (auto simp: onTickForProtectiveStops_def Let_def)
    with i n have "jle (stopLoss p) (trailingStopLevel ?c)"
      by (auto simp: candidate_long)
    with pos Long show ?thesis by (simp add: stopInv_def jge_def)
  next
    case Short
    from inv Some Short have i: "jle (trailingStopLevel c) (stopLoss p)"
      by (simp add: stopInv_def)
    then have n: "stopLoss p \<noteq> NaN" by (auto dest: jle_not_NaN)
    have "trailingStopLevel ?c = trailingStopLevel c
      \<or> (isFinite px \<and> isFinite (atrSeedForTrail p)
          \<and> trailingStopLevel ?c = jmin (stopLoss p) (jadd px ?off))"
      using Some Short trailShort_level [of c p px _ ?off]
      by (auto simp: onTickForProtectiveStops_def Let_def)
    with i n have "jle (trailingStopLevel ?c) (stopLoss p)"
      by (auto simp: candidate_short)
    with pos Short show ?thesis by (simp add: stopInv_def)
  qed
qed

lemma stopInv_run: "stopInv c \<Longrightarrow> stopInv (stopTicks c ts)"
proof (induction ts arbitrary: c)
  case Nil
  then show ?case by simp
next
  case (Cons t ts)
  obtain px a now where t: "t = (px, a, now)" by (cases t) auto
  show ?case unfolding t using Cons.IH [OF stopInv_step [OF Cons.prems]] by simp
qed

lemma setPosition_position:
  "\<exists>p. currentPosition (setPosition c entry dir atrForTrail now) = Some p
     \<and> direction p = dir
     \<and> trailingStopLevel (setPosition c entry dir atrForTrail now) = stopLoss p
     \<and> \<not> trailArmed (setPosition c entry dir atrForTrail now)"
  by (simp add: setPosition_def Let_def)

lemma stopInv_setPosition:
  assumes "stopLoss (the (currentPosition (setPosition c entry dir atrForTrail now))) \<noteq> NaN"
  shows "stopInv (setPosition c entry dir atrForTrail now)"
proof -
  from setPosition_position [of c entry dir atrForTrail now]
  obtain p where p: "currentPosition (setPosition c entry dir atrForTrail now) = Some p"
    "trailingStopLevel (setPosition c entry dir atrForTrail now) = stopLoss p" by blast
  with assms have "stopLoss p \<noteq> NaN" by simp
  with p show ?thesis by (cases "direction p") (simp_all add: stopInv_def jge_def jle_refl)
qed

lemma stopInv_level_not_NaN:
  "stopInv c \<Longrightarrow> currentPosition c = Some p \<Longrightarrow> trailingStopLevel c \<noteq> NaN"
  by (cases "direction p") (auto simp: stopInv_def jge_def dest: jle_not_NaN)

text \<open>
  Claim C2. Take any position opened by \<^verbatim>\<open>setPosition\<close> whose fixed stop is a number, and
  any two points of its run of protective-stop evaluations, the first of them with the
  trail armed. Then the trailing level at the later point is not below the level at the
  earlier one for a long position, and not above it for a short one.
\<close>

theorem trailing_level_never_retreats:
  assumes "c0 = setPosition c entry dir atrForTrail now0"
    and "stopLoss (the (currentPosition c0)) \<noteq> NaN"
    and "c1 = stopTicks c0 ts1"
    and "trailArmed c1"
    and "c2 = stopTicks c1 ts2"
  shows "(dir = Long \<longrightarrow> jle (trailingStopLevel c1) (trailingStopLevel c2))
       \<and> (dir = Short \<longrightarrow> jge (trailingStopLevel c1) (trailingStopLevel c2))"
proof -
  from setPosition_position [of c entry dir atrForTrail now0] assms(1)
  obtain p where p: "currentPosition c0 = Some p" "direction p = dir" by blast
  have "stopInv c0"
    using assms(2) unfolding assms(1) by (rule stopInv_setPosition)
  then have inv: "stopInv c1"
    unfolding assms(3) by (rule stopInv_run)
  have p1: "currentPosition c1 = Some p" using p(1) assms(3) by simp
  from stopInv_level_not_NaN [OF inv p1] have n: "trailingStopLevel c1 \<noteq> NaN" .
  show ?thesis
    using armed_run_long [OF p1 _ assms(4) n, of ts2]
      armed_run_short [OF p1 _ assms(4) n, of ts2] p(2) assms(5)
    by auto
qed

lemmas calc_eval = exampleCalc_def newCalculator_def setPosition_def onTickForProtectiveStops_def
  trailLong_def trailShort_def dflt_def jsub_def jgt_def jge_def jmax_def jmin_def Let_def

lemma ex1: "setPosition exampleCalc (Fin 100) Long (Some (Fin 10)) 0 =
  exampleCalc\<lparr>currentPosition := Some \<lparr>entryPrice = Fin 100, entryTime = Fin 0, direction = Long,
     stopLoss = Fin (185/2), atrSeedForStop = Fin 10, atrSeedForTrail = Fin 10\<rparr>,
     trailingStopLevel := Fin (185/2), trailArmed := False, noTrailBeforeMs := Fin 0\<rparr>"
  by (simp add: calc_eval rnd_eval)

lemma ex2: "stopTicks (setPosition exampleCalc (Fin 100) Long (Some (Fin 10)) 0) [(Fin 102, Fin 10, 1)] =
  exampleCalc\<lparr>currentPosition := Some \<lparr>entryPrice = Fin 100, entryTime = Fin 0, direction = Long,
     stopLoss = Fin (185/2), atrSeedForStop = Fin 10, atrSeedForTrail = Fin 10\<rparr>,
     trailingStopLevel := Fin (403/4), trailArmed := True, noTrailBeforeMs := Fin 0\<rparr>"
  by (simp add: ex1) (simp add: calc_eval rnd_eval)

theorem trailing_level_never_retreats_witness:
  "trailArmed (stopTicks (setPosition exampleCalc (Fin 100) Long (Some (Fin 10)) 0) [(Fin 102, Fin 10, 1)])
   \<and> jle (trailingStopLevel (stopTicks (setPosition exampleCalc (Fin 100) Long (Some (Fin 10)) 0)
                [(Fin 102, Fin 10, 1)]))
          (trailingStopLevel (stopTicks (stopTicks (setPosition exampleCalc (Fin 100) Long (Some (Fin 10)) 0)
                [(Fin 102, Fin 10, 1)]) [(Fin 104, Fin 10, 2)]))"
proof -
  have s: "stopLoss (the (currentPosition (setPosition exampleCalc (Fin 100) Long (Some (Fin 10)) 0))) \<noteq> NaN"
    by (simp add: ex1)
  have a: "trailArmed (stopTicks (setPosition exampleCalc (Fin 100) Long (Some (Fin 10)) 0) [(Fin 102, Fin 10, 1)])"
    by (simp only: ex2) simp
  from trailing_level_never_retreats [OF refl s refl a refl, of "[(Fin 104, Fin 10, 2)]"] a
  show ?thesis by simp
qed

text \<open>
  Claim C10. From \<^verbatim>\<open>setPosition\<close> on, through any run of protective-stop evaluations, the
  position stays the one entered and the trailing level is never looser than its fixed
  stop: at or above it for a long position, at or below it for a short one (the fixed
  stop being a number).
\<close>

theorem trailing_stop_never_looser_than_fixed_stop:
  assumes "c0 = setPosition c entry dir atrForTrail now0"
    and "stopLoss (the (currentPosition c0)) \<noteq> NaN"
  shows "\<exists>p. currentPosition (stopTicks c0 ts) = Some p
           \<and> currentPosition c0 = Some p
           \<and> direction p = dir
           \<and> (dir = Long \<longrightarrow> jge (trailingStopLevel (stopTicks c0 ts)) (stopLoss p))
           \<and> (dir = Short \<longrightarrow> jle (trailingStopLevel (stopTicks c0 ts)) (stopLoss p))"
proof -
  from setPosition_position [of c entry dir atrForTrail now0] assms(1)
  obtain p where p: "currentPosition c0 = Some p" "direction p = dir" by blast
  have "stopInv c0"
    using assms(2) unfolding assms(1) by (rule stopInv_setPosition)
  then have inv: "stopInv (stopTicks c0 ts)" by (rule stopInv_run)
  have p1: "currentPosition (stopTicks c0 ts) = Some p" using p(1) by simp
  from inv p1 p(2) have "(dir = Long \<longrightarrow> jge (trailingStopLevel (stopTicks c0 ts)) (stopLoss p))
           \<and> (dir = Short \<longrightarrow> jle (trailingStopLevel (stopTicks c0 ts)) (stopLoss p))"
    by (cases dir) (auto simp: stopInv_def)
  with p p1 show ?thesis by blast
qed

lemma ex3: "stopTicks (setPosition exampleCalc (Fin 100) Long (Some (Fin 10)) 0)
     [(Fin 102, Fin 10, 1), (Fin 104, Fin 10, 2)] =
  exampleCalc\<lparr>currentPosition := Some \<lparr>entryPrice = Fin 100, entryTime = Fin 0, direction = Long,
     stopLoss = Fin (185/2), atrSeedForStop = Fin 10, atrSeedForTrail = Fin 10\<rparr>,
     trailingStopLevel := Fin (411/4), trailArmed := True, noTrailBeforeMs := Fin 0\<rparr>"
proof -
  have "stopTicks (setPosition exampleCalc (Fin 100) Long (Some (Fin 10)) 0)
     [(Fin 102, Fin 10, 1), (Fin 104, Fin 10, 2)]
    = stopTicks (stopTicks (setPosition exampleCalc (Fin 100) Long (Some (Fin 10)) 0)
     [(Fin 102, Fin 10, 1)]) [(Fin 104, Fin 10, 2)]" by simp
  also have "\<dots> = exampleCalc\<lparr>currentPosition := Some \<lparr>entryPrice = Fin 100, entryTime = Fin 0, direction = Long,
     stopLoss = Fin (185/2), atrSeedForStop = Fin 10, atrSeedForTrail = Fin 10\<rparr>,
     trailingStopLevel := Fin (411/4), trailArmed := True, noTrailBeforeMs := Fin 0\<rparr>"
    by (simp only: ex2) (simp add: calc_eval rnd_eval)
  finally show ?thesis .
qed

theorem trailing_stop_never_looser_than_fixed_stop_witness:
  "jge (trailingStopLevel (stopTicks (setPosition exampleCalc (Fin 100) Long (Some (Fin 10)) 0)
          [(Fin 102, Fin 10, 1), (Fin 104, Fin 10, 2)])) (Fin (185/2))"
proof -
  have s: "stopLoss (the (currentPosition (setPosition exampleCalc (Fin 100) Long (Some (Fin 10)) 0))) \<noteq> NaN"
    by (simp add: ex1)
  from trailing_stop_never_looser_than_fixed_stop [OF refl s, of "[(Fin 102, Fin 10, 1), (Fin 104, Fin 10, 2)]"]
  show ?thesis by (simp add: ex1)
qed


lemma dflt_simps [simp]: "dflt None d = d" "dflt (Some v) d = v"
  by (simp_all add: dflt_def)

lemma handleSignal_frame [simp]:
  "volInBarByContract (handleSignal t sg bar) = volInBarByContract t"
  "signedVolInBarByContract (handleSignal t sg bar) = signedVolInBarByContract t"
  "prevClosedBarClose (handleSignal t sg bar) = prevClosedBarClose t"
  "lastPriceByContract (handleSignal t sg bar) = lastPriceByContract t"
  "lastCumVolByContract (handleSignal t sg bar) = lastCumVolByContract t"
  "barOpenPx (handleSignal t sg bar) = barOpenPx t"
  "barHighPx (handleSignal t sg bar) = barHighPx t"
  "barLowPx (handleSignal t sg bar) = barLowPx t"
  "barStartMs (handleSignal t sg bar) = barStartMs t"
  "contractId (handleSignal t sg bar) = contractId t"
  "tconfig (handleSignal t sg bar) = tconfig t"
  "running (handleSignal t sg bar) = running t"
  "isFlattening (handleSignal t sg bar) = isFlattening t"
  "marketState (handleSignal t sg bar) = marketState t"
  "flattens (handleSignal t sg bar) = flattens t"
  by (simp_all add: handleSignal_def Let_def)

lemma checkIntraBarSignal_frame [simp]:
  "volInBarByContract (checkIntraBarSignal e t px n1 n3) = volInBarByContract t"
  "signedVolInBarByContract (checkIntraBarSignal e t px n1 n3) = signedVolInBarByContract t"
  "prevClosedBarClose (checkIntraBarSignal e t px n1 n3) = prevClosedBarClose t"
  "lastPriceByContract (checkIntraBarSignal e t px n1 n3) = lastPriceByContract t"
  "lastCumVolByContract (checkIntraBarSignal e t px n1 n3) = lastCumVolByContract t"
  "barOpenPx (checkIntraBarSignal e t px n1 n3) = barOpenPx t"
  "barStartMs (checkIntraBarSignal e t px n1 n3) = barStartMs t"
  "contractId (checkIntraBarSignal e t px n1 n3) = contractId t"
  by (simp_all add: checkIntraBarSignal_def Let_def split: option.splits prod.splits)

lemma onQuoteIntraBar_frame [simp]:
  "volInBarByContract (onQuoteIntraBar e t px n1 n3) = volInBarByContract t"
  "signedVolInBarByContract (onQuoteIntraBar e t px n1 n3) = signedVolInBarByContract t"
  "prevClosedBarClose (onQuoteIntraBar e t px n1 n3) = prevClosedBarClose t"
  "lastPriceByContract (onQuoteIntraBar e t px n1 n3) = lastPriceByContract t"
  "lastCumVolByContract (onQuoteIntraBar e t px n1 n3) = lastCumVolByContract t"
  "barOpenPx (onQuoteIntraBar e t px n1 n3) = barOpenPx t"
  "barStartMs (onQuoteIntraBar e t px n1 n3) = barStartMs t"
  "contractId (onQuoteIntraBar e t px n1 n3) = contractId t"
  by (simp_all add: onQuoteIntraBar_def Let_def)

lemma onQuoteExits_frame [simp]:
  "volInBarByContract (fst (onQuoteExits t px n2)) = volInBarByContract t"
  "signedVolInBarByContract (fst (onQuoteExits t px n2)) = signedVolInBarByContract t"
  "prevClosedBarClose (fst (onQuoteExits t px n2)) = prevClosedBarClose t"
  "lastPriceByContract (fst (onQuoteExits t px n2)) = lastPriceByContract t"
  "lastCumVolByContract (fst (onQuoteExits t px n2)) = lastCumVolByContract t"
  "barOpenPx (fst (onQuoteExits t px n2)) = barOpenPx t"
  "barStartMs (fst (onQuoteExits t px n2)) = barStartMs t"
  "contractId (fst (onQuoteExits t px n2)) = contractId t"
  by (simp_all add: onQuoteExits_def Let_def split: prod.splits)

lemma noteCounterReset_frame [simp]:
  "volInBarByContract (noteCounterReset t cid cum) = volInBarByContract t"
  "signedVolInBarByContract (noteCounterReset t cid cum) = signedVolInBarByContract t"
  "prevClosedBarClose (noteCounterReset t cid cum) = prevClosedBarClose t"
  "lastPriceByContract (noteCounterReset t cid cum) = lastPriceByContract t"
  "barOpenPx (noteCounterReset t cid cum) = barOpenPx t"
  "barStartMs (noteCounterReset t cid cum) = barStartMs t"
  "contractId (noteCounterReset t cid cum) = contractId t"
  "calculator (noteCounterReset t cid cum) = calculator t"
  "enteredBarStartMs (noteCounterReset t cid cum) = enteredBarStartMs t"
  "inflight (noteCounterReset t cid cum) = inflight t"
  "calls (noteCounterReset t cid cum) = calls t"
  by (simp_all add: noteCounterReset_def split: option.splits)

lemma onQuoteVolume_fields:
  "prevClosedBarClose (onQuoteVolume t cid px cum n1) = prevClosedBarClose t"
  "barOpenPx (onQuoteVolume t cid px cum n1) = barOpenPx t"
  "barStartMs (onQuoteVolume t cid px cum n1) = barStartMs t"
  "contractId (onQuoteVolume t cid px cum n1) = contractId t"
  "lastCumVolByContract (onQuoteVolume t cid px cum n1) cid = Some cum"
  "lastPriceByContract (onQuoteVolume t cid px cum n1) cid = Some px"
  "volInBarByContract (onQuoteVolume t cid px cum n1) cid =
     Some (jadd (dflt (volInBarByContract t cid) (Fin 0))
                (if isFinite (tickVolume (lastCumVolByContract t cid) cum)
                 then tickVolume (lastCumVolByContract t cid) cum else Fin 0))"
  by (simp_all add: onQuoteVolume_def Let_def)


lemma onQuote_accepted:
  assumes "running t" and "qContractId q = contractId t" and "isFinite (lastPrice q)"
  shows "fst (onQuote e t q n1 n2 n3) =
     (let t2 = onQuoteVolume (fst (onQuoteBucket e t (contractId t) (lastPrice q) n1))
                 (contractId t) (lastPrice q) (dflt (qVolume q) (Fin 0)) n1
      in if snd (onQuoteExits t2 (lastPrice q) n2) then fst (onQuoteExits t2 (lastPrice q) n2)
         else onQuoteIntraBar e (fst (onQuoteExits t2 (lastPrice q) n2)) (lastPrice q) n1 n3)"
  using assms by (simp add: onQuote_def Let_def split: prod.splits)





lemmas trader_eval = onQuote_def onQuoteBucket_def onQuoteVolume_def onQuoteExits_def
  onQuoteIntraBar_def closeBarAndProcess_def rollOver_def openBucket_def zeroAccumulators_def
  tickVolume_def noteCounterReset_def tickSigned_def wholeBarDelta_def bucketOf_def
  barStepMs_def handleSignal_def start_def resetTraderState_def newTrader_def
  newMarketState_def hasPosition_def resetState_def pushIntraBarDelta_def
  resetIntraBarTracking_def processNewBar_def hold_def exampleEnv_def

lemma tickedTrader_eq:
  "tickedTrader =
    \<lparr>calculator = exampleCalc\<lparr>intraBarDeltaHistory := [(Fin 0, Fin 0)]\<rparr>,
     tconfig = config exampleCalc, contractId = ''MNQ'',
     lastPriceByContract = [''MNQ'' \<mapsto> Fin 100],
     lastCumVolByContract = [''MNQ'' \<mapsto> Fin 10],
     signedVolInBarByContract = [''MNQ'' \<mapsto> Fin 0],
     volInBarByContract = [''MNQ'' \<mapsto> Fin 10], prevClosedBarClose = None,
     barOpenPx = Some (Fin 100), barHighPx = Some (Fin 100),
     barLowPx = Some (Fin 100), barStartMs = Some (Fin 0),
     liveBarOpen = Some (Fin 100), liveBarHigh = Some (Fin 100),
     liveBarLow = Some (Fin 100), liveBarStartMs = Some (Fin 0),
     lastIntraBarCheckMs = Fin 0, enteredBarStartMs = None,
     isEnteringPosition = False, running = True, isFlattening = False,
     reconciling = False, marketState = newMarketState,
     inflight = [], flattens = 0, calls = []\<rparr>"
  by (simp add: tickedTrader_def trader_eval calc_eval rnd_eval)

lemma rhe_nonneg: "0 \<le> f \<Longrightarrow> 0 \<le> rhe x f"
  by (simp add: rhe_def)

lemma pow2_pos: "0 < pow2 p"
  by (simp add: pow2_def)

lemma rndPos_nonneg: "0 \<le> a \<Longrightarrow> jle (Fin 0) (rndPos a)"
proof -
  assume a: "0 \<le> a"
  let ?p = "max (flog2 a - 52) (- 1074)"
  have "0 \<le> a / pow2 ?p" using a pow2_pos [of ?p] by simp
  then have "0 \<le> roundHalfEven (a / pow2 ?p)"
    unfolding roundHalfEven_def by (intro rhe_nonneg) simp
  then have "0 \<le> of_int (roundHalfEven (a / pow2 ?p)) * pow2 ?p"
    using pow2_pos [of ?p] by simp
  then show ?thesis by (simp add: rndPos_def rndAt_def packFin_def)
qed

lemma rnd_nonneg: "0 \<le> q \<Longrightarrow> jle (Fin 0) (rnd q)"
  by (simp add: rnd_def rndPos_nonneg)

lemma tickVolume_nonneg:
  assumes "\<not> jlt cum (Fin 0)" and "isFinite (tickVolume prev cum)"
  shows "jle (Fin 0) (tickVolume prev cum)"
proof (cases prev)
  case None
  with assms show ?thesis by (cases cum) (auto simp: tickVolume_def)
next
  case (Some pc)
  show ?thesis
  proof (cases "jge cum pc")
    case True
    with assms(2) Some show ?thesis
      by (cases cum; cases pc) (auto simp: tickVolume_def jge_def jsub_def rnd_nonneg)
  next
    case False
    with assms Some show ?thesis by (cases cum) (auto simp: tickVolume_def)
  qed
qed

lemma jadd_nonneg:
  assumes "jle (Fin 0) a" and "jle (Fin 0) b"
  shows "jle (Fin 0) (jadd a b)"
  using assms by (cases a; cases b) (auto simp: rnd_nonneg)

lemma volNonNeg_upd: "volNonNeg t \<Longrightarrow> jle (Fin 0) v
    \<Longrightarrow> volInBarByContract t' = (volInBarByContract t)(cid \<mapsto> v) \<Longrightarrow> volNonNeg t'"
  by (auto simp: volNonNeg_def)

lemma volNonNeg_same: "volNonNeg t \<Longrightarrow> volInBarByContract t' = volInBarByContract t \<Longrightarrow> volNonNeg t'"
  by (auto simp: volNonNeg_def)

lemma onQuoteVolume_vol:
  "volInBarByContract (onQuoteVolume t cid px cum n1) =
    (volInBarByContract t)(cid \<mapsto> jadd (dflt (volInBarByContract t cid) (Fin 0))
      (if isFinite (tickVolume (lastCumVolByContract t cid) cum)
       then tickVolume (lastCumVolByContract t cid) cum else Fin 0))"
  by (simp add: onQuoteVolume_def Let_def)

lemma volNonNeg_onQuoteVolume:
  assumes "volNonNeg t" and "\<not> jlt cum (Fin 0)"
  shows "volNonNeg (onQuoteVolume t cid px cum n1)"
proof -
  let ?d = "tickVolume (lastCumVolByContract t cid) cum"
  have b: "jle (Fin 0) (dflt (volInBarByContract t cid) (Fin 0))"
    using assms(1) by (cases "volInBarByContract t cid") (auto simp: volNonNeg_def)
  have "jle (Fin 0) (if isFinite ?d then ?d else Fin 0)"
    using tickVolume_nonneg [OF assms(2), of "lastCumVolByContract t cid"] by simp
  with b have n: "jle (Fin 0) (jadd (dflt (volInBarByContract t cid) (Fin 0))
      (if isFinite ?d then ?d else Fin 0))" by (rule jadd_nonneg)
  show ?thesis by (rule volNonNeg_upd [OF assms(1) n onQuoteVolume_vol])
qed

lemma closeBarAndProcess_vol:
  "volInBarByContract (fst (closeBarAndProcess e t)) = volInBarByContract t
   \<or> volInBarByContract (fst (closeBarAndProcess e t)) = (volInBarByContract t)(contractId t \<mapsto> Fin 0)"
  by (simp add: closeBarAndProcess_def Let_def split: option.splits prod.splits)

lemma volNonNeg_closeBar: "volNonNeg t \<Longrightarrow> volNonNeg (fst (closeBarAndProcess e t))"
  using closeBarAndProcess_vol [of e t]
  by (auto intro: volNonNeg_same volNonNeg_upd [of t "Fin 0"])

lemma rollOver_vol:
  "volInBarByContract (rollOver t px n b cid) = (volInBarByContract t)(cid \<mapsto> Fin 0)"
  by (simp add: rollOver_def openBucket_def zeroAccumulators_def Let_def)

lemma volNonNeg_rollOver: "volNonNeg t \<Longrightarrow> volNonNeg (rollOver t px n b cid)"
  by (rule volNonNeg_upd [of t "Fin 0"]) (simp_all add: rollOver_vol)

lemma volNonNeg_onQuoteBucket: "volNonNeg t \<Longrightarrow> volNonNeg (fst (onQuoteBucket e t cid px n1))"
proof -
  assume v: "volNonNeg t"
  show ?thesis
  proof (cases "barStartMs t")
    case None
    have "volNonNeg (zeroAccumulators (openBucket t px n1 (bucketOf n1)) cid)"
      by (rule volNonNeg_upd [OF v, of "Fin 0"])
        (simp_all add: openBucket_def zeroAccumulators_def)
    with None show ?thesis by (simp add: onQuoteBucket_def Let_def)
  next
    case (Some b)
    show ?thesis
    proof (cases "jgt (bucketOf n1) b")
      case True
      have "volNonNeg (rollOver (fst (closeBarAndProcess e t)) px n1 (bucketOf n1) cid)"
        by (intro volNonNeg_rollOver volNonNeg_closeBar v)
      with Some True show ?thesis by (simp add: onQuoteBucket_def Let_def case_prod_beta)
    next
      case False
      with Some v show ?thesis
        by (auto simp: onQuoteBucket_def Let_def intro: volNonNeg_same)
    qed
  qed
qed

lemma volNonNeg_onQuote:
  assumes "volNonNeg t" and "counterOk (Quote q n1 n2 n3)"
  shows "volNonNeg (fst (onQuote e t q n1 n2 n3))"
proof (cases "running t \<and> qContractId q = contractId t \<and> isFinite (lastPrice q)")
  case False
  with assms(1) show ?thesis by (auto simp: onQuote_def)
next
  case True
  let ?t1 = "fst (onQuoteBucket e t (contractId t) (lastPrice q) n1)"
  let ?t2 = "onQuoteVolume ?t1 (contractId t) (lastPrice q) (dflt (qVolume q) (Fin 0)) n1"
  have c: "\<not> jlt (dflt (qVolume q) (Fin 0)) (Fin 0)"
    using assms(2) by (cases "qVolume q") (auto simp: counterOk_def)
  have "volNonNeg ?t2"
    by (intro volNonNeg_onQuoteVolume volNonNeg_onQuoteBucket assms(1) c)
  moreover have "volInBarByContract (fst (onQuote e t q n1 n2 n3)) = volInBarByContract ?t2"
    using True by (simp add: onQuote_accepted Let_def)
  ultimately show ?thesis by (rule volNonNeg_same)
qed

lemma volNonNeg_heartbeat: "volNonNeg t \<Longrightarrow> volNonNeg (fst (maybeCloseBarByClock e t n))"
proof -
  assume v: "volNonNeg t"
  have "fst (maybeCloseBarByClock e t n) = t
    \<or> fst (maybeCloseBarByClock e t n)
        = rollOver (fst (closeBarAndProcess e t)) (the (lastPriceByContract t (contractId t))) n
            (bucketOf n) (contractId (fst (closeBarAndProcess e t)))"
    by (auto simp: maybeCloseBarByClock_def Let_def split: option.splits prod.splits)
  with v volNonNeg_rollOver [OF volNonNeg_closeBar [OF v]] show ?thesis by auto
qed

lemma volNonNeg_step:
  assumes "volNonNeg t" and "counterOk ev"
  shows "volNonNeg (step e t ev)"
proof (cases ev)
  case (Quote q n1 n2 n3)
  with assms show ?thesis by (simp add: volNonNeg_onQuote)
next
  case (Heartbeat n)
  with assms show ?thesis by (simp add: volNonNeg_heartbeat)
next
  case (EquitySettled i res)
  have "volInBarByContract (equitySettled t i res) = volInBarByContract t"
    by (simp add: equitySettled_def entryFailed_def Let_def split: option.splits)
  with assms(1) EquitySettled show ?thesis by (auto intro: volNonNeg_same)
next
  case (OrderSettled i ok now)
  have "volInBarByContract (orderSettled t i ok now) = volInBarByContract t"
    by (simp add: orderSettled_def entryFailed_def Let_def split: stage.splits)
  with assms(1) OrderSettled show ?thesis by (auto intro: volNonNeg_same)
next
  case (FlattenSettled ok)
  have "volInBarByContract (flattenSettled t ok) = volInBarByContract t"
    by (simp add: flattenSettled_def)
  with assms(1) FlattenSettled show ?thesis by (auto intro: volNonNeg_same)
next
  case Start
  then show ?thesis by (simp add: start_def resetTraderState_def volNonNeg_def Let_def)
next
  case Stop
  with assms(1) show ?thesis by (auto simp: stop_def intro: volNonNeg_same)
qed

lemma volNonNeg_run:
  "volNonNeg t \<Longrightarrow> \<forall>ev \<in> set evs. counterOk ev \<Longrightarrow> volNonNeg (run e t evs)"
  by (induction evs arbitrary: t) (auto simp: volNonNeg_step)

lemma closeBarAndProcess_lastCum [simp]:
  "lastCumVolByContract (fst (closeBarAndProcess e t)) = lastCumVolByContract t"
  by (simp add: closeBarAndProcess_def Let_def split: option.splits prod.splits)

lemma onQuoteBucket_lastCum [simp]:
  "lastCumVolByContract (fst (onQuoteBucket e t cid px n1)) = lastCumVolByContract t"
  by (simp add: onQuoteBucket_def rollOver_def openBucket_def zeroAccumulators_def Let_def
      case_prod_beta split: option.splits)

lemma onQuoteBucket_vol:
  "volInBarByContract (fst (onQuoteBucket e t cid px n1)) cid =
     (case barStartMs t of
        None \<Rightarrow> Some (Fin 0)
      | Some b \<Rightarrow> if jgt (bucketOf n1) b then Some (Fin 0) else volInBarByContract t cid)"
  by (simp add: onQuoteBucket_def rollOver_vol openBucket_def zeroAccumulators_def Let_def
      case_prod_beta split: option.splits)

lemma jle_not_jlt: "jle a b \<Longrightarrow> \<not> jlt b a"
  by (cases a; cases b) auto

lemma rnd_not_negative: "0 \<le> q \<Longrightarrow> \<not> jlt (rnd q) (Fin 0)"
  by (intro jle_not_jlt rnd_nonneg)

lemma tickVolume_not_negative:
  assumes "\<not> jlt cum (Fin 0)"
  shows "\<not> jlt (tickVolume prev cum) (Fin 0)"
proof (cases prev)
  case None
  with assms show ?thesis by (simp add: tickVolume_def)
next
  case (Some pc)
  with assms show ?thesis
    by (cases cum; cases pc) (auto simp: tickVolume_def jge_def jsub_def rnd_not_negative)
qed

text \<open>
  Claim C4, as amended. The volume of a tick is \<open>cum - prevCum\<close> when the cumulative
  counter has not decreased and \<open>cum\<close> itself when it has (a counter reset) or when there
  is no previous reading; it is not negative when the reading \<open>cum\<close> is not a negative
  number. Every accepted tick stores its counter as the next previous reading and adds
  its volume (0 if not finite) to the in-bar total, which starts from 0 on a first tick
  and on a rollover; so over every run of events whose ticks carry no negative reading
  no in-bar total becomes negative. The counter sequence 100, 140, 90 yields the volumes
  100, 40, 90.
\<close>

theorem volume_delta_accounting:
  "(jge cum pc \<longrightarrow> tickVolume (Some pc) cum = jsub cum pc)
   \<and> (\<not> jge cum pc \<longrightarrow> tickVolume (Some pc) cum = cum)
   \<and> tickVolume None cum = cum
   \<and> (\<not> jlt cum (Fin 0) \<longrightarrow> \<not> jlt (tickVolume prev cum) (Fin 0))
   \<and> (running t \<and> qContractId q = contractId t \<and> isFinite (lastPrice q) \<longrightarrow>
        lastCumVolByContract (fst (onQuote e t q n1 n2 n3)) (contractId t)
          = Some (dflt (qVolume q) (Fin 0))
        \<and> volInBarByContract (fst (onQuote e t q n1 n2 n3)) (contractId t)
          = Some (jadd
              (case barStartMs t of
                 None \<Rightarrow> Fin 0
               | Some b \<Rightarrow> if jgt (bucketOf n1) b then Fin 0
                            else dflt (volInBarByContract t (contractId t)) (Fin 0))
              (if isFinite (tickVolume (lastCumVolByContract t (contractId t))
                                       (dflt (qVolume q) (Fin 0)))
               then tickVolume (lastCumVolByContract t (contractId t)) (dflt (qVolume q) (Fin 0))
               else Fin 0)))
   \<and> (volNonNeg t \<and> (\<forall>ev \<in> set evs. counterOk ev) \<longrightarrow> volNonNeg (run e t evs))
   \<and> tickVolume None (Fin 100) = Fin 100
   \<and> tickVolume (Some (Fin 100)) (Fin 140) = Fin 40
   \<and> tickVolume (Some (Fin 140)) (Fin 90) = Fin 90"
proof -
  have a: "jge cum pc \<longrightarrow> tickVolume (Some pc) cum = jsub cum pc"
    and b: "\<not> jge cum pc \<longrightarrow> tickVolume (Some pc) cum = cum"
    and c: "tickVolume None cum = cum"
    by (simp_all add: tickVolume_def)
  have d: "\<not> jlt cum (Fin 0) \<longrightarrow> \<not> jlt (tickVolume prev cum) (Fin 0)"
    by (simp add: tickVolume_not_negative)
  have f: "lastCumVolByContract (fst (onQuote e t q n1 n2 n3)) (contractId t)
          = Some (dflt (qVolume q) (Fin 0))
        \<and> volInBarByContract (fst (onQuote e t q n1 n2 n3)) (contractId t)
          = Some (jadd
              (case barStartMs t of
                 None \<Rightarrow> Fin 0
               | Some b \<Rightarrow> if jgt (bucketOf n1) b then Fin 0
                            else dflt (volInBarByContract t (contractId t)) (Fin 0))
              (if isFinite (tickVolume (lastCumVolByContract t (contractId t))
                                       (dflt (qVolume q) (Fin 0)))
               then tickVolume (lastCumVolByContract t (contractId t)) (dflt (qVolume q) (Fin 0))
               else Fin 0))"
    if acc: "running t \<and> qContractId q = contractId t \<and> isFinite (lastPrice q)"
  proof -
    let ?t1 = "fst (onQuoteBucket e t (contractId t) (lastPrice q) n1)"
    let ?t2 = "onQuoteVolume ?t1 (contractId t) (lastPrice q) (dflt (qVolume q) (Fin 0)) n1"
    have v: "volInBarByContract (fst (onQuote e t q n1 n2 n3)) = volInBarByContract ?t2"
      and l: "lastCumVolByContract (fst (onQuote e t q n1 n2 n3)) = lastCumVolByContract ?t2"
      using acc by (simp_all add: onQuote_accepted Let_def)
    have base: "dflt (volInBarByContract ?t1 (contractId t)) (Fin 0) =
       (case barStartMs t of
                 None \<Rightarrow> Fin 0
               | Some b \<Rightarrow> if jgt (bucketOf n1) b then Fin 0
                            else dflt (volInBarByContract t (contractId t)) (Fin 0))"
      unfolding onQuoteBucket_vol by (simp split: option.splits)
    show ?thesis
      unfolding v l onQuoteVolume_vol base [symmetric]
      by (simp add: onQuoteVolume_fields)
  qed
  have g: "volNonNeg t \<and> (\<forall>ev \<in> set evs. counterOk ev) \<longrightarrow> volNonNeg (run e t evs)"
    by (simp add: volNonNeg_run)
  have h: "tickVolume None (Fin 100) = Fin 100"
    "tickVolume (Some (Fin 100)) (Fin 140) = Fin 40"
    "tickVolume (Some (Fin 140)) (Fin 90) = Fin 90"
    by (simp_all add: tickVolume_def jge_def jsub_def rnd_eval)
  from a b c d f g h show ?thesis by blast
qed

lemma volNonNeg_tickedTrader: "volNonNeg tickedTrader"
  by (simp add: tickedTrader_eq volNonNeg_def)

theorem volume_delta_accounting_witness:
  "volNonNeg (run exampleEnv tickedTrader
     [Quote \<lparr>qContractId = ''MNQ'', lastPrice = Fin 101, qVolume = Some (Fin 50)\<rparr> 1000 1000 1000,
      Quote \<lparr>qContractId = ''MNQ'', lastPrice = Fin 99, qVolume = Some (Fin 20)\<rparr> 2000 2000 2000])
   \<and> volInBarByContract (fst (onQuote exampleEnv tickedTrader
        \<lparr>qContractId = ''MNQ'', lastPrice = Fin 101, qVolume = Some (Fin 50)\<rparr> 1000 1000 1000)) ''MNQ''
      = Some (Fin 50)
   \<and> tickVolume (Some (Fin 50)) (Fin 20) = Fin 20
   \<and> \<not> jlt (tickVolume (Some (Fin 50)) (Fin 20)) (Fin 0)"
proof -
  let ?q1 = "\<lparr>qContractId = ''MNQ'', lastPrice = Fin 101, qVolume = Some (Fin 50)\<rparr>"
  let ?q2 = "\<lparr>qContractId = ''MNQ'', lastPrice = Fin 99, qVolume = Some (Fin 20)\<rparr>"
  note th = volume_delta_accounting [of "Fin 20" "Fin 50" "Some (Fin 50)" tickedTrader ?q1
      exampleEnv 1000 1000 1000 "[Quote ?q1 1000 1000 1000, Quote ?q2 2000 2000 2000]"]
  have ok: "\<forall>ev \<in> set [Quote ?q1 1000 1000 1000, Quote ?q2 2000 2000 2000]. counterOk ev"
    by (simp add: counterOk_def)
  have acc: "running tickedTrader \<and> qContractId ?q1 = contractId tickedTrader
      \<and> isFinite (lastPrice ?q1)"
    by (simp add: tickedTrader_eq)
  have nj: "\<not> jge (Fin 20) (Fin 50)" "\<not> jlt (Fin 20) (Fin 0)" by (simp_all add: jge_def)
  have b0: "bucketOf 1000 = Fin 0" by (simp add: bucketOf_def barStepMs_def rnd_eval)
  from th ok acc nj volNonNeg_tickedTrader b0 show ?thesis
    by (simp add: tickedTrader_eq tickVolume_def jge_def jsub_def jgt_def rnd_eval)
qed

text \<open>
  Claim C4 as stated fails for a tick whose cumulative counter is a negative number, which
  \<^verbatim>\<open>onQuote\<close> accepts like any other reading. After a reading of 10 the reading -5 is
  taken for a counter reset and gives the tick the volume -5; and when -5 is the first
  reading of a session the in-bar total, which starts from 0, becomes -5.
\<close>

theorem volume_delta_negative_counter_counterexample:
  "\<not> jge (Fin (- 5)) (Fin 10)
   \<and> tickVolume (Some (Fin 10)) (Fin (- 5)) = Fin (- 5)
   \<and> jlt (tickVolume (Some (Fin 10)) (Fin (- 5))) (Fin 0)
   \<and> volInBarByContract
        (fst (onQuote exampleEnv (start (newTrader exampleCalc (config exampleCalc) ''MNQ''))
           \<lparr>qContractId = ''MNQ'', lastPrice = Fin 100, qVolume = Some (Fin (- 5))\<rparr> 0 0 0)) ''MNQ''
      = Some (Fin (- 5))
   \<and> \<not> volNonNeg
        (fst (onQuote exampleEnv (start (newTrader exampleCalc (config exampleCalc) ''MNQ''))
           \<lparr>qContractId = ''MNQ'', lastPrice = Fin 100, qVolume = Some (Fin (- 5))\<rparr> 0 0 0))"
proof -
  have v: "volInBarByContract
        (fst (onQuote exampleEnv (start (newTrader exampleCalc (config exampleCalc) ''MNQ''))
           \<lparr>qContractId = ''MNQ'', lastPrice = Fin 100, qVolume = Some (Fin (- 5))\<rparr> 0 0 0)) ''MNQ''
      = Some (Fin (- 5))"
    by (simp add: trader_eval calc_eval rnd_eval)
  then have "\<not> volNonNeg
        (fst (onQuote exampleEnv (start (newTrader exampleCalc (config exampleCalc) ''MNQ''))
           \<lparr>qContractId = ''MNQ'', lastPrice = Fin 100, qVolume = Some (Fin (- 5))\<rparr> 0 0 0))"
    unfolding volNonNeg_def by fastforce
  with v show ?thesis by (simp add: tickVolume_def jge_def)
qed





lemma normalizeBar_fields [simp]:
  "timestamp (normalizeBar pc b) = timestamp b"
  "low (normalizeBar pc b) = low b"
  "high (normalizeBar pc b) = high b"
  "close (normalizeBar pc b) = close b"
  "bopen (normalizeBar pc b) = bopen b"
  by (simp_all add: normalizeBar_def Let_def)

lemma updateHigherTimeframeBars_frame [simp]:
  "config (updateHigherTimeframeBars e c b) = config c"
  "currentPosition (updateHigherTimeframeBars e c b) = currentPosition c"
  "bars3min (updateHigherTimeframeBars e c b) = bars3min c"
  "trailingStopLevel (updateHigherTimeframeBars e c b) = trailingStopLevel c"
  "lastEntryBarTimestamp (updateHigherTimeframeBars e c b) = lastEntryBarTimestamp c"
  "isWarmUpProcessed (updateHigherTimeframeBars e c b) = isWarmUpProcessed c"
  by (simp_all add: updateHigherTimeframeBars_def Let_def)

lemma isInTradingSession_config:
  "config c' = config c \<Longrightarrow> isInTradingSession e c' ts = isInTradingSession e c ts"
  by (cases "nyClock e ts") (auto simp: isInTradingSession_def)

lemma checkExitConditions_hit:
  assumes "currentPosition c = Some p"
    and "\<not> jlt (Fin (of_nat (barsSinceEntry e (bars3min c) (entryTime p))))
               (jmax (Fin 0) (Fin (dflt (minBarsBeforeExit (config c)) 0)))"
    and "(direction p = Long \<and> jle (low bar) (stopLoss p))
         \<or> (direction p = Short \<and> jge (high bar) (stopLoss p))"
  shows "checkExitConditions e c bar ms =
    Some \<lparr>signal = (if direction p = Long then Sell else Buy),
          reason = HitStopAt (stopLoss p), confidence = 1\<rparr>"
  using assms by (cases "direction p") (auto simp: checkExitConditions_def Let_def exitSignal_def)

text \<open>
  Claim C5, as amended. After warm-up, for a closed bar whose timestamp is inside the
  trading session: if a position exists, the stored bars later than the entry (the closed
  bar included) are at least the configured minimum, and the bar's low (long) or high
  (short) crosses the fixed stop, then \<^verbatim>\<open>processNewBar\<close> returns the exit signal, sell for a
  long and buy for a short position, with confidence 1, whatever the market state, the
  history and the entry gates are.
\<close>

theorem exit_by_stop_at_bar_close:
  assumes "isWarmUpProcessed c"
    and "isInTradingSession e c (timestamp incoming)"
    and "currentPosition c = Some p"
    and "\<not> jlt (Fin (of_nat (barsSinceEntry e
                  (pushCapped 2000 (bars3min c) (normalizeBar (lastClose (bars3min c)) incoming))
                  (entryTime p))))
               (jmax (Fin 0) (Fin (dflt (minBarsBeforeExit (config c)) 0)))"
    and "(direction p = Long \<and> jle (low incoming) (stopLoss p))
         \<or> (direction p = Short \<and> jge (high incoming) (stopLoss p))"
  shows "fst (processNewBar e c incoming ms) =
    \<lparr>signal = (if direction p = Long then Sell else Buy),
     reason = HitStopAt (stopLoss p), confidence = 1\<rparr>"
proof -
  let ?bar = "normalizeBar (lastClose (bars3min c)) incoming"
  let ?c1 = "c\<lparr>bars3min := pushCapped 2000 (bars3min c) ?bar\<rparr>"
  let ?c2 = "updateHigherTimeframeBars e ?c1 ?bar"
  have s: "isInTradingSession e ?c2 (timestamp incoming)"
    using assms(2) isInTradingSession_config [of ?c2 c e "timestamp incoming"] by simp
  have x: "checkExitConditions e ?c2 ?bar ms' =
    Some \<lparr>signal = (if direction p = Long then Sell else Buy),
          reason = HitStopAt (stopLoss p), confidence = 1\<rparr>" for ms'
    using assms(3,4,5) by (intro checkExitConditions_hit) simp_all
  show ?thesis
    using assms(1) s by (simp add: processNewBar_def Let_def case_prod_beta x)
qed

lemmas calc2_eval = processNewBar_def normalizeBar_def lastClose_def pushCapped_def
  updateHigherTimeframeBars_def calculateATR_def determineTrend_def checkBreakoutCloseTol_def
  checkLtfEmaFilter_def isInTradingSession_def checkExitConditions_def barsSinceEntry_def
  exitSignal_def hold_def longCalc_def lowBar_def newMarketState_def

theorem exit_by_stop_at_bar_close_witness:
  "fst (processNewBar dayEnv longCalc lowBar newMarketState) =
     \<lparr>signal = Sell, reason = HitStopAt (Fin 95), confidence = 1\<rparr>"
proof -
  have w: "isWarmUpProcessed longCalc"
    and p: "currentPosition longCalc = Some \<lparr>entryPrice = Fin 100, entryTime = Fin 0,
       direction = Long, stopLoss = Fin 95, atrSeedForStop = Fin 10, atrSeedForTrail = Fin 10\<rparr>"
    by (simp_all add: longCalc_def)
  have s: "isInTradingSession dayEnv longCalc (timestamp lowBar)"
    by (simp add: isInTradingSession_def dayEnv_def longCalc_def calc_eval rnd_eval)
  have m: "\<not> jlt (Fin (of_nat (barsSinceEntry dayEnv
                  (pushCapped 2000 (bars3min longCalc)
                     (normalizeBar (lastClose (bars3min longCalc)) lowBar))
                  (entryTime \<lparr>entryPrice = Fin 100, entryTime = Fin 0,
       direction = Long, stopLoss = Fin 95, atrSeedForStop = Fin 10, atrSeedForTrail = Fin 10\<rparr>))))
               (jmax (Fin 0) (Fin (dflt (minBarsBeforeExit (config longCalc)) 0)))"
    by (simp add: barsSinceEntry_def pushCapped_def dayEnv_def longCalc_def calc_eval)
  have x: "(direction \<lparr>entryPrice = Fin 100, entryTime = Fin 0,
       direction = Long, stopLoss = Fin 95, atrSeedForStop = Fin 10, atrSeedForTrail = Fin 10\<rparr> = Long
      \<and> jle (low lowBar) (stopLoss \<lparr>entryPrice = Fin 100, entryTime = Fin 0,
       direction = Long, stopLoss = Fin 95, atrSeedForStop = Fin 10, atrSeedForTrail = Fin 10\<rparr>))
    \<or> (direction \<lparr>entryPrice = Fin 100, entryTime = Fin 0,
       direction = Long, stopLoss = Fin 95, atrSeedForStop = Fin 10, atrSeedForTrail = Fin 10\<rparr> = Short
      \<and> jge (high lowBar) (stopLoss \<lparr>entryPrice = Fin 100, entryTime = Fin 0,
       direction = Long, stopLoss = Fin 95, atrSeedForStop = Fin 10, atrSeedForTrail = Fin 10\<rparr>))"
    by (simp add: lowBar_def)
  from exit_by_stop_at_bar_close [OF w s p m x, of newMarketState]
  show ?thesis by simp
qed

text \<open>
  Claim C5 as stated fails outside the trading session: the session gate of
  \<^verbatim>\<open>processNewBar\<close> comes before the exit check. At 03:00 New York time the long position
  of the example, its stop at 95 crossed by a bar with low 94 and no minimum number of
  bars configured, gets a hold.
\<close>

theorem exit_by_stop_out_of_session_counterexample:
  "isWarmUpProcessed longCalc
   \<and> map_option direction (currentPosition longCalc) = Some Long
   \<and> map_option stopLoss (currentPosition longCalc) = Some (Fin 95)
   \<and> jle (low lowBar) (Fin 95)
   \<and> dflt (minBarsBeforeExit (config longCalc)) 0 = 0
   \<and> fst (processNewBar nightEnv longCalc lowBar newMarketState) = hold OutOfSession"
  by (simp add: calc2_eval nightEnv_def calc_eval rnd_eval)



lemma closeBarAndProcess_emitted:
  assumes "snd (closeBarAndProcess e t) = Some b"
  shows "lastPriceByContract t (contractId t) = Some (close b)"
    and "barOpenPx (fst (closeBarAndProcess e t)) = Some (close b)"
    and "volInBarByContract (fst (closeBarAndProcess e t)) (contractId t) = Some (Fin 0)"
    and "signedVolInBarByContract (fst (closeBarAndProcess e t)) (contractId t) = Some (Fin 0)"
    and "prevClosedBarClose (fst (closeBarAndProcess e t)) = Some (close b)"
  using assms
  by (auto simp: closeBarAndProcess_def Let_def case_prod_beta split: option.splits if_splits)

lemma closeBarAndProcess_contractId [simp]:
  "contractId (fst (closeBarAndProcess e t)) = contractId t"
  by (simp add: closeBarAndProcess_def Let_def case_prod_beta split: option.splits)

lemma rollOver_fields:
  "barOpenPx (rollOver t px n b cid) = Some px"
  "signedVolInBarByContract (rollOver t px n b cid) cid = Some (Fin 0)"
  "volInBarByContract (rollOver t px n b cid) cid = Some (Fin 0)"
  by (simp_all add: rollOver_def openBucket_def zeroAccumulators_def Let_def)

lemma heartbeat_emitted:
  assumes "snd (maybeCloseBarByClock e t n) = Some b"
  shows "snd (closeBarAndProcess e t) = Some b"
    and "fst (maybeCloseBarByClock e t n) =
           rollOver (fst (closeBarAndProcess e t)) (the (lastPriceByContract t (contractId t)))
             n (bucketOf n) (contractId t)"
  using assms
  by (auto simp: maybeCloseBarByClock_def Let_def case_prod_beta split: option.splits if_splits)

lemma onQuoteBucket_emitted:
  assumes "snd (onQuoteBucket e t cid px n1) = Some b"
  shows "snd (closeBarAndProcess e t) = Some b"
    and "fst (onQuoteBucket e t cid px n1) =
           rollOver (fst (closeBarAndProcess e t)) px n1 (bucketOf n1) cid"
    and "\<exists>s. barStartMs t = Some s \<and> jgt (bucketOf n1) s"
  using assms
  by (auto simp: onQuoteBucket_def Let_def case_prod_beta split: option.splits if_splits)

lemma onQuote_emitted:
  assumes "snd (onQuote e t q n1 n2 n3) = Some b"
  shows "running t \<and> qContractId q = contractId t \<and> isFinite (lastPrice q)"
    and "snd (onQuoteBucket e t (contractId t) (lastPrice q) n1) = Some b"
  using assms
  by (auto simp: onQuote_def Let_def case_prod_beta split: if_splits)

text \<open>
  Claim C6, as amended. On the heartbeat path, once the closed bar is emitted the volume
  and signed-delta accumulators of the contract are 0 and the new bucket opens at the
  close of that bar. On the tick path the accumulators are 0 after the bucketing step, and
  what the rollover tick then adds is its own volume on top of 0; the new bucket opens at
  the price of the rollover tick, the emitted bar having closed at the last price before
  it.
\<close>

theorem rollover_resets_accumulators:
  "(snd (maybeCloseBarByClock e t n) = Some b \<longrightarrow>
      volInBarByContract (fst (maybeCloseBarByClock e t n)) (contractId t) = Some (Fin 0)
    \<and> signedVolInBarByContract (fst (maybeCloseBarByClock e t n)) (contractId t) = Some (Fin 0)
    \<and> barOpenPx (fst (maybeCloseBarByClock e t n)) = Some (close b))
   \<and> (snd (onQuoteBucket e t (contractId t) px n1) = Some b \<longrightarrow>
      volInBarByContract (fst (onQuoteBucket e t (contractId t) px n1)) (contractId t) = Some (Fin 0)
    \<and> signedVolInBarByContract (fst (onQuoteBucket e t (contractId t) px n1)) (contractId t)
        = Some (Fin 0)
    \<and> barOpenPx (fst (onQuoteBucket e t (contractId t) px n1)) = Some px)
   \<and> (snd (onQuote e t q n1 n2 n3) = Some b \<longrightarrow>
      lastPriceByContract t (contractId t) = Some (close b)
    \<and> barOpenPx (fst (onQuote e t q n1 n2 n3)) = Some (lastPrice q)
    \<and> volInBarByContract (fst (onQuote e t q n1 n2 n3)) (contractId t)
        = Some (jadd (Fin 0)
            (if isFinite (tickVolume (lastCumVolByContract t (contractId t))
                                     (dflt (qVolume q) (Fin 0)))
             then tickVolume (lastCumVolByContract t (contractId t)) (dflt (qVolume q) (Fin 0))
             else Fin 0)))"
proof -
  have h: "volInBarByContract (fst (maybeCloseBarByClock e t n)) (contractId t) = Some (Fin 0)
    \<and> signedVolInBarByContract (fst (maybeCloseBarByClock e t n)) (contractId t) = Some (Fin 0)
    \<and> barOpenPx (fst (maybeCloseBarByClock e t n)) = Some (close b)"
    if em: "snd (maybeCloseBarByClock e t n) = Some b"
  proof -
    from heartbeat_emitted [OF em] closeBarAndProcess_emitted(1) [of e t b]
    show ?thesis by (simp add: rollOver_fields)
  qed
  have k: "volInBarByContract (fst (onQuoteBucket e t (contractId t) px n1)) (contractId t)
        = Some (Fin 0)
    \<and> signedVolInBarByContract (fst (onQuoteBucket e t (contractId t) px n1)) (contractId t)
        = Some (Fin 0)
    \<and> barOpenPx (fst (onQuoteBucket e t (contractId t) px n1)) = Some px"
    if em: "snd (onQuoteBucket e t (contractId t) px n1) = Some b"
    using onQuoteBucket_emitted(2) [OF em] by (simp add: rollOver_fields)
  have q: "lastPriceByContract t (contractId t) = Some (close b)
    \<and> barOpenPx (fst (onQuote e t q n1 n2 n3)) = Some (lastPrice q)
    \<and> volInBarByContract (fst (onQuote e t q n1 n2 n3)) (contractId t)
        = Some (jadd (Fin 0)
            (if isFinite (tickVolume (lastCumVolByContract t (contractId t))
                                     (dflt (qVolume q) (Fin 0)))
             then tickVolume (lastCumVolByContract t (contractId t)) (dflt (qVolume q) (Fin 0))
             else Fin 0))"
    if em: "snd (onQuote e t q n1 n2 n3) = Some b"
  proof -
    note acc = onQuote_emitted(1) [OF em]
    note bk = onQuote_emitted(2) [OF em]
    let ?t1 = "fst (onQuoteBucket e t (contractId t) (lastPrice q) n1)"
    let ?t2 = "onQuoteVolume ?t1 (contractId t) (lastPrice q) (dflt (qVolume q) (Fin 0)) n1"
    have o: "barOpenPx (fst (onQuote e t q n1 n2 n3)) = barOpenPx ?t1"
      and v: "volInBarByContract (fst (onQuote e t q n1 n2 n3)) = volInBarByContract ?t2"
      using acc by (simp_all add: onQuote_accepted Let_def onQuoteVolume_fields)
    have o1: "barOpenPx ?t1 = Some (lastPrice q)"
      and v1: "volInBarByContract ?t1 (contractId t) = Some (Fin 0)"
      using onQuoteBucket_emitted(2) [OF bk] by (simp_all add: rollOver_fields)
    have c: "lastPriceByContract t (contractId t) = Some (close b)"
      using closeBarAndProcess_emitted(1) [OF onQuoteBucket_emitted(1) [OF bk]] .
    show ?thesis
      unfolding o o1 v onQuoteVolume_vol by (simp add: c v1)
  qed
  from h k q show ?thesis by blast
qed

lemma rolledTrader_emitted:
  "map_option close (snd (onQuote exampleEnv tickedTrader
      \<lparr>qContractId = ''MNQ'', lastPrice = Fin 101, qVolume = Some (Fin 50)\<rparr> 180000 180000 180000))
    = Some (Fin 100)"
  by (simp add: tickedTrader_eq trader_eval calc_eval rnd_eval)

lemma tickedTrader_heartbeat_emitted:
  "map_option close (snd (maybeCloseBarByClock exampleEnv tickedTrader 180000)) = Some (Fin 100)"
  by (simp add: tickedTrader_eq maybeCloseBarByClock_def trader_eval calc_eval rnd_eval)

theorem rollover_resets_accumulators_witness:
  "barOpenPx (fst (onQuote exampleEnv tickedTrader
      \<lparr>qContractId = ''MNQ'', lastPrice = Fin 101, qVolume = Some (Fin 50)\<rparr> 180000 180000 180000))
    = Some (Fin 101)
   \<and> volInBarByContract (fst (onQuote exampleEnv tickedTrader
      \<lparr>qContractId = ''MNQ'', lastPrice = Fin 101, qVolume = Some (Fin 50)\<rparr> 180000 180000 180000)) ''MNQ''
    = Some (Fin 40)
   \<and> barOpenPx (fst (maybeCloseBarByClock exampleEnv tickedTrader 180000)) = Some (Fin 100)
   \<and> volInBarByContract (fst (maybeCloseBarByClock exampleEnv tickedTrader 180000)) ''MNQ''
    = Some (Fin 0)"
proof -
  let ?q = "\<lparr>qContractId = ''MNQ'', lastPrice = Fin 101, qVolume = Some (Fin 50)\<rparr>"
  have cid: "contractId tickedTrader = ''MNQ''"
    and lc: "lastCumVolByContract tickedTrader ''MNQ'' = Some (Fin 10)"
    by (simp_all add: tickedTrader_eq)
  from rolledTrader_emitted
  obtain b where b: "snd (onQuote exampleEnv tickedTrader ?q 180000 180000 180000) = Some b"
    by (cases "snd (onQuote exampleEnv tickedTrader ?q 180000 180000 180000)") auto
  from tickedTrader_heartbeat_emitted
  obtain b' where b': "snd (maybeCloseBarByClock exampleEnv tickedTrader 180000) = Some b'"
    and cb': "close b' = Fin 100"
    by (cases "snd (maybeCloseBarByClock exampleEnv tickedTrader 180000)") auto
  from rollover_resets_accumulators [where e = exampleEnv and t = tickedTrader and n = 180000
      and q = ?q and ?n1.0 = 180000 and ?n2.0 = 180000 and ?n3.0 = 180000 and px = "Fin 101"]
    b b'
  have "barOpenPx (fst (onQuote exampleEnv tickedTrader ?q 180000 180000 180000))
      = Some (lastPrice ?q)
    \<and> volInBarByContract (fst (onQuote exampleEnv tickedTrader ?q 180000 180000 180000))
        (contractId tickedTrader)
      = Some (jadd (Fin 0)
            (if isFinite (tickVolume (lastCumVolByContract tickedTrader (contractId tickedTrader))
                                     (dflt (qVolume ?q) (Fin 0)))
             then tickVolume (lastCumVolByContract tickedTrader (contractId tickedTrader))
                    (dflt (qVolume ?q) (Fin 0))
             else Fin 0))
    \<and> barOpenPx (fst (maybeCloseBarByClock exampleEnv tickedTrader 180000)) = Some (close b')
    \<and> volInBarByContract (fst (maybeCloseBarByClock exampleEnv tickedTrader 180000))
        (contractId tickedTrader) = Some (Fin 0)"
    by blast
  then show ?thesis
    unfolding cid lc cb' by (simp add: tickVolume_def jge_def jsub_def rnd_eval)
qed

text \<open>
  Claim C6 as stated fails on the tick path: the trader of the example, last price 100,
  rolls its bucket over on a tick at 101; the emitted bar closes at 100 and the new bucket
  opens at 101.
\<close>

theorem tick_rollover_open_counterexample:
  "map_option close (snd (onQuote exampleEnv tickedTrader
      \<lparr>qContractId = ''MNQ'', lastPrice = Fin 101, qVolume = Some (Fin 50)\<rparr> 180000 180000 180000))
    = Some (Fin 100)
   \<and> barOpenPx (fst (onQuote exampleEnv tickedTrader
      \<lparr>qContractId = ''MNQ'', lastPrice = Fin 101, qVolume = Some (Fin 50)\<rparr> 180000 180000 180000))
    = Some (Fin 101)
   \<and> Fin 101 \<noteq> Fin 100"
  by (simp add: tickedTrader_eq trader_eval calc_eval rnd_eval)



lemma collectValidTail_filter:
  "length acc \<le> 15 \<Longrightarrow>
     collectValidTail xs acc = acc @ take (15 - length acc) (filter validBar xs)"
proof (induction xs arbitrary: acc)
  case Nil
  then show ?case by simp
next
  case (Cons b bs)
  show ?case
  proof (cases "length acc < 15")
    case True
    then have l: "length (if validBar b then acc @ [b] else acc) \<le> 15" by simp
    show ?thesis
    proof (cases "validBar b")
      case v: True
      from True have k: "15 - length acc = Suc (15 - length (acc @ [b]))" by simp
      from Cons.IH [OF l] True v show ?thesis by (simp only: k) simp
    next
      case v: False
      from Cons.IH [OF l] True v show ?thesis by simp
    qed
  next
    case False
    with Cons.prems show ?thesis by simp
  qed
qed

lemma validTail_drop:
  "rev (collectValidTail (rev bs) []) =
     drop (length (filter validBar bs) - 15) (filter validBar bs)"
proof -
  have "collectValidTail (rev bs) [] = take 15 (rev (filter validBar bs))"
    using collectValidTail_filter [of "[]" "rev bs"] by (simp add: rev_filter)
  then show ?thesis by (simp add: rev_take)
qed

lemma trueRanges_const:
  "(\<And>i. Suc i < length ys \<Longrightarrow> trueRange (ys ! i) (ys ! Suc i) = t)
     \<Longrightarrow> trueRanges ys = replicate (length ys - 1) t"
proof (induction ys rule: trueRanges.induct)
  case (1 a b bs)
  have "trueRange a b = t" using "1.prems" [of 0] by simp
  moreover have "trueRanges (b # bs) = replicate (length (b # bs) - 1) t"
  proof (rule "1.IH")
    fix i assume "Suc i < length (b # bs)"
    then show "trueRange ((b # bs) ! i) ((b # bs) ! Suc i) = t"
      using "1.prems" [of "Suc i"] by simp
  qed
  ultimately show ?case by simp
qed simp_all

lemma sum_of_equal_ranges:
  "(\<And>j. 1 \<le> j \<Longrightarrow> j \<le> k \<Longrightarrow> rnd (of_nat j * x) = Fin (of_nat j * x))
     \<Longrightarrow> foldl jadd (Fin 0) (replicate k (Fin x)) = Fin (of_nat k * x)"
proof (induction k)
  case 0
  then show ?case by simp
next
  case (Suc k)
  have ih: "foldl jadd (Fin 0) (replicate k (Fin x)) = Fin (of_nat k * x)"
    by (rule Suc.IH) (simp add: Suc.prems)
  have "replicate (Suc k) (Fin x) = replicate k (Fin x) @ [Fin x]"
    by (simp add: replicate_append_same)
  then have "foldl jadd (Fin 0) (replicate (Suc k) (Fin x)) = jadd (Fin (of_nat k * x)) (Fin x)"
    by (simp add: ih)
  also have "\<dots> = rnd (of_nat (Suc k) * x)" by (simp add: algebra_simps)
  also have "\<dots> = Fin (of_nat (Suc k) * x)" by (rule Suc.prems) simp_all
  finally show ?case .
qed

text \<open>
  Claim C7, as amended. When the history holds at least 15 valid bars, every adjacent
  pair of its valid bars has the true range \<open>c\<close>, and the multiples \<open>c, 2c, \<dots>, 14c\<close> are
  doubles (so that the running sum of the fourteen ranges is exact), \<^verbatim>\<open>calculateATR\<close>
  returns exactly \<open>c\<close>.
\<close>

theorem atr_of_constant_range:
  assumes "15 \<le> length (filter validBar (bars3min c))"
    and "\<forall>i. Suc i < length (filter validBar (bars3min c)) \<longrightarrow>
           trueRange (filter validBar (bars3min c) ! i) (filter validBar (bars3min c) ! Suc i)
             = Fin x"
    and "\<forall>j \<in> {1..14}. rnd (of_nat j * x) = Fin (of_nat j * x)"
  shows "calculateATR c = Fin x"
proof -
  let ?vs = "filter validBar (bars3min c)"
  let ?tail = "drop (length ?vs - 15) ?vs"
  have len: "15 \<le> length (bars3min c)"
    using assms(1) length_filter_le [of validBar "bars3min c"] by linarith
  have lt: "length ?tail = 15" using assms(1) by simp
  have "trueRanges ?tail = replicate (length ?tail - 1) (Fin x)"
  proof (rule trueRanges_const)
    fix i assume i: "Suc i < length ?tail"
    then have "Suc (length ?vs - 15 + i) < length ?vs" by simp
    with assms(2) have "trueRange (?vs ! (length ?vs - 15 + i)) (?vs ! Suc (length ?vs - 15 + i))
      = Fin x" by blast
    with i show "trueRange (?tail ! i) (?tail ! Suc i) = Fin x" by simp
  qed
  moreover have "length ?tail - 1 = 14" unfolding lt by simp
  ultimately have tr: "trueRanges ?tail = replicate 14 (Fin x)" by (simp only:)
  have sum: "foldl jadd (Fin 0) (replicate 14 (Fin x)) = Fin (of_nat 14 * x)"
    by (rule sum_of_equal_ranges) (use assms(3) in auto)
  have one: "rnd x = Fin x" using assms(3) by (auto dest: bspec [of _ _ 1])
  have x0: "x \<noteq> 0 \<Longrightarrow> 14 * x / 14 = x" by simp
  have "jdiv (Fin (of_nat 14 * x)) (Fin 14) = Fin x" using one by simp
  with sum have avg: "jdiv (foldl jadd (Fin 0) (replicate 14 (Fin x))) (Fin 14) = Fin x"
    by simp
  show ?thesis
    using len lt by (simp add: calculateATR_def validTail_drop Let_def tr avg)
qed

lemma rnd_zero [simp]: "rnd 0 = Fin 0"
  by (simp add: rnd_def)

lemma flatBar_range:
  "0 \<le> h \<Longrightarrow> rnd h = Fin h \<Longrightarrow> trueRange (flatBar h) (flatBar h) = Fin h"
  by (simp add: trueRange_def flatBar_def jsub_def jmax_def)

lemma flatCalc_valid:
  "filter validBar (bars3min (flatCalc h)) = bars3min (flatCalc h)"
  "length (bars3min (flatCalc h)) = 15"
  by (simp_all add: flatCalc_def validBar_def flatBar_def)

lemma flatCalc_bars: "bars3min (flatCalc h) = replicate 15 (flatBar h)"
  by (simp add: flatCalc_def numeral_eq_Suc)

lemma flatCalc_nth: "i < 15 \<Longrightarrow> bars3min (flatCalc h) ! i = flatBar h"
  by (simp add: flatCalc_bars)

lemma flatCalc_ranges:
  assumes "0 \<le> h" and "rnd h = Fin h"
  shows "\<forall>i. Suc i < length (filter validBar (bars3min (flatCalc h))) \<longrightarrow>
           trueRange (filter validBar (bars3min (flatCalc h)) ! i)
                     (filter validBar (bars3min (flatCalc h)) ! Suc i) = Fin h"
  unfolding flatCalc_valid using assms by (auto simp: flatCalc_nth flatBar_range)

lemma multiples_of_2_5: "\<forall>j \<in> {1..14}. rnd (of_nat j * (5/2)) = Fin (of_nat j * (5/2))"
  by (simp add: atLeastAtMost_upt upt_rec rnd_eval)

theorem atr_of_constant_range_witness: "calculateATR (flatCalc (5/2)) = Fin (5/2)"
proof -
  have l: "15 \<le> length (filter validBar (bars3min (flatCalc (5/2))))"
    by (simp add: flatCalc_valid)
  have h: "(0::real) \<le> 5/2" by simp
  have r: "rnd (5/2) = Fin (5/2)" by (simp add: rnd_eval)
  from atr_of_constant_range [OF l flatCalc_ranges [OF h r] multiples_of_2_5]
  show ?thesis .
qed

lemma flatCalc_atr_0_01:
  "calculateATR (flatCalc d0_01) = Fin (2882303761517117 / 288230376151711744)"
  by (simp add: calculateATR_def flatCalc_def validBar_def flatBar_def trueRange_def jsub_def
      jmax_def d0_01_def rnd_eval)

text \<open>
  Claim C7 as stated fails in double arithmetic: for fifteen valid bars whose true range
  is the double 0.01 throughout, the running sum of fourteen ranges is rounded, and
  \<^verbatim>\<open>calculateATR\<close> returns 0.009999999999999998.
\<close>

theorem atr_of_constant_range_counterexample:
  "length (filter validBar (bars3min (flatCalc d0_01))) = 15
   \<and> set (trueRanges (filter validBar (bars3min (flatCalc d0_01)))) = {Fin d0_01}
   \<and> calculateATR (flatCalc d0_01) = Fin (2882303761517117 / 288230376151711744)
   \<and> calculateATR (flatCalc d0_01) \<noteq> Fin d0_01"
proof -
  have h: "0 \<le> d0_01" by (simp add: d0_01_def)
  have r: "rnd d0_01 = Fin d0_01" by (simp add: d0_01_def rnd_eval)
  have "trueRanges (filter validBar (bars3min (flatCalc d0_01)))
      = replicate (length (filter validBar (bars3min (flatCalc d0_01))) - 1) (Fin d0_01)"
    by (rule trueRanges_const) (use flatCalc_ranges [OF h r] in blast)
  then have t: "set (trueRanges (filter validBar (bars3min (flatCalc d0_01)))) = {Fin d0_01}"
    by (simp add: flatCalc_valid)
  have "calculateATR (flatCalc d0_01) \<noteq> Fin d0_01"
    unfolding flatCalc_atr_0_01 by (simp add: d0_01_def)
  with t show ?thesis by (simp add: flatCalc_valid flatCalc_atr_0_01)
qed



lemma generateSignal_fade_hold:
  "barCloseFade c (dflt (delta bar) (Fin 0)) = Some h \<Longrightarrow> signal h = Hold
     \<Longrightarrow> signal (fst (generateSignal c bar ms g)) = Hold"
  by (simp add: generateSignal_def Let_def hold_def)

lemma generateSignal_no_fade:
  "barCloseFade c (dflt (delta bar) (Fin 0)) = None
     \<Longrightarrow> reason (fst (generateSignal c bar ms g)) \<noteq> BarCloseFade x y"
  by (simp add: generateSignal_def Let_def hold_def)

lemma surge_threshold: "rnd (200 * d1_8) = Fin 360"
  by (simp add: d1_8_def rnd_eval)

lemma literal_doubles:
  "rnd (9/10) = Fin d0_9" "rnd (18/10) = Fin d1_8" "rnd (7/10) = Fin d0_7"
  by (simp_all add: d0_9_def d1_8_def d0_7_def rnd_eval)

text \<open>
  Claim C9, as amended. A closed bar with delta 500, evaluated with a delta average of 200,
  spike threshold 450, surge multiplier 1.8, a bullish higher timeframe, the breakout-up
  gate open, the EMA filter off and ATR 10 over the minimum 9, gives buy with confidence
  0.9 and records the bar's timestamp, provided the fade check of the bar-close path
  passes and the bar is not the one already recorded; after that, every evaluation of a
  bar with the same timestamp gives the hold of the same-bar re-entry block, whatever the
  other gates say.
\<close>

theorem qualifying_bar_buys_once:
  assumes "delta bar = Some (Fin 500)"
    and "smaSignedDelta c (max 1 (dflt (deltaSMALength (config c)) 20))
           (int (length (bars3min c)) - 1) = Fin 200"
    and "deltaSpikeThreshold (config c) = Some 450"
    and "deltaSurgeMultiplier (config c) = Some d1_8"
    and "higherTimeframeTrend ms = Bullish"
    and "brokeUpCloseTol g"
    and "\<not> useEmaFilter (config c)"
    and "atr ms = Fin 10"
    and "minAtrToTrade (config c) = Some 9"
    and "lastEntryBarTimestamp c \<noteq> Some (timestamp bar)"
    and "barCloseFade c (Fin 500) = None"
  shows "generateSignal c bar ms g =
           (\<lparr>signal = Buy, reason = LongEntry (Fin 500), confidence = d0_9\<rparr>,
            c\<lparr>lastEntryBarTimestamp := Some (timestamp bar)\<rparr>)
       \<and> (\<forall>bar2 ms2 g2. timestamp bar2 = timestamp bar \<longrightarrow>
             fst (generateSignal (snd (generateSignal c bar ms g)) bar2 ms2 g2)
               = hold SameBarReEntry)"
proof -
  have first: "generateSignal c bar ms g =
           (\<lparr>signal = Buy, reason = LongEntry (Fin 500), confidence = d0_9\<rparr>,
            c\<lparr>lastEntryBarTimestamp := Some (timestamp bar)\<rparr>)"
    using assms by (simp add: generateSignal_def Let_def jgt_def surge_threshold)
  have "fst (generateSignal (c\<lparr>lastEntryBarTimestamp := Some (timestamp bar)\<rparr>) bar2 ms2 g2)
      = hold SameBarReEntry" if "timestamp bar2 = timestamp bar" for bar2 ms2 g2
    using that by (simp add: generateSignal_def)
  with first show ?thesis by simp
qed

lemmas scenario_eval = scenarioCalc_def deltaBar_def scenarioState_def scenarioGates_def
  exampleCalc_def newCalculator_def smaSignedDelta_def deltaAt_def numOrZero_def
  barCloseFade_def fadeOk_def jeq_def jge_def jgt_def jmax_def Let_def upt_rec

lemma scenario_sma:
  "smaSignedDelta (scenarioCalc 600 (- 500)) 3 2 = Fin 200"
  "smaSignedDelta (scenarioCalc 1100 (- 1000)) 3 2 = Fin 200"
  by (simp_all add: scenario_eval rnd_eval)

lemma scenario_fade:
  "barCloseFade (scenarioCalc 600 (- 500)) (Fin 500) = None"
  "barCloseFade (scenarioCalc 1100 (- 1000)) (Fin 500)
     = Some (hold (BarCloseFade (Fin 500) (Fin 1000)))"
  by (simp_all add: scenario_eval d0_7_def rnd_eval)

theorem qualifying_bar_buys_once_witness:
  "fst (generateSignal (scenarioCalc 600 (- 500)) (deltaBar ''c'' 500) scenarioState scenarioGates)
     = \<lparr>signal = Buy, reason = LongEntry (Fin 500), confidence = d0_9\<rparr>
   \<and> fst (generateSignal
           (snd (generateSignal (scenarioCalc 600 (- 500)) (deltaBar ''c'' 500) scenarioState
                   scenarioGates))
           (deltaBar ''c'' 500) scenarioState scenarioGates) = hold SameBarReEntry"
proof -
  have "generateSignal (scenarioCalc 600 (- 500)) (deltaBar ''c'' 500) scenarioState scenarioGates =
           (\<lparr>signal = Buy, reason = LongEntry (Fin 500), confidence = d0_9\<rparr>,
            (scenarioCalc 600 (- 500))\<lparr>lastEntryBarTimestamp :=
               Some (timestamp (deltaBar ''c'' 500))\<rparr>)
       \<and> (\<forall>bar2 ms2 g2. timestamp bar2 = timestamp (deltaBar ''c'' 500) \<longrightarrow>
             fst (generateSignal (snd (generateSignal (scenarioCalc 600 (- 500))
                    (deltaBar ''c'' 500) scenarioState scenarioGates)) bar2 ms2 g2)
               = hold SameBarReEntry)"
  proof (rule qualifying_bar_buys_once)
    show "smaSignedDelta (scenarioCalc 600 (- 500))
        (max 1 (dflt (deltaSMALength (config (scenarioCalc 600 (- 500)))) 20))
        (int (length (bars3min (scenarioCalc 600 (- 500)))) - 1) = Fin 200"
      using scenario_sma(1) by (simp add: scenarioCalc_def)
    show "barCloseFade (scenarioCalc 600 (- 500)) (Fin 500) = None"
      by (rule scenario_fade(1))
  qed (simp_all add: scenarioCalc_def deltaBar_def scenarioState_def scenarioGates_def
        exampleCalc_def newCalculator_def)
  then have a: "generateSignal (scenarioCalc 600 (- 500)) (deltaBar ''c'' 500) scenarioState
        scenarioGates =
           (\<lparr>signal = Buy, reason = LongEntry (Fin 500), confidence = d0_9\<rparr>,
            (scenarioCalc 600 (- 500))\<lparr>lastEntryBarTimestamp :=
               Some (timestamp (deltaBar ''c'' 500))\<rparr>)"
    and b: "\<And>bar2 ms2 g2. timestamp bar2 = timestamp (deltaBar ''c'' 500) \<Longrightarrow>
             fst (generateSignal (snd (generateSignal (scenarioCalc 600 (- 500))
                    (deltaBar ''c'' 500) scenarioState scenarioGates)) bar2 ms2 g2)
               = hold SameBarReEntry"
    by blast+
  have "fst (generateSignal (scenarioCalc 600 (- 500)) (deltaBar ''c'' 500) scenarioState
        scenarioGates) = \<lparr>signal = Buy, reason = LongEntry (Fin 500), confidence = d0_9\<rparr>"
    unfolding a by simp
  with b [OF refl, of scenarioState scenarioGates] show ?thesis by blast
qed

text \<open>
  Claim C9 as stated fails when the previous bar's delta is large: with the deltas 1100,
  -1000, 500 the average is 200 and every condition the claim lists holds, but 500 is
  under 0.7 of the peak 1000 and the fade check of the bar-close path returns a hold.
\<close>

theorem qualifying_bar_fade_counterexample:
  "delta (deltaBar ''c'' 500) = Some (Fin 500)
   \<and> smaSignedDelta (scenarioCalc 1100 (- 1000)) 3 2 = Fin 200
   \<and> dflt (deltaSMALength (config (scenarioCalc 1100 (- 1000)))) 20 = 3
   \<and> deltaSpikeThreshold (config (scenarioCalc 1100 (- 1000))) = Some 450
   \<and> deltaSurgeMultiplier (config (scenarioCalc 1100 (- 1000))) = Some d1_8
   \<and> minAtrToTrade (config (scenarioCalc 1100 (- 1000))) = Some 9
   \<and> useEmaFilter (config (scenarioCalc 1100 (- 1000))) = False
   \<and> lastEntryBarTimestamp (scenarioCalc 1100 (- 1000)) = None
   \<and> atr scenarioState = Fin 10
   \<and> higherTimeframeTrend scenarioState = Bullish
   \<and> brokeUpCloseTol scenarioGates
   \<and> fst (generateSignal (scenarioCalc 1100 (- 1000)) (deltaBar ''c'' 500) scenarioState
            scenarioGates) = hold (BarCloseFade (Fin 500) (Fin 1000))"
proof -
  have s: "smaSignedDelta (scenarioCalc 1100 (- 1000))
        (max 1 (dflt (deltaSMALength (config (scenarioCalc 1100 (- 1000)))) 20))
        (int (length (bars3min (scenarioCalc 1100 (- 1000)))) - 1) = Fin 200"
    using scenario_sma(2) by (simp add: scenarioCalc_def)
  have d: "dflt (delta (deltaBar ''c'' 500)) (Fin 0) = Fin 500" by (simp add: deltaBar_def)
  have "fst (generateSignal (scenarioCalc 1100 (- 1000)) (deltaBar ''c'' 500) scenarioState
            scenarioGates) = hold (BarCloseFade (Fin 500) (Fin 1000))"
    unfolding generateSignal_def Let_def s d scenario_fade(2)
    by (simp add: scenarioCalc_def scenarioState_def exampleCalc_def newCalculator_def
        deltaBar_def jgt_def)
  moreover have "delta (deltaBar ''c'' 500) = Some (Fin 500)
   \<and> dflt (deltaSMALength (config (scenarioCalc 1100 (- 1000)))) 20 = 3
   \<and> deltaSpikeThreshold (config (scenarioCalc 1100 (- 1000))) = Some 450
   \<and> deltaSurgeMultiplier (config (scenarioCalc 1100 (- 1000))) = Some d1_8
   \<and> minAtrToTrade (config (scenarioCalc 1100 (- 1000))) = Some 9
   \<and> useEmaFilter (config (scenarioCalc 1100 (- 1000))) = False
   \<and> lastEntryBarTimestamp (scenarioCalc 1100 (- 1000)) = None
   \<and> atr scenarioState = Fin 10
   \<and> higherTimeframeTrend scenarioState = Bullish
   \<and> brokeUpCloseTol scenarioGates"
    by (simp add: scenarioCalc_def deltaBar_def scenarioState_def scenarioGates_def
        exampleCalc_def newCalculator_def)
  ultimately show ?thesis using scenario_sma(2) by blast
qed

lemma handleSignal_blocked:
  "strictEq (enteredBarStartMs t) (barStartMs t) \<Longrightarrow> handleSignal t sg bar = t"
  by (simp add: handleSignal_def)

lemma jgt_neq: "jgt a b \<Longrightarrow> a \<noteq> b"
  by (cases a; cases b) (auto simp: jgt_def)

lemma onQuoteVolume_entry [simp]:
  "enteredBarStartMs (onQuoteVolume t cid px cum n1) = enteredBarStartMs t"
  "inflight (onQuoteVolume t cid px cum n1) = inflight t"
  "calls (onQuoteVolume t cid px cum n1) = calls t"
  by (simp_all add: onQuoteVolume_def Let_def)

lemma onQuoteExits_entry [simp]:
  "enteredBarStartMs (fst (onQuoteExits t px n2)) = enteredBarStartMs t"
  "inflight (fst (onQuoteExits t px n2)) = inflight t"
  "orders (fst (onQuoteExits t px n2)) = orders t"
  by (simp_all add: onQuoteExits_def Let_def orders_def isOrder_def split: prod.splits)

lemma checkIntraBarSignal_entered:
  assumes "strictEq (enteredBarStartMs t) (barStartMs t)"
  shows "enteredBarStartMs (checkIntraBarSignal e t px n1 n3) = enteredBarStartMs t
       \<and> inflight (checkIntraBarSignal e t px n1 n3) = inflight t
       \<and> calls (checkIntraBarSignal e t px n1 n3) = calls t"
proof (cases "barStartMs t")
  case None
  then show ?thesis by (simp add: checkIntraBarSignal_def)
next
  case (Some s)
  have "handleSignal (t\<lparr>calculator := c', marketState := ms'\<rparr>) sg bar
      = t\<lparr>calculator := c', marketState := ms'\<rparr>" for c' ms' sg bar
    using assms by (intro handleSignal_blocked) simp
  with Some show ?thesis
    by (simp add: checkIntraBarSignal_def Let_def case_prod_beta)
qed

lemma onQuoteIntraBar_entered:
  assumes "strictEq (enteredBarStartMs t) (barStartMs t)"
  shows "enteredBarStartMs (onQuoteIntraBar e t px n1 n3) = enteredBarStartMs t
       \<and> inflight (onQuoteIntraBar e t px n1 n3) = inflight t
       \<and> calls (onQuoteIntraBar e t px n1 n3) = calls t"
proof -
  have "strictEq (enteredBarStartMs (t\<lparr>lastIntraBarCheckMs := Fin n1\<rparr>))
          (barStartMs (t\<lparr>lastIntraBarCheckMs := Fin n1\<rparr>))"
    using assms by simp
  from checkIntraBarSignal_entered [OF this, of e px n1 n3] show ?thesis
    by (simp add: onQuoteIntraBar_def Let_def)
qed

lemma onQuoteBucket_barStart:
  "barStartMs (fst (onQuoteBucket e t cid px n1)) =
     (case barStartMs t of
        None \<Rightarrow> Some (bucketOf n1)
      | Some s \<Rightarrow> if jgt (bucketOf n1) s then Some (bucketOf n1) else Some s)"
  by (simp add: onQuoteBucket_def rollOver_def openBucket_def zeroAccumulators_def Let_def
      case_prod_beta split: option.splits)

lemma onQuoteBucket_stay:
  assumes "barStartMs t = Some s" and "\<not> jgt (bucketOf n1) s"
  shows "enteredBarStartMs (fst (onQuoteBucket e t cid px n1)) = enteredBarStartMs t"
    and "inflight (fst (onQuoteBucket e t cid px n1)) = inflight t"
    and "calls (fst (onQuoteBucket e t cid px n1)) = calls t"
    and "barStartMs (fst (onQuoteBucket e t cid px n1)) = barStartMs t"
  using assms by (simp_all add: onQuoteBucket_def Let_def)

lemma onQuote_barStart:
  assumes "running t \<and> qContractId q = contractId t \<and> isFinite (lastPrice q)"
  shows "barStartMs (fst (onQuote e t q n1 n2 n3)) =
           barStartMs (fst (onQuoteBucket e t (contractId t) (lastPrice q) n1))"
  using assms by (simp add: onQuote_accepted Let_def onQuoteVolume_fields)

lemma marked_onQuote:
  assumes "strictEq (enteredBarStartMs t) (barStartMs t)"
    and "barStartMs (fst (onQuote e t q n1 n2 n3)) = barStartMs t"
  shows "enteredBarStartMs (fst (onQuote e t q n1 n2 n3)) = enteredBarStartMs t
       \<and> inflight (fst (onQuote e t q n1 n2 n3)) = inflight t
       \<and> orders (fst (onQuote e t q n1 n2 n3)) = orders t"
proof (cases "running t \<and> qContractId q = contractId t \<and> isFinite (lastPrice q)")
  case False
  then show ?thesis by (auto simp: onQuote_def)
next
  case True
  let ?t1 = "fst (onQuoteBucket e t (contractId t) (lastPrice q) n1)"
  let ?t2 = "onQuoteVolume ?t1 (contractId t) (lastPrice q) (dflt (qVolume q) (Fin 0)) n1"
  let ?t3 = "fst (onQuoteExits ?t2 (lastPrice q) n2)"
  from assms(2) onQuote_barStart [OF True, of e n1 n2 n3]
  have same: "barStartMs ?t1 = barStartMs t" by simp
  then obtain s where s: "barStartMs t = Some s" and stay: "\<not> jgt (bucketOf n1) s"
    unfolding onQuoteBucket_barStart
    by (cases "barStartMs t") (auto split: if_splits dest: jgt_neq)
  note b = onQuoteBucket_stay [OF s stay, of e "contractId t" "lastPrice q"]
  have e3: "enteredBarStartMs ?t3 = enteredBarStartMs t" and i3: "inflight ?t3 = inflight t"
    and b3: "barStartMs ?t3 = barStartMs t"
    using b by (simp_all add: onQuoteVolume_fields)
  have "orders ?t2 = orders t" using b by (simp add: orders_def)
  then have o3: "orders ?t3 = orders t" by simp
  have m3: "strictEq (enteredBarStartMs ?t3) (barStartMs ?t3)"
    unfolding e3 b3 by (rule assms(1))
  note ib = onQuoteIntraBar_entered [OF m3, of e "lastPrice q" n1 n3]
  have fin: "fst (onQuote e t q n1 n2 n3) = ?t3
    \<or> fst (onQuote e t q n1 n2 n3) = onQuoteIntraBar e ?t3 (lastPrice q) n1 n3"
    using True by (simp add: onQuote_accepted Let_def)
  then show ?thesis
  proof
    assume "fst (onQuote e t q n1 n2 n3) = ?t3"
    with e3 i3 o3 show ?thesis by simp
  next
    assume f: "fst (onQuote e t q n1 n2 n3) = onQuoteIntraBar e ?t3 (lastPrice q) n1 n3"
    from ib e3 i3 o3 show ?thesis
      unfolding f by (simp add: orders_def)
  qed
qed

lemma heartbeat_barStart:
  "fst (maybeCloseBarByClock e t n) = t
   \<or> (\<exists>s. barStartMs t = Some s \<and> jgt (bucketOf n) s
        \<and> barStartMs (fst (maybeCloseBarByClock e t n)) = Some (bucketOf n))"
  by (auto simp: maybeCloseBarByClock_def rollOver_def openBucket_def zeroAccumulators_def
      Let_def case_prod_beta split: option.splits)

lemma same_heartbeat:
  assumes "barStartMs (fst (maybeCloseBarByClock e t n)) = barStartMs t"
  shows "fst (maybeCloseBarByClock e t n) = t"
  using heartbeat_barStart [of e t n] assms by (auto dest: jgt_neq)

lemma filter_update_drop:
  "i < length xs \<Longrightarrow> P (xs ! i) \<Longrightarrow> \<not> P y
     \<Longrightarrow> Suc (length (filter P (xs[i := y]))) = length (filter P xs)"
proof (induction xs arbitrary: i)
  case Nil
  then show ?case by simp
next
  case (Cons x xs)
  then show ?case by (cases i) auto
qed

lemma filter_removeAt:
  assumes "i < length xs" and "\<not> P (xs ! i)"
  shows "filter P (removeAt i xs) = filter P xs"
proof -
  have "filter P xs = filter P (take i xs @ xs ! i # drop (Suc i) xs)"
    using assms(1) by (simp add: id_take_nth_drop [symmetric])
  with assms(2) show ?thesis by (simp add: removeAt_def)
qed

lemma equitySettled_marked:
  "enteredBarStartMs (equitySettled t i (Some bal)) = enteredBarStartMs t
   \<and> barStartMs (equitySettled t i (Some bal)) = barStartMs t
   \<and> (\<exists>ks. orders (equitySettled t i (Some bal)) = orders t @ ks
         \<and> length ks + awaiting (equitySettled t i (Some bal)) \<le> awaiting t)"
proof (cases "i < length (inflight t) \<and> eStage (inflight t ! i) = AwaitEquity")
  case False
  then show ?thesis by (auto simp: equitySettled_def)
next
  case True
  let ?P = "\<lambda>en. eStage en = AwaitEquity"
  from True have "Suc (length (filter ?P ((inflight t)[i := (inflight t ! i)\<lparr>eStage := AwaitOrder q\<rparr>])))
      = length (filter ?P (inflight t))" for q
    by (intro filter_update_drop) simp_all
  with True show ?thesis
    by (simp add: equitySettled_def Let_def orders_def isOrder_def awaiting_def)
qed

lemma orderSettled_marked:
  "enteredBarStartMs (orderSettled t i True now) = enteredBarStartMs t
   \<and> barStartMs (orderSettled t i True now) = barStartMs t
   \<and> orders (orderSettled t i True now) = orders t
   \<and> awaiting (orderSettled t i True now) = awaiting t"
proof (cases "i < length (inflight t)")
  case False
  then show ?thesis by (simp add: orderSettled_def)
next
  case True
  show ?thesis
  proof (cases "eStage (inflight t ! i)")
    case AwaitEquity
    with True show ?thesis by (simp add: orderSettled_def)
  next
    case (AwaitOrder qty)
    with True have "filter (\<lambda>en. eStage en = AwaitEquity) (removeAt i (inflight t))
        = filter (\<lambda>en. eStage en = AwaitEquity) (inflight t)"
      by (intro filter_removeAt) simp_all
    with True AwaitOrder show ?thesis
      by (simp add: orderSettled_def Let_def orders_def isOrder_def awaiting_def)
  qed
qed

lemma marked_step:
  assumes "strictEq (enteredBarStartMs t) (barStartMs t)"
    and "barStartMs (step e t ev) = barStartMs t" and "\<not> failure ev"
  shows "strictEq (enteredBarStartMs (step e t ev)) (barStartMs (step e t ev))
       \<and> (\<exists>ks. orders (step e t ev) = orders t @ ks
             \<and> length ks + awaiting (step e t ev) \<le> awaiting t)"
proof (cases ev)
  case (Quote q n1 n2 n3)
  with assms marked_onQuote [of t e q n1 n2 n3] show ?thesis by (simp add: awaiting_def)
next
  case (Heartbeat n)
  with assms same_heartbeat [of e t n] show ?thesis by simp
next
  case (EquitySettled i res)
  with assms(3) obtain bal where "res = Some bal" by (cases res) auto
  with EquitySettled assms(1) equitySettled_marked [of t i bal] show ?thesis by simp
next
  case (OrderSettled i ok now)
  with assms(3) have "ok" by (cases ok) auto
  with OrderSettled assms(1) orderSettled_marked [of t i now] show ?thesis by simp
next
  case (FlattenSettled ok)
  with assms(1) show ?thesis
    by (simp add: flattenSettled_def orders_def isOrder_def awaiting_def)
next
  case Start
  with assms(1) show ?thesis
    by (simp add: start_def resetTraderState_def orders_def awaiting_def strictEq_def Let_def)
next
  case Stop
  with assms(1) show ?thesis by (simp add: stop_def orders_def awaiting_def)
qed

lemma marked_run:
  "strictEq (enteredBarStartMs t) (barStartMs t) \<Longrightarrow> sameBucket e t evs
     \<Longrightarrow> \<forall>ev \<in> set evs. \<not> failure ev
     \<Longrightarrow> strictEq (enteredBarStartMs (run e t evs)) (barStartMs (run e t evs))
       \<and> (\<exists>ks. orders (run e t evs) = orders t @ ks
             \<and> length ks + awaiting (run e t evs) \<le> awaiting t)"
proof (induction evs arbitrary: t)
  case Nil
  then show ?case by simp
next
  case (Cons ev evs)
  from Cons.prems have b: "barStartMs (step e t ev) = barStartMs t"
    and r: "sameBucket e (step e t ev) evs" and f: "\<not> failure ev"
    and fs: "\<forall>ev \<in> set evs. \<not> failure ev" by simp_all
  from marked_step [OF Cons.prems(1) b f] obtain ks
    where s: "strictEq (enteredBarStartMs (step e t ev)) (barStartMs (step e t ev))"
      and o: "orders (step e t ev) = orders t @ ks"
      and n: "length ks + awaiting (step e t ev) \<le> awaiting t" by blast
  from Cons.IH [OF s r fs] obtain ks'
    where s': "strictEq (enteredBarStartMs (run e (step e t ev) evs))
                 (barStartMs (run e (step e t ev) evs))"
      and o': "orders (run e (step e t ev) evs) = orders (step e t ev) @ ks'"
      and n': "length ks' + awaiting (run e (step e t ev) evs) \<le> awaiting (step e t ev)"
    by blast
  from o o' have "orders (run e (step e t ev) evs) = orders t @ (ks @ ks')" by simp
  moreover from n n' have "length (ks @ ks') + awaiting (run e (step e t ev) evs) \<le> awaiting t"
    by simp
  ultimately show ?case using s' by auto
qed

lemma handleSignal_marks:
  assumes "handleSignal t sg bar \<noteq> t" and "barStartMs t \<noteq> Some NaN"
  shows "strictEq (enteredBarStartMs (handleSignal t sg bar)) (barStartMs (handleSignal t sg bar))"
    and "orders (handleSignal t sg bar) = orders t"
    and "awaiting (handleSignal t sg bar) = Suc (awaiting t)"
proof -
  have eq: "strictEq a a" if "a \<noteq> Some NaN" for a
    using that by (cases a) (auto simp: strictEq_def jeq_def split: jsnum.splits)
  from assms show "strictEq (enteredBarStartMs (handleSignal t sg bar)) (barStartMs (handleSignal t sg bar))"
    by (auto simp: handleSignal_def Let_def eq split: if_splits)
  from assms(1) show "orders (handleSignal t sg bar) = orders t"
    by (auto simp: handleSignal_def Let_def orders_def isOrder_def split: if_splits)
  from assms(1) show "awaiting (handleSignal t sg bar) = Suc (awaiting t)"
    by (auto simp: handleSignal_def Let_def awaiting_def split: if_splits)
qed

lemma same_quote:
  assumes "running t" and "qContractId q = contractId t" and "isFinite (lastPrice q)"
    and "barStartMs t = Some s" and "\<not> jgt (bucketOf n1) s"
  shows "barStartMs (step e t (Quote q n1 n2 n3)) = barStartMs t"
  using assms onQuote_barStart [of t q e n1 n2 n3] by (simp add: onQuoteBucket_barStart)

lemma settle_frame [simp]:
  "running (equitySettled t i (Some bal)) = running t"
  "contractId (equitySettled t i (Some bal)) = contractId t"
  "running (orderSettled t i True now) = running t"
  "contractId (orderSettled t i True now) = contractId t"
  by (simp_all add: equitySettled_def orderSettled_def Let_def split: stage.splits)

text \<open>
  C1 (entry once per bucket). Once \<^verbatim>\<open>handleSignal\<close> has recorded the current bucket in
  \<^verbatim>\<open>enteredBarStartMs\<close>, then over every run of quotes, heartbeats, settled promises,
  starts and stops that leaves the bucket start unchanged and in which no entry fails,
  the record stays, every signal handed to \<^verbatim>\<open>handleSignal\<close> afterwards returns without a
  call and without a change of state, and \<^verbatim>\<open>createOrder\<close> is called at most once for each
  activation that was already waiting for the equity; so it is not called at all once
  the order of the recorded entry has been submitted.
\<close>

theorem entry_once_per_bucket:
  assumes "strictEq (enteredBarStartMs t) (barStartMs t)"
    and "sameBucket e t evs" and "\<forall>ev \<in> set evs. \<not> failure ev"
  shows "handleSignal (run e t evs) sg bar = run e t evs
       \<and> (\<exists>ks. orders (run e t evs) = orders t @ ks
             \<and> length ks + awaiting (run e t evs) \<le> awaiting t)
       \<and> (awaiting t = 0 \<longrightarrow> orders (run e t evs) = orders t)"
proof -
  from marked_run [OF assms] obtain ks
    where s: "strictEq (enteredBarStartMs (run e t evs)) (barStartMs (run e t evs))"
      and o: "orders (run e t evs) = orders t @ ks"
      and n: "length ks + awaiting (run e t evs) \<le> awaiting t" by blast
  from s have "handleSignal (run e t evs) sg bar = run e t evs" by (rule handleSignal_blocked)
  moreover have "awaiting t = 0 \<longrightarrow> orders (run e t evs) = orders t"
  proof
    assume "awaiting t = 0"
    with n have "ks = []" by simp
    with o show "orders (run e t evs) = orders t" by simp
  qed
  ultimately show ?thesis using o n by blast
qed

lemma measuredTrader_signalled:
  "handleSignal measuredTrader buySignal (deltaBar ''c'' 500) =
     measuredTrader\<lparr>enteredBarStartMs := Some (Fin 0), isEnteringPosition := True,
       reconciling := True,
       calculator := captureAtrAtSignal (calculator measuredTrader) (Fin 10),
       calls := [GetEquity],
       inflight := [\<lparr>eSignal = buySignal, eBar = deltaBar ''c'' 500, eBarId = Some (Fin 0),
                     eDirection = Long, eAtrSnapshot = Fin 10, eStage = AwaitEquity\<rparr>]\<rparr>"
  by (simp add: measuredTrader_def tickedTrader_eq handleSignal_def buySignal_def
      scenarioState_def hasPosition_def strictEq_def exampleCalc_def newCalculator_def
      jmax_def jgt_def Let_def)

theorem entry_once_per_bucket_witness:
  "handleSignal
     (run exampleEnv (handleSignal measuredTrader buySignal (deltaBar ''c'' 500))
        [EquitySettled 0 (Some (Fin 50000)), OrderSettled 0 True 1000,
         Quote \<lparr>qContractId = ''MNQ'', lastPrice = Fin 101, qVolume = Some (Fin 50)\<rparr> 2000 2000 2000,
         Heartbeat 3000])
     buySignal (deltaBar ''c'' 500)
   = run exampleEnv (handleSignal measuredTrader buySignal (deltaBar ''c'' 500))
        [EquitySettled 0 (Some (Fin 50000)), OrderSettled 0 True 1000,
         Quote \<lparr>qContractId = ''MNQ'', lastPrice = Fin 101, qVolume = Some (Fin 50)\<rparr> 2000 2000 2000,
         Heartbeat 3000]
   \<and> length (orders (run exampleEnv (handleSignal measuredTrader buySignal (deltaBar ''c'' 500))
        [EquitySettled 0 (Some (Fin 50000)), OrderSettled 0 True 1000,
         Quote \<lparr>qContractId = ''MNQ'', lastPrice = Fin 101, qVolume = Some (Fin 50)\<rparr> 2000 2000 2000,
         Heartbeat 3000])) \<le> 1"
proof -
  let ?q = "\<lparr>qContractId = ''MNQ'', lastPrice = Fin 101, qVolume = Some (Fin 50)\<rparr>"
  let ?t = "handleSignal measuredTrader buySignal (deltaBar ''c'' 500)"
  let ?t2 = "orderSettled (equitySettled ?t 0 (Some (Fin 50000))) 0 True 1000"
  let ?evs = "[EquitySettled 0 (Some (Fin 50000)), OrderSettled 0 True 1000,
               Quote ?q 2000 2000 2000, Heartbeat 3000]"
  have m: "strictEq (enteredBarStartMs ?t) (barStartMs ?t)"
    and b: "barStartMs ?t = Some (Fin 0)" and r: "running ?t" and c: "contractId ?t = ''MNQ''"
    and a: "awaiting ?t = 1" and o: "orders ?t = []"
    unfolding measuredTrader_signalled
    by (simp_all add: measuredTrader_def tickedTrader_eq strictEq_def jeq_def awaiting_def
        orders_def isOrder_def)
  have b2: "barStartMs ?t2 = Some (Fin 0)"
    using equitySettled_marked [of ?t 0 "Fin 50000"]
      orderSettled_marked [of "equitySettled ?t 0 (Some (Fin 50000))" 0 1000] b by simp
  have k: "\<not> jgt (bucketOf 2000) (Fin 0)" "\<not> jgt (bucketOf 3000) (Fin 0)"
    by (simp_all add: bucketOf_def barStepMs_def jgt_def rnd_eval)
  have q: "barStartMs (step exampleEnv ?t2 (Quote ?q 2000 2000 2000)) = barStartMs ?t2"
    using r c by (intro same_quote [OF _ _ _ b2 k(1)]) simp_all
  have h: "step exampleEnv (step exampleEnv ?t2 (Quote ?q 2000 2000 2000)) (Heartbeat 3000)
      = step exampleEnv ?t2 (Quote ?q 2000 2000 2000)"
    using heartbeat_barStart [of exampleEnv "step exampleEnv ?t2 (Quote ?q 2000 2000 2000)" 3000]
      q b2 k(2) by auto
  have s: "sameBucket exampleEnv ?t ?evs"
    using equitySettled_marked [of ?t 0 "Fin 50000"]
      orderSettled_marked [of "equitySettled ?t 0 (Some (Fin 50000))" 0 1000] q h by simp
  have f: "\<forall>ev \<in> set ?evs. \<not> failure ev" by simp
  from entry_once_per_bucket [OF m s f, of buySignal "deltaBar ''c'' 500"] a o
  show ?thesis by auto
qed

lemma fade_equal_ok:
  assumes "dlt \<noteq> NaN" and "jabs dlt = jmul p (Fin (dflt (deltaFadeRatio (config c)) d0_7))"
  shows "fadeOk c p (jabs dlt)"
proof -
  from assms(1) have "jabs dlt \<noteq> NaN" by (cases dlt) auto
  with assms(2) show ?thesis by (simp add: fadeOk_def jge_def jle_refl)
qed

lemma fade_below_not_ok:
  assumes "jlt (jabs dlt) (jmul p (Fin (dflt (deltaFadeRatio (config c)) d0_7)))"
  shows "\<not> fadeOk c p (jabs dlt)"
proof -
  from assms have "\<not> jle (jmul p (Fin (dflt (deltaFadeRatio (config c)) d0_7))) (jabs dlt)"
    by (auto dest: jle_not_jlt)
  moreover from assms have "\<not> jeq p (Fin 0)"
    by (cases dlt) (auto simp: jeq_def)
  ultimately show ?thesis by (simp add: fadeOk_def jge_def)
qed

lemma barCloseFade_ok:
  "2 \<le> length (bars3min c)
   \<Longrightarrow> fadeOk c (jmax (jabs (dflt (delta (bars3min c ! (length (bars3min c) - 2))) (Fin 0)))
                 (jabs dlt)) (jabs dlt)
   \<Longrightarrow> barCloseFade c dlt = None"
  by (simp add: barCloseFade_def Let_def)

lemma barCloseFade_not_ok:
  "2 \<le> length (bars3min c)
   \<Longrightarrow> \<not> fadeOk c (jmax (jabs (dflt (delta (bars3min c ! (length (bars3min c) - 2))) (Fin 0)))
                 (jabs dlt)) (jabs dlt)
   \<Longrightarrow> barCloseFade c dlt = Some (hold (BarCloseFade (jabs dlt)
         (jmax (jabs (dflt (delta (bars3min c ! (length (bars3min c) - 2))) (Fin 0))) (jabs dlt))))"
  by (simp add: barCloseFade_def Let_def)

lemma generateSignal_at_fade:
  assumes "lastEntryBarTimestamp c \<noteq> Some (timestamp bar)"
    and "isFinite (atr ms) \<and> jgt (atr ms) (Fin (dflt (minAtrToTrade (config c)) 0))"
    and "isFinite (smaSignedDelta c (max 1 (dflt (deltaSMALength (config c)) 20))
           (int (length (bars3min c)) - 1))"
    and "barCloseFade c (dflt (delta bar) (Fin 0)) = Some h"
  shows "generateSignal c bar ms g = (h, c)"
  using assms by (simp add: generateSignal_def Let_def)

lemma generateSignal_past_fade:
  assumes "lastEntryBarTimestamp c \<noteq> Some (timestamp bar)"
    and "isFinite (atr ms) \<and> jgt (atr ms) (Fin (dflt (minAtrToTrade (config c)) 0))"
    and "isFinite (smaSignedDelta c (max 1 (dflt (deltaSMALength (config c)) 20))
           (int (length (bars3min c)) - 1))"
    and "barCloseFade c (dflt (delta bar) (Fin 0)) = None"
  shows "jgt (dflt (delta bar) (Fin 0)) (Fin (dflt (deltaSpikeThreshold (config c)) 450))
         \<and> jgt (dflt (delta bar) (Fin 0))
               (jmul (jabs (smaSignedDelta c (max 1 (dflt (deltaSMALength (config c)) 20))
                              (int (length (bars3min c)) - 1)))
                     (Fin (dflt (deltaSurgeMultiplier (config c)) d1_8)))
         \<and> higherTimeframeTrend ms = Bullish \<and> brokeUpCloseTol g
         \<and> (useEmaFilter (config c) \<longrightarrow> passLong g)
         \<Longrightarrow> generateSignal c bar ms g =
               (\<lparr>signal = Buy, reason = LongEntry (dflt (delta bar) (Fin 0)), confidence = d0_9\<rparr>,
                c\<lparr>lastEntryBarTimestamp := Some (timestamp bar)\<rparr>)"
    and "jlt (dflt (delta bar) (Fin 0)) (jneg (Fin (dflt (deltaSpikeThreshold (config c)) 450)))
         \<and> jlt (dflt (delta bar) (Fin 0))
               (jmul (jneg (jabs (smaSignedDelta c (max 1 (dflt (deltaSMALength (config c)) 20))
                              (int (length (bars3min c)) - 1))))
                     (Fin (dflt (deltaSurgeMultiplier (config c)) d1_8)))
         \<and> higherTimeframeTrend ms = Bearish \<and> brokeDownCloseTol g
         \<and> (useEmaFilter (config c) \<longrightarrow> passShort g)
         \<Longrightarrow> generateSignal c bar ms g =
               (\<lparr>signal = Sell, reason = ShortEntry (dflt (delta bar) (Fin 0)), confidence = d0_9\<rparr>,
                c\<lparr>lastEntryBarTimestamp := Some (timestamp bar)\<rparr>)"
  using assms by (auto simp: generateSignal_def Let_def)

lemma forming_at_fade:
  assumes "isFinite (atr ms) \<and> jgt (atr ms) (Fin (dflt (minAtrToTrade (config c)) 0))"
    and "isFinite (smaSignedDelta c (max 1 (dflt (deltaSMALength (config c)) 20))
           (int (length (bars3min c)) - 1))"
    and "\<not> fadeOk c (maxOf (map (\<lambda>(d, t). jabs d) (intraBarDeltaHistory c)
                             @ [jabs (dflt (delta bar) (Fin 0)), Fin 0]))
               (jabs (dflt (delta bar) (Fin 0)))"
  shows "generateSignalForFormingBar c bar ms g =
           hold (IntraFade (jabs (dflt (delta bar) (Fin 0)))
                   (maxOf (map (\<lambda>(d, t). jabs d) (intraBarDeltaHistory c)
                           @ [jabs (dflt (delta bar) (Fin 0)), Fin 0])))"
  using assms by (simp add: generateSignalForFormingBar_def Let_def)

lemma forming_past_fade:
  assumes "isFinite (atr ms) \<and> jgt (atr ms) (Fin (dflt (minAtrToTrade (config c)) 0))"
    and "isFinite (smaSignedDelta c (max 1 (dflt (deltaSMALength (config c)) 20))
           (int (length (bars3min c)) - 1))"
    and "fadeOk c (maxOf (map (\<lambda>(d, t). jabs d) (intraBarDeltaHistory c)
                             @ [jabs (dflt (delta bar) (Fin 0)), Fin 0]))
               (jabs (dflt (delta bar) (Fin 0)))"
  shows "jgt (dflt (delta bar) (Fin 0)) (Fin (dflt (deltaSpikeThreshold (config c)) 450))
         \<and> jgt (dflt (delta bar) (Fin 0))
               (jmul (jabs (smaSignedDelta c (max 1 (dflt (deltaSMALength (config c)) 20))
                              (int (length (bars3min c)) - 1)))
                     (Fin (dflt (deltaSurgeMultiplier (config c)) d1_8)))
         \<and> higherTimeframeTrend ms = Bullish \<and> brokeUpCloseTol g
         \<and> (useEmaFilter (config c) \<longrightarrow> passLong g)
         \<Longrightarrow> generateSignalForFormingBar c bar ms g =
               \<lparr>signal = Buy, reason = IntraEntry (dflt (delta bar) (Fin 0)), confidence = d0_85\<rparr>"
    and "jlt (dflt (delta bar) (Fin 0)) (jneg (Fin (dflt (deltaSpikeThreshold (config c)) 450)))
         \<and> jlt (dflt (delta bar) (Fin 0))
               (jmul (jneg (jabs (smaSignedDelta c (max 1 (dflt (deltaSMALength (config c)) 20))
                              (int (length (bars3min c)) - 1))))
                     (Fin (dflt (deltaSurgeMultiplier (config c)) d1_8)))
         \<and> higherTimeframeTrend ms = Bearish \<and> brokeDownCloseTol g
         \<and> (useEmaFilter (config c) \<longrightarrow> passShort g)
         \<Longrightarrow> generateSignalForFormingBar c bar ms g =
               \<lparr>signal = Sell, reason = IntraEntry (dflt (delta bar) (Fin 0)), confidence = d0_85\<rparr>"
  using assms by (auto simp: generateSignalForFormingBar_def Let_def)

lemma forming_fade_hold:
  "\<not> fadeOk c (maxOf (map (\<lambda>(d, t). jabs d) (intraBarDeltaHistory c)
                        @ [jabs (dflt (delta bar) (Fin 0)), Fin 0]))
          (jabs (dflt (delta bar) (Fin 0)))
   \<Longrightarrow> signal (generateSignalForFormingBar c bar ms g) = Hold"
  by (simp add: generateSignalForFormingBar_def Let_def hold_def)

lemma forming_no_fade:
  "fadeOk c (maxOf (map (\<lambda>(d, t). jabs d) (intraBarDeltaHistory c)
                        @ [jabs (dflt (delta bar) (Fin 0)), Fin 0]))
          (jabs (dflt (delta bar) (Fin 0)))
   \<Longrightarrow> reason (generateSignalForFormingBar c bar ms g) \<noteq> IntraFade x y"
  by (simp add: generateSignalForFormingBar_def Let_def hold_def)

text \<open>
  Claim C8. With \<open>R\<close> the fade ratio and \<open>P\<close> the peak magnitude, on the bar-close path
  (two bars stored, the peak taken over the previous and the current bar) and on the
  intra-bar path (the peak taken over the intra-bar history, the current sample and 0).

  On either path a current delta whose magnitude is exactly \<open>P * R\<close> passes the fade
  filter: the result is never the fade hold, and when the evaluation gets as far as the
  filter (the bar is not the one already entered, the ATR is over its minimum, the delta
  average is a number) and the delta, the trend, the breakout and the EMA gate qualify
  the bar for an entry, the result is that entry: buy on the long side, sell on the short
  side, with confidence 0.9 at bar close and 0.85 intra-bar.

  On either path a strictly smaller magnitude produces a hold, and when the evaluation
  gets as far as the filter it is the hold of the fade filter, carrying the magnitude
  and the peak, whatever the other gates say.
\<close>

theorem fade_filter_boundary:
  assumes "dlt = dflt (delta bar) (Fin 0)"
    and "R = dflt (deltaFadeRatio (config c)) d0_7"
    and "P = jmax (jabs (dflt (delta (bars3min c ! (length (bars3min c) - 2))) (Fin 0))) (jabs dlt)"
    and "P' = maxOf (map (\<lambda>(d, t). jabs d) (intraBarDeltaHistory c) @ [jabs dlt, Fin 0])"
    and "sma = smaSignedDelta c (max 1 (dflt (deltaSMALength (config c)) 20))
                 (int (length (bars3min c)) - 1)"
    and "reached = (isFinite (atr ms) \<and> jgt (atr ms) (Fin (dflt (minAtrToTrade (config c)) 0))
                    \<and> isFinite sma)"
    and "goLong = (jgt dlt (Fin (dflt (deltaSpikeThreshold (config c)) 450))
                   \<and> jgt dlt (jmul (jabs sma) (Fin (dflt (deltaSurgeMultiplier (config c)) d1_8)))
                   \<and> higherTimeframeTrend ms = Bullish \<and> brokeUpCloseTol g
                   \<and> (useEmaFilter (config c) \<longrightarrow> passLong g))"
    and "goShort = (jlt dlt (jneg (Fin (dflt (deltaSpikeThreshold (config c)) 450)))
                    \<and> jlt dlt (jmul (jneg (jabs sma))
                                 (Fin (dflt (deltaSurgeMultiplier (config c)) d1_8)))
                    \<and> higherTimeframeTrend ms = Bearish \<and> brokeDownCloseTol g
                    \<and> (useEmaFilter (config c) \<longrightarrow> passShort g))"
  shows "(2 \<le> length (bars3min c) \<and> dlt \<noteq> NaN \<and> jabs dlt = jmul P (Fin R) \<longrightarrow>
           barCloseFade c dlt = None
           \<and> (\<forall>x y. reason (fst (generateSignal c bar ms g)) \<noteq> BarCloseFade x y)
           \<and> (reached \<and> lastEntryBarTimestamp c \<noteq> Some (timestamp bar) \<and> goLong \<longrightarrow>
                generateSignal c bar ms g =
                  (\<lparr>signal = Buy, reason = LongEntry dlt, confidence = d0_9\<rparr>,
                   c\<lparr>lastEntryBarTimestamp := Some (timestamp bar)\<rparr>))
           \<and> (reached \<and> lastEntryBarTimestamp c \<noteq> Some (timestamp bar) \<and> goShort \<longrightarrow>
                generateSignal c bar ms g =
                  (\<lparr>signal = Sell, reason = ShortEntry dlt, confidence = d0_9\<rparr>,
                   c\<lparr>lastEntryBarTimestamp := Some (timestamp bar)\<rparr>)))
       \<and> (2 \<le> length (bars3min c) \<and> jlt (jabs dlt) (jmul P (Fin R)) \<longrightarrow>
           signal (fst (generateSignal c bar ms g)) = Hold
           \<and> (reached \<and> lastEntryBarTimestamp c \<noteq> Some (timestamp bar) \<longrightarrow>
                generateSignal c bar ms g = (hold (BarCloseFade (jabs dlt) P), c)))
       \<and> (dlt \<noteq> NaN \<and> jabs dlt = jmul P' (Fin R) \<longrightarrow>
           fadeOk c P' (jabs dlt)
           \<and> (\<forall>x y. reason (generateSignalForFormingBar c bar ms g) \<noteq> IntraFade x y)
           \<and> (reached \<and> goLong \<longrightarrow>
                generateSignalForFormingBar c bar ms g =
                  \<lparr>signal = Buy, reason = IntraEntry dlt, confidence = d0_85\<rparr>)
           \<and> (reached \<and> goShort \<longrightarrow>
                generateSignalForFormingBar c bar ms g =
                  \<lparr>signal = Sell, reason = IntraEntry dlt, confidence = d0_85\<rparr>))
       \<and> (jlt (jabs dlt) (jmul P' (Fin R)) \<longrightarrow>
           signal (generateSignalForFormingBar c bar ms g) = Hold
           \<and> (reached \<longrightarrow>
                generateSignalForFormingBar c bar ms g = hold (IntraFade (jabs dlt) P')))"
proof -
  note defs = assms(1) assms(2) assms(3) assms(4) assms(5)
  have a: "barCloseFade c dlt = None
           \<and> (\<forall>x y. reason (fst (generateSignal c bar ms g)) \<noteq> BarCloseFade x y)
           \<and> (reached \<and> lastEntryBarTimestamp c \<noteq> Some (timestamp bar) \<and> goLong \<longrightarrow>
                generateSignal c bar ms g =
                  (\<lparr>signal = Buy, reason = LongEntry dlt, confidence = d0_9\<rparr>,
                   c\<lparr>lastEntryBarTimestamp := Some (timestamp bar)\<rparr>))
           \<and> (reached \<and> lastEntryBarTimestamp c \<noteq> Some (timestamp bar) \<and> goShort \<longrightarrow>
                generateSignal c bar ms g =
                  (\<lparr>signal = Sell, reason = ShortEntry dlt, confidence = d0_9\<rparr>,
                   c\<lparr>lastEntryBarTimestamp := Some (timestamp bar)\<rparr>))"
    if h: "2 \<le> length (bars3min c) \<and> dlt \<noteq> NaN \<and> jabs dlt = jmul P (Fin R)"
  proof -
    from h have "fadeOk c P (jabs dlt)"
      unfolding assms(2) by (intro fade_equal_ok) simp_all
    with h have n: "barCloseFade c (dflt (delta bar) (Fin 0)) = None"
      unfolding assms(3) assms(1) by (intro barCloseFade_ok) simp_all
    have r: "\<forall>x y. reason (fst (generateSignal c bar ms g)) \<noteq> BarCloseFade x y"
      using generateSignal_no_fade [OF n] by blast
    have l: "generateSignal c bar ms g =
                  (\<lparr>signal = Buy, reason = LongEntry dlt, confidence = d0_9\<rparr>,
                   c\<lparr>lastEntryBarTimestamp := Some (timestamp bar)\<rparr>)"
      if "reached \<and> lastEntryBarTimestamp c \<noteq> Some (timestamp bar) \<and> goLong"
      using that unfolding assms(6) assms(7) assms(5) assms(1)
      by (intro generateSignal_past_fade(1) [OF _ _ _ n]) blast+
    have s: "generateSignal c bar ms g =
                  (\<lparr>signal = Sell, reason = ShortEntry dlt, confidence = d0_9\<rparr>,
                   c\<lparr>lastEntryBarTimestamp := Some (timestamp bar)\<rparr>)"
      if "reached \<and> lastEntryBarTimestamp c \<noteq> Some (timestamp bar) \<and> goShort"
      using that unfolding assms(6) assms(8) assms(5) assms(1)
      by (intro generateSignal_past_fade(2) [OF _ _ _ n]) blast+
    from n r l s show ?thesis unfolding assms(1) by blast
  qed
  have b: "signal (fst (generateSignal c bar ms g)) = Hold
           \<and> (reached \<and> lastEntryBarTimestamp c \<noteq> Some (timestamp bar) \<longrightarrow>
                generateSignal c bar ms g = (hold (BarCloseFade (jabs dlt) P), c))"
    if h: "2 \<le> length (bars3min c) \<and> jlt (jabs dlt) (jmul P (Fin R))"
  proof -
    from h have "\<not> fadeOk c P (jabs dlt)"
      unfolding assms(2) by (intro fade_below_not_ok) simp
    with h have f: "barCloseFade c (dflt (delta bar) (Fin 0))
        = Some (hold (BarCloseFade (jabs (dflt (delta bar) (Fin 0)))
            (jmax (jabs (dflt (delta (bars3min c ! (length (bars3min c) - 2))) (Fin 0)))
               (jabs (dflt (delta bar) (Fin 0))))))"
      unfolding assms(3) assms(1) by (intro barCloseFade_not_ok) simp_all
    have "signal (fst (generateSignal c bar ms g)) = Hold"
      by (rule generateSignal_fade_hold [OF f]) (simp add: hold_def)
    moreover have "generateSignal c bar ms g = (hold (BarCloseFade (jabs dlt) P), c)"
      if "reached \<and> lastEntryBarTimestamp c \<noteq> Some (timestamp bar)"
      using that unfolding assms(6) assms(5) assms(3) assms(1)
      by (intro generateSignal_at_fade [OF _ _ _ f]) blast+
    ultimately show ?thesis by blast
  qed
  have c': "fadeOk c P' (jabs dlt)
           \<and> (\<forall>x y. reason (generateSignalForFormingBar c bar ms g) \<noteq> IntraFade x y)
           \<and> (reached \<and> goLong \<longrightarrow>
                generateSignalForFormingBar c bar ms g =
                  \<lparr>signal = Buy, reason = IntraEntry dlt, confidence = d0_85\<rparr>)
           \<and> (reached \<and> goShort \<longrightarrow>
                generateSignalForFormingBar c bar ms g =
                  \<lparr>signal = Sell, reason = IntraEntry dlt, confidence = d0_85\<rparr>)"
    if h: "dlt \<noteq> NaN \<and> jabs dlt = jmul P' (Fin R)"
  proof -
    from h have f0: "fadeOk c P' (jabs dlt)"
      unfolding assms(2) by (intro fade_equal_ok) simp_all
    then have f: "fadeOk c (maxOf (map (\<lambda>(d, t). jabs d) (intraBarDeltaHistory c)
                             @ [jabs (dflt (delta bar) (Fin 0)), Fin 0]))
               (jabs (dflt (delta bar) (Fin 0)))"
      unfolding assms(4) assms(1) .
    have r: "\<forall>x y. reason (generateSignalForFormingBar c bar ms g) \<noteq> IntraFade x y"
      using forming_no_fade [OF f] by blast
    have l: "generateSignalForFormingBar c bar ms g =
                  \<lparr>signal = Buy, reason = IntraEntry dlt, confidence = d0_85\<rparr>"
      if "reached \<and> goLong"
      using that unfolding assms(6) assms(7) assms(5) assms(1)
      by (intro forming_past_fade(1) [OF _ _ f]) blast+
    have s: "generateSignalForFormingBar c bar ms g =
                  \<lparr>signal = Sell, reason = IntraEntry dlt, confidence = d0_85\<rparr>"
      if "reached \<and> goShort"
      using that unfolding assms(6) assms(8) assms(5) assms(1)
      by (intro forming_past_fade(2) [OF _ _ f]) blast+
    from f0 r l s show ?thesis by blast
  qed
  have d: "signal (generateSignalForFormingBar c bar ms g) = Hold
           \<and> (reached \<longrightarrow>
                generateSignalForFormingBar c bar ms g = hold (IntraFade (jabs dlt) P'))"
    if h: "jlt (jabs dlt) (jmul P' (Fin R))"
  proof -
    from h have "\<not> fadeOk c P' (jabs dlt)"
      unfolding assms(2) by (intro fade_below_not_ok) simp
    then have f: "\<not> fadeOk c (maxOf (map (\<lambda>(d, t). jabs d) (intraBarDeltaHistory c)
                             @ [jabs (dflt (delta bar) (Fin 0)), Fin 0]))
               (jabs (dflt (delta bar) (Fin 0)))"
      unfolding assms(4) assms(1) .
    have "signal (generateSignalForFormingBar c bar ms g) = Hold"
      by (rule forming_fade_hold [OF f])
    moreover have "generateSignalForFormingBar c bar ms g = hold (IntraFade (jabs dlt) P')"
      if "reached"
      using that unfolding assms(6) assms(5) assms(4) assms(1)
      by (intro forming_at_fade [OF _ _ f]) blast+
    ultimately show ?thesis by blast
  qed
  from a b c' d show ?thesis by blast
qed

lemmas fade_eval = fadeCalc_def deltaBar_def scenarioState_def scenarioGates_def
  bearishState_def bearishGates_def exampleCalc_def newCalculator_def smaSignedDelta_def
  deltaAt_def numOrZero_def jge_def jgt_def jmax_def maxOf_def Let_def upt_rec
  d0_7_def d1_8_def

theorem fade_filter_boundary_witness:
  "generateSignal (fadeCalc (- 1000) 700) (deltaBar ''b'' 700) scenarioState scenarioGates
     = (\<lparr>signal = Buy, reason = LongEntry (Fin 700), confidence = d0_9\<rparr>,
        (fadeCalc (- 1000) 700)\<lparr>lastEntryBarTimestamp := Some ''b''\<rparr>)
   \<and> generateSignalForFormingBar (fadeCalc (- 1000) 700) (deltaBar ''b'' 700) scenarioState
       scenarioGates = \<lparr>signal = Buy, reason = IntraEntry (Fin 700), confidence = d0_85\<rparr>
   \<and> generateSignal (fadeCalc 1000 (- 700)) (deltaBar ''b'' (- 700)) bearishState bearishGates
     = (\<lparr>signal = Sell, reason = ShortEntry (Fin (- 700)), confidence = d0_9\<rparr>,
        (fadeCalc 1000 (- 700))\<lparr>lastEntryBarTimestamp := Some ''b''\<rparr>)
   \<and> generateSignalForFormingBar (fadeCalc 1000 (- 700)) (deltaBar ''b'' (- 700)) bearishState
       bearishGates = \<lparr>signal = Sell, reason = IntraEntry (Fin (- 700)), confidence = d0_85\<rparr>
   \<and> generateSignal (fadeCalc (- 1000) 699) (deltaBar ''b'' 699) scenarioState scenarioGates
     = (hold (BarCloseFade (Fin 699) (Fin 1000)), fadeCalc (- 1000) 699)
   \<and> generateSignalForFormingBar (fadeCalc (- 1000) 699) (deltaBar ''b'' 699) scenarioState
       scenarioGates = hold (IntraFade (Fin 699) (Fin 1000))"
proof -
  note long = fade_filter_boundary [OF refl refl refl refl refl refl refl refl,
      where bar = "deltaBar ''b'' 700" and c = "fadeCalc (- 1000) 700"
        and ms = scenarioState and g = scenarioGates]
  note short = fade_filter_boundary [OF refl refl refl refl refl refl refl refl,
      where bar = "deltaBar ''b'' (- 700)" and c = "fadeCalc 1000 (- 700)"
        and ms = bearishState and g = bearishGates]
  note below = fade_filter_boundary [OF refl refl refl refl refl refl refl refl,
      where bar = "deltaBar ''b'' 699" and c = "fadeCalc (- 1000) 699"
        and ms = scenarioState and g = scenarioGates]
  from long have a: "generateSignal (fadeCalc (- 1000) 700) (deltaBar ''b'' 700) scenarioState
        scenarioGates
     = (\<lparr>signal = Buy, reason = LongEntry (Fin 700), confidence = d0_9\<rparr>,
        (fadeCalc (- 1000) 700)\<lparr>lastEntryBarTimestamp := Some ''b''\<rparr>)
   \<and> generateSignalForFormingBar (fadeCalc (- 1000) 700) (deltaBar ''b'' 700) scenarioState
       scenarioGates = \<lparr>signal = Buy, reason = IntraEntry (Fin 700), confidence = d0_85\<rparr>"
    by (simp add: fade_eval rnd_eval)
  from short have b: "generateSignal (fadeCalc 1000 (- 700)) (deltaBar ''b'' (- 700)) bearishState
        bearishGates
     = (\<lparr>signal = Sell, reason = ShortEntry (Fin (- 700)), confidence = d0_9\<rparr>,
        (fadeCalc 1000 (- 700))\<lparr>lastEntryBarTimestamp := Some ''b''\<rparr>)
   \<and> generateSignalForFormingBar (fadeCalc 1000 (- 700)) (deltaBar ''b'' (- 700)) bearishState
       bearishGates = \<lparr>signal = Sell, reason = IntraEntry (Fin (- 700)), confidence = d0_85\<rparr>"
    by (simp add: fade_eval rnd_eval)
  from below have c: "generateSignal (fadeCalc (- 1000) 699) (deltaBar ''b'' 699) scenarioState
        scenarioGates
     = (hold (BarCloseFade (Fin 699) (Fin 1000)), fadeCalc (- 1000) 699)
   \<and> generateSignalForFormingBar (fadeCalc (- 1000) 699) (deltaBar ''b'' 699) scenarioState
       scenarioGates = hold (IntraFade (Fin 699) (Fin 1000))"
    by (simp add: fade_eval rnd_eval)
  from a b c show ?thesis by blast
qed

end
